theory Spec2Isabelle
  imports Main "HOL-Library.Multiset" "HOL-Library.Sublist" "HOL-Library.AList"
begin

section \<open>Constants and cards (game/core/state.py)\<close>

text \<open>
  Player ids are \<open>Union[int, str]\<close>: Telegram user ids are integers, AI ids are
  strings of the form \<open>ai_<n>_<rand>\<close>.  Python's truth test on an id
  (\<open>if caller_id\<close>, \<open>if ctx.get('fastest_matcher_id')\<close>) is false for
  \<open>0\<close> and for the empty string.
\<close>

datatype py_id = IntId int | StrId string

fun truthy_id :: "py_id \<Rightarrow> bool" where
  "truthy_id (IntId n) = (n \<noteq> 0)"
| "truthy_id (StrId s) = (s \<noteq> [])"

datatype game_phase =
    SETUP | JOINING | GANGSTER_ASSIGNMENT | WAIT_FOR_AL_CAPONE_CONTINUE | DEALING_CARDS
  | VIEWING | PLAYING | CHARACTER_ABILITY_TARGETING | CHARACTER_ABILITY_ACTION
  | BOTTLE_MATCHING_WINDOW | OMERTA_CALLED | COMPLETED

datatype player_state = ACTIVE | INACTIVE | SKIPPED_TURN

definition MAX_PLAYERS :: nat where "MAX_PLAYERS = 9"
definition OMERTA_THRESHOLD :: int where "OMERTA_THRESHOLD = 7"
definition OMERTA_PENALTY :: int where "OMERTA_PENALTY = 20"
definition SAFE_CARDS_COUNT :: nat where "SAFE_CARDS_COUNT = 4"
definition HAND_CARDS_COUNT :: nat where "HAND_CARDS_COUNT = 4"

text \<open>
  A card is the dict built by \<open>create_deck\<close>: a bottle has the keys type, value,
  name and points; a character has type, name, points, ability and ability_time.
\<close>

datatype card_type = bottle | character

record card =
  ctype :: card_type
  cvalue :: "int option"
  cname :: string
  cpoints :: int
  cability :: "string option"
  cability_time :: "int option"

text \<open>The rows of \<open>CHARACTER_CARDS\<close>: name, points, ability, ability_time.\<close>

definition CHARACTER_CARDS :: "(string \<times> int \<times> string \<times> int) list" where
  "CHARACTER_CARDS =
    [ (''The Lady'', 15, ''Shuffle an opponent's hand without looking'', 20),
      (''The Mole'', 15, ''Look at one of your own cards'', 15),
      (''The Gangster'', 15, ''Swap cards'', 30),
      (''The Snitch'', 20, ''Give deck cards to opponent(s)'', 25),
      (''The Driver'', 20, ''Discard own Bottle cards'', 20),
      (''The Safecracker'', 15, ''Interact with the Safe'', 20),
      (''The Killer'', 15, ''Counter an ability targeting you'', 10),
      (''The Witness'', 10, ''No special ability'', 0),
      (''The Alibi'', 0, ''No points'', 0),
      (''The Mamma'', 15, ''Make opponent skip turn & block Omerta'', 20),
      (''Police Patrol'', 15, ''Block an opponent's card'', 30) ]"

text \<open>Decimal rendering of a number, as an f-string does (\<open>f"Bottle {value}"\<close>, \<open>str(id)\<close>).\<close>

fun str_nat :: "nat \<Rightarrow> string" where
  "str_nat n =
     (if n < 10 then [''0123456789'' ! n]
      else str_nat (n div 10) @ [''0123456789'' ! (n mod 10)])"

declare str_nat.simps [simp del]

definition str_int :: "int \<Rightarrow> string" where
  "str_int i = (if i < 0 then CHR ''-'' # str_nat (nat (- i)) else str_nat (nat i))"

definition bottle_card :: "int \<Rightarrow> card" where
  "bottle_card v =
     \<lparr> ctype = bottle, cvalue = Some v, cname = ''Bottle '' @ str_int v, cpoints = v,
       cability = None, cability_time = None \<rparr>"

definition character_card :: "string \<times> int \<times> string \<times> int \<Rightarrow> card" where
  "character_card t =
     (case t of (n, p, a, tm) \<Rightarrow>
       \<lparr> ctype = character, cvalue = None, cname = n, cpoints = p,
         cability = Some a, cability_time = Some tm \<rparr>)"

text \<open>
  \<open>random.shuffle(x)\<close> is the Fisher-Yates loop
  \<open>for i in reversed(range(1, len(x))): j = randbelow(i + 1); x[i], x[j] = x[j], x[i]\<close>.
  The random source is a parameter: \<open>rnd i\<close> is the number drawn at index \<open>i\<close>,
  reduced below \<open>i + 1\<close>.
\<close>

fun shuffle_from :: "(nat \<Rightarrow> nat) \<Rightarrow> nat \<Rightarrow> 'a list \<Rightarrow> 'a list" where
  "shuffle_from rnd 0 xs = xs"
| "shuffle_from rnd (Suc i) xs =
     (let j = rnd (Suc i) mod (Suc i + 1)
      in shuffle_from rnd i (xs[Suc i := xs ! j, j := xs ! Suc i]))"

definition shuffle :: "(nat \<Rightarrow> nat) \<Rightarrow> 'a list \<Rightarrow> 'a list" where
  "shuffle rnd xs = shuffle_from rnd (length xs - 1) xs"

text \<open>\<open>create_deck\<close> before the call of \<open>random.shuffle\<close>, and the whole function.\<close>

definition unshuffled_deck :: "card list" where
  "unshuffled_deck =
     concat (map (\<lambda>v. replicate 4 (bottle_card v)) [1..10]) @
     concat (map (\<lambda>t. replicate (if fst t \<in> set [''The Alibi'', ''The Witness''] then 3 else 2)
                                 (character_card t)) CHARACTER_CARDS)"

definition create_deck :: "(nat \<Rightarrow> nat) \<Rightarrow> card list" where
  "create_deck rnd = shuffle rnd unshuffled_deck"

section \<open>Session state (GameState.add_game, add_player_to_game, add_ai_player_to_game)\<close>

record player =
  pid :: py_id
  first_name :: string
  hand :: "card list"
  viewed_card_indices :: "int set"
  status :: player_state
  join_time :: int
  is_ai :: bool
  score_this_round :: int
  cannot_call_omerta :: bool

text \<open>
  An ability context is the dict held under \<open>active_ability_context\<close>.  \<open>actx_id\<close> is
  the identity of the dict object, the value of Python's \<open>id(...)\<close> that the timers
  capture; \<open>copy.deepcopy\<close> makes an object with another identity.  The context of a
  Killer prompt also holds the snapshot of the context it suspends.
\<close>

record ability_ctx =
  actx_id :: nat
  ctx_player_id :: py_id
  card_name :: string
  step :: string
  timeout_job_name :: "string option"
  targets_chosen :: "py_id list"
  cards_selected_indices :: "int list"
  gangster_swap_type :: "string option"
  p1_id :: "py_id option"
  p1_card_idx :: "int option"
  p2_id :: "py_id option"
  p2_card_idx :: "int option"
  swap_count :: "int option"

record active_ability =
  ctx :: ability_ctx
  original_ability_context_snapshot :: "ability_ctx option"

text \<open>
  The bottle-match context of \<open>initiate_bottle_matching_window\<close>; \<open>bctx_id\<close> is the
  identity of the dict object.  The window end time and the message handles of the
  notified players belong to the messaging side and are left out.
\<close>

record bottle_ctx =
  bctx_id :: nat
  discarded_card_value :: "int option"
  fastest_matcher_id :: "py_id option"
  bottle_timeout_job_name :: "string option"
  triggering_player_id :: "py_id option"
  failed_matchers :: "py_id set"

record turn_ctx =
  drawn_card :: "card option"
  draw_source :: "string option"
  turn_action :: "string option"
  bottle_to_match_value :: "int option"

record final_score =
  fs_id :: py_id
  fs_name :: string
  fs_score :: int
  fs_is_winner :: bool
  fs_is_ai :: bool

record game =
  chat_id :: int
  phase :: game_phase
  players :: "player list"
  ai_players :: "player list"
  deck :: "card list"
  discard_pile :: "card list"
  safe :: "card list"
  current_player_id :: "py_id option"
  al_capone_player_id :: "py_id option"
  turn_order :: "py_id list"
  cycle_count :: int
  omerta_caller_id :: "py_id option"
  active_ability_context :: "active_ability option"
  bottle_match_context :: "bottle_ctx option"
  blocked_cards :: "(py_id \<times> (int \<times> int) list) list"
  player_turn_context :: "py_id \<rightharpoonup> turn_ctx"
  bottle_match_context_just_ended :: bool
  final_scores_list :: "final_score list option"

text \<open>
  What a handler does outside the session dict: the jobs it cancels and schedules, the
  messages it sends (named by their purpose, the text left out), the call of the
  persistence layer, and the engine function it awaits last.
\<close>

datatype engine_call =
    advance_turn_or_continue_sequence
  | process_discarded_card py_id card
  | execute_the_lady_ability py_id py_id
  | execute_the_mamma_ability py_id py_id
  | execute_the_snitch_ability_call py_id "py_id list"
  | execute_police_patrol_ability_call py_id py_id int
  | execute_gangster_swap "string option" py_id int py_id int

text \<open>
  A button of \<open>keyboards.get_card_selection_keyboard\<close>, by the callback data it carries
  for a hand position.
\<close>

datatype button =
    select_button int
  | deselect_button int
  | no_action_card_blocked int
  | no_action_max_selected int

datatype effect =
    CancelJob string
  | RunOnce string nat
  | GroupMessage string "py_id list"
  | PrivateMessage py_id string
  | CardSelectionKeyboard py_id string "button list"
  | UpdatePlayerStats "final_score list"
  | Await engine_call

text \<open>Python's truth test on an optional id and on an optional string.\<close>

fun truthy_opt_id :: "py_id option \<Rightarrow> bool" where
  "truthy_opt_id None = False"
| "truthy_opt_id (Some i) = truthy_id i"

fun truthy_str :: "string option \<Rightarrow> bool" where
  "truthy_str None = False"
| "truthy_str (Some s) = (s \<noteq> [])"

text \<open>
  \<open>players + ai_players\<close> is a list of references to the player dicts.  A reference
  is the position in that list; \<open>get_player_by_id\<close> returns the first player with the
  id, searching the humans and then the AI players.
\<close>

definition all_participants :: "game \<Rightarrow> player list" where
  "all_participants g = players g @ ai_players g"

definition set_participants :: "game \<Rightarrow> player list \<Rightarrow> game" where
  "set_participants g ps =
     g\<lparr> players := take (length (players g)) ps, ai_players := drop (length (players g)) ps \<rparr>"

fun find_index :: "('a \<Rightarrow> bool) \<Rightarrow> 'a list \<Rightarrow> nat option" where
  "find_index P [] = None"
| "find_index P (x # xs) = (if P x then Some 0 else map_option Suc (find_index P xs))"

definition player_index :: "game \<Rightarrow> py_id \<Rightarrow> nat option" where
  "player_index g i = find_index (\<lambda>p. pid p = i) (all_participants g)"

definition get_player_by_id :: "game \<Rightarrow> py_id \<Rightarrow> player option" where
  "get_player_by_id g i = find (\<lambda>p. pid p = i) (all_participants g)"

definition calculate_score_for_hand :: "card list \<Rightarrow> int" where
  "calculate_score_for_hand h = (if h = [] then 0 else sum_list (map cpoints h))"

section \<open>Omerta settlement (simple_bot.py, handle_omerta_call)\<close>

text \<open>Lines 517-526: a pending ability or bottle context with a timeout job is cancelled and cleared.\<close>

definition omerta_cancel_contexts :: "game \<Rightarrow> game \<times> effect list" where
  "omerta_cancel_contexts g =
     (let (g1, e1) =
            (case active_ability_context g of
               Some a \<Rightarrow>
                 if truthy_str (timeout_job_name (ctx a))
                 then (g\<lparr>active_ability_context := None\<rparr>, [CancelJob (the (timeout_job_name (ctx a)))])
                 else (g, [])
             | None \<Rightarrow> (g, []));
          (g2, e2) =
            (case bottle_match_context g1 of
               Some b \<Rightarrow>
                 if truthy_str (bottle_timeout_job_name b)
                 then (g1\<lparr>bottle_match_context := None\<rparr>, [CancelJob (the (bottle_timeout_job_name b))])
                 else (g1, [])
             | None \<Rightarrow> (g1, []))
      in (g2, e1 @ e2))"

text \<open>Lines 552-558 and 581, as positions in \<open>players + ai_players\<close>.\<close>

definition scoring_filter :: "py_id option \<Rightarrow> player \<Rightarrow> bool" where
  "scoring_filter caller_id p = (status p = ACTIVE \<or> Some (pid p) = caller_id)"

definition active_players_for_scoring :: "py_id option \<Rightarrow> nat option \<Rightarrow> player list \<Rightarrow> nat list" where
  "active_players_for_scoring caller_id caller_idx ps =
     (let a0 = filter (\<lambda>i. scoring_filter caller_id (ps ! i)) [0..<length ps];
          a1 = (if a0 = [] \<and> truthy_opt_id caller_id
                then (case caller_idx of Some ci \<Rightarrow> a0 @ [ci] | None \<Rightarrow> a0)
                else a0)
      in if a1 = [] then [0..<length ps] else a1)"

definition eligible_for_win :: "py_id option \<Rightarrow> nat option \<Rightarrow> player list \<Rightarrow> nat list" where
  "eligible_for_win caller_id caller_idx ps =
     filter (\<lambda>i. scoring_filter caller_id (ps ! i)) (active_players_for_scoring caller_id caller_idx ps)"

text \<open>Lines 560-576: every hand is scored; an inactive participant who is not the caller gets 999.\<close>

definition score_hands :: "py_id option \<Rightarrow> player list \<Rightarrow> player list" where
  "score_hands caller_id ps =
     map (\<lambda>p. p\<lparr>score_this_round :=
                  (if status p \<noteq> ACTIVE \<and> Some (pid p) \<noteq> caller_id then 999
                   else calculate_score_for_hand (hand p))\<rparr>) ps"

text \<open>
  Lines 579-612.  \<open>sorted\<close> is stable, as \<open>sort_key\<close> is.  The penalty is written into
  the caller's dict, which the list \<open>eligible_for_win\<close> refers to, before the second sort.
\<close>

definition determine_winner :: "nat option \<Rightarrow> nat list \<Rightarrow> player list \<Rightarrow> nat option \<times> player list" where
  "determine_winner caller_idx elig ps =
     (if elig = [] then (None, ps)
      else
        let sorted_eligible_players = sort_key (\<lambda>i. score_this_round (ps ! i)) elig;
            actual_lowest_scorer = hd sorted_eligible_players
        in (case caller_idx of
              Some ci \<Rightarrow>
                if ci \<in> set elig then
                  (let caller_score = score_this_round (ps ! ci) in
                   if pid (ps ! ci) = pid (ps ! actual_lowest_scorer) \<and> caller_score \<le> OMERTA_THRESHOLD
                   then (Some ci, ps)
                   else
                     let ps' = ps[ci := (ps ! ci)\<lparr>score_this_round := caller_score + OMERTA_PENALTY\<rparr>];
                         sorted_eligible_players_after_penalty =
                           sort_key (\<lambda>i. score_this_round (ps' ! i)) elig
                     in (Some (hd sorted_eligible_players_after_penalty), ps'))
                else (Some actual_lowest_scorer, ps)
            | None \<Rightarrow> (Some actual_lowest_scorer, ps)))"

text \<open>Lines 635-646: one entry per participant, the winner flagged by id.\<close>

definition make_final_scores :: "nat option \<Rightarrow> player list \<Rightarrow> final_score list" where
  "make_final_scores winner ps =
     (let winner_id_for_db = map_option (\<lambda>w. pid (ps ! w)) winner
      in map (\<lambda>p. \<lparr> fs_id = pid p, fs_name = first_name p, fs_score = score_this_round p,
                    fs_is_winner = (Some (pid p) = winner_id_for_db), fs_is_ai = is_ai p \<rparr>) ps)"

definition handle_omerta_call :: "game \<Rightarrow> py_id option \<Rightarrow> bool \<Rightarrow> bool \<Rightarrow> game \<times> effect list" where
  "handle_omerta_call g caller_id forced_by_no_players forced_by_empty_deck =
     (if phase g = OMERTA_CALLED \<or> phase g = COMPLETED then (g, [])
      else
        let (g1, cancels) = omerta_cancel_contexts g;
            g2 = g1\<lparr>phase := OMERTA_CALLED, omerta_caller_id := caller_id\<rparr>;
            caller_idx = (if truthy_opt_id caller_id then player_index g2 (the caller_id) else None);
            all_participants_at_end = all_participants g2;
            elig = eligible_for_win caller_id caller_idx all_participants_at_end;
            scored = score_hands caller_id all_participants_at_end;
            (winner, final) = determine_winner caller_idx elig scored;
            final_scores = make_final_scores winner final;
            g3 = (set_participants g2 final)\<lparr>final_scores_list := Some final_scores, phase := COMPLETED\<rparr>
        in (g3, cancels @ [GroupMessage ''omerta_announcement'' [], GroupMessage ''final_scores_and_hands'' [],
                           UpdatePlayerStats final_scores, GroupMessage ''play_again'' []]))"

text \<open>
  The first lowest of a list of positions under a score: in the list, no position scores
  lower, and every earlier position scores strictly higher.  It is the head of a stable
  sort by the score.
\<close>

definition first_lowest :: "nat list \<Rightarrow> (nat \<Rightarrow> int) \<Rightarrow> nat \<Rightarrow> bool" where
  "first_lowest idxs f w =
     (w \<in> set idxs \<and> (\<forall>i\<in>set idxs. f w \<le> f i) \<and> (\<forall>i\<in>set idxs. i < w \<longrightarrow> f w < f i))"

section \<open>Dealing (GameState.deal_cards_to_players)\<close>

text \<open>
  \<open>[deck.pop() for _ in range(n)]\<close> takes the last \<open>n\<close> cards, the last one first.
  Every caller tests \<open>len(deck) >= n\<close> before, so \<open>pop\<close> never meets an empty list.
\<close>

fun pop_cards :: "nat \<Rightarrow> card list \<Rightarrow> card list \<times> card list" where
  "pop_cards 0 d = ([], d)"
| "pop_cards (Suc n) d = (let (cs, d') = pop_cards n (butlast d) in (last d # cs, d'))"

fun deal_hands :: "player list \<Rightarrow> card list \<Rightarrow> player list \<times> card list" where
  "deal_hands [] d = ([], d)"
| "deal_hands (p # ps) d =
     (let (h, d1) = (if HAND_CARDS_COUNT \<le> length d then pop_cards HAND_CARDS_COUNT d else ([], d));
          (ps', d2) = deal_hands ps d1
      in (p\<lparr>hand := h\<rparr> # ps', d2))"

text \<open>
  The join times are timestamps, used only to order the players; the turn order is kept
  as the list of the players' ids.
\<close>

definition deal_cards_to_players :: "(nat \<Rightarrow> nat) \<Rightarrow> game \<Rightarrow> bool \<times> game" where
  "deal_cards_to_players rnd g =
     (let g1 = g\<lparr>deck := create_deck rnd\<rparr>;
          everyone = all_participants g1
      in if everyone = [] then (False, g1)
         else
           let (dealt, d1) = deal_hands everyone (deck g1);
               (sf, d2) = (if SAFE_CARDS_COUNT \<le> length d1 then pop_cards SAFE_CARDS_COUNT d1
                           else ([], d1));
               g2 = (set_participants g1 dealt)
                      \<lparr>deck := d2, safe := sf, discard_pile := [], cycle_count := 0\<rparr>;
               ac_id = al_capone_player_id g2;
               order =
                 (if truthy_opt_id ac_id then
                    (case get_player_by_id g2 (the ac_id) of Some ac \<Rightarrow> [ac] | None \<Rightarrow> []) @
                    sort_key join_time (filter (\<lambda>p. Some (pid p) \<noteq> ac_id) dealt)
                  else sort_key join_time dealt);
               g3 = g2\<lparr>turn_order := map pid order\<rparr>
           in if order \<noteq> [] then (True, g3\<lparr>current_player_id := Some (pid (hd order))\<rparr>)
              else (False, g3))"

section \<open>Helpers for the handlers of simple_bot.py\<close>

definition update_player :: "game \<Rightarrow> nat \<Rightarrow> (player \<Rightarrow> player) \<Rightarrow> game" where
  "update_player g i f = set_participants g ((all_participants g)[i := f (all_participants g ! i)])"

text \<open>\<open>xs.pop(i)\<close> for a valid index, and the test \<open>0 <= i < len(xs)\<close>.\<close>

definition remove_nth :: "nat \<Rightarrow> 'a list \<Rightarrow> 'a list" where
  "remove_nth i xs = take i xs @ drop (Suc i) xs"

definition valid_index :: "int \<Rightarrow> 'a list \<Rightarrow> bool" where
  "valid_index i xs = (0 \<le> i \<and> i < int (length xs))"

definition empty_turn_ctx :: turn_ctx where
  "empty_turn_ctx = \<lparr> drawn_card = None, draw_source = None, turn_action = None,
                       bottle_to_match_value = None \<rparr>"

text \<open>\<open>str(player_id)\<close>.\<close>

fun py_str :: "py_id \<Rightarrow> string" where
  "py_str (IntId n) = str_int n"
| "py_str (StrId s) = s"

text \<open>\<open>set(game.get('blocked_cards', {}).get(key, {}).keys())\<close>.\<close>

definition blocked_indices :: "game \<Rightarrow> py_id \<Rightarrow> int list" where
  "blocked_indices g key = (case map_of (blocked_cards g) key of None \<Rightarrow> [] | Some m \<Rightarrow> map fst m)"

text \<open>
  \<open>keyboards.get_card_selection_keyboard\<close>: one button per hand position.  The confirm
  and cancel buttons of the last row are left out.
\<close>

definition get_card_selection_keyboard :: "card list \<Rightarrow> int \<Rightarrow> int list \<Rightarrow> int list \<Rightarrow> button list" where
  "get_card_selection_keyboard player_hand num_to_select currently_selected_indices blocked_card_indices =
     map (\<lambda>i. if i \<in> set blocked_card_indices then no_action_card_blocked i
               else if i \<in> set currently_selected_indices then deselect_button i
               else if num_to_select \<le> int (length currently_selected_indices) \<and> 0 < num_to_select
                    then no_action_max_selected i
               else select_button i)
         (map int [0..<length player_hand])"

section \<open>Bottle matching (handle_bottle_match_attempt)\<close>

text \<open>
  The attempt of a player on the open window.  The session passed in is the registered
  one; the answers to the callback query are left out.  On a match the player is recorded
  as \<open>fastest_matcher_id\<close>, announced to the group, and the window is closed in the same
  run; on a failure the player joins \<open>failed_matchers\<close> and draws a penalty card when the
  deck has one.
\<close>

definition handle_bottle_match_attempt :: "game \<Rightarrow> py_id \<Rightarrow> int \<Rightarrow> bool \<Rightarrow> game \<times> effect list" where
  "handle_bottle_match_attempt g player_id card_idx_to_discard is_ai_attempt =
     (case (player_index g player_id, bottle_match_context g) of
        (Some pi, Some bottle_context) \<Rightarrow>
          if phase g \<noteq> BOTTLE_MATCHING_WINDOW then (g, [])
          else if truthy_opt_id (fastest_matcher_id bottle_context) then (g, [])
          else if player_id \<in> failed_matchers bottle_context then (g, [])
          else
            let player_data = all_participants g ! pi in
            if \<not> valid_index card_idx_to_discard (hand player_data) then (g, [])
            else
              let card_to_match_with = hand player_data ! nat card_idx_to_discard in
              if ctype card_to_match_with = bottle \<and>
                 cvalue card_to_match_with = discarded_card_value bottle_context
              then
                let recorded = bottle_context\<lparr>fastest_matcher_id := Some player_id\<rparr>;
                    g1 = update_player g pi
                           (\<lambda>p. p\<lparr>hand := remove_nth (nat card_idx_to_discard) (hand p)\<rparr>);
                    g2 = g1\<lparr> discard_pile := discard_pile g1 @ [card_to_match_with],
                             bottle_match_context := None,
                             bottle_match_context_just_ended := True,
                             current_player_id := triggering_player_id recorded \<rparr>
                in (g2,
                    (case bottle_timeout_job_name recorded of Some n \<Rightarrow> [CancelJob n] | None \<Rightarrow> []) @
                    (if is_ai_attempt then [] else [PrivateMessage player_id ''match_success'']) @
                    [GroupMessage ''bottle_matched'' [the (fastest_matcher_id recorded)],
                     Await advance_turn_or_continue_sequence])
              else
                let failed = bottle_context\<lparr>failed_matchers := insert player_id (failed_matchers bottle_context)\<rparr>;
                    g1 = g\<lparr>bottle_match_context := Some failed\<rparr>;
                    g2 = (if deck g1 \<noteq> []
                          then (update_player g1 pi (\<lambda>p. p\<lparr>hand := hand p @ [last (deck g1)]\<rparr>))
                                 \<lparr>deck := butlast (deck g1)\<rparr>
                          else g1)
                in (g2,
                    (if is_ai_attempt then [] else [PrivateMessage player_id ''match_failed'']) @
                    [GroupMessage ''bottle_match_failed'' [player_id]])
      | _ \<Rightarrow> (g, []))"

text \<open>A run of attempts on a session, one after the other, with everything they emit.\<close>

fun bottle_attempts :: "game \<Rightarrow> (py_id \<times> int \<times> bool) list \<Rightarrow> game \<times> effect list" where
  "bottle_attempts g [] = (g, [])"
| "bottle_attempts g ((p, i, ai) # rest) =
     (let (g1, e1) = handle_bottle_match_attempt g p i ai;
          (g2, e2) = bottle_attempts g1 rest
      in (g2, e1 @ e2))"

text \<open>
  What a run announces to the group: the players announced as having matched, the
  players announced as having failed; and the players the open window holds as failed.
\<close>

definition announced_winners :: "effect list \<Rightarrow> py_id list" where
  "announced_winners es =
     concat (map (\<lambda>e. case e of GroupMessage m ps \<Rightarrow> if m = ''bottle_matched'' then ps else []
                         | _ \<Rightarrow> []) es)"

definition announced_failures :: "effect list \<Rightarrow> py_id list" where
  "announced_failures es =
     concat (map (\<lambda>e. case e of GroupMessage m ps \<Rightarrow> if m = ''bottle_match_failed'' then ps else []
                         | _ \<Rightarrow> []) es)"

definition failed_so_far :: "game \<Rightarrow> py_id set" where
  "failed_so_far g = (case bottle_match_context g of None \<Rightarrow> {} | Some bc \<Rightarrow> failed_matchers bc)"

section \<open>Drawing and replacing (handle_player_action_draw_deck and the callbacks after it)\<close>

text \<open>
  The reshuffle written out in \<open>handle_player_action_draw_deck\<close> (lines 1261-1265) and
  in \<open>handle_ai_player_turn\<close> (lines 737-741), entered only with a non-empty discard
  pile: the top card stays, the rest becomes the shuffled deck.
\<close>

definition reshuffle_discard_pile :: "(nat \<Rightarrow> nat) \<Rightarrow> game \<Rightarrow> game" where
  "reshuffle_discard_pile rnd g =
     g\<lparr> deck := shuffle rnd (butlast (discard_pile g)), discard_pile := [last (discard_pile g)] \<rparr>"

definition set_drawn_card :: "game \<Rightarrow> py_id \<Rightarrow> card \<Rightarrow> string \<Rightarrow> game" where
  "set_drawn_card g player_id c source =
     (let tc = (case player_turn_context g player_id of Some t \<Rightarrow> t | None \<Rightarrow> empty_turn_ctx)
      in g\<lparr>player_turn_context :=
              (player_turn_context g)(player_id \<mapsto> tc\<lparr>drawn_card := Some c, draw_source := Some source\<rparr>)\<rparr>)"

definition handle_player_action_draw_deck :: "(nat \<Rightarrow> nat) \<Rightarrow> game \<Rightarrow> py_id \<Rightarrow> game \<times> effect list" where
  "handle_player_action_draw_deck rnd g player_id =
     (case player_index g player_id of
        None \<Rightarrow> (g, [])
      | Some pi \<Rightarrow>
          let (g1, e1) =
                (if deck g = [] \<and> discard_pile g \<noteq> []
                 then (reshuffle_discard_pile rnd g, [GroupMessage ''discard_pile_reshuffled'' [player_id]])
                 else (g, []))
          in if deck g1 = []
             then (g1, e1 @ [PrivateMessage player_id ''deck_completely_empty'',
                             PrivateMessage player_id ''deck_empty_choose_another_action''])
             else
               let drawn = last (deck g1);
                   g2 = set_drawn_card (g1\<lparr>deck := butlast (deck g1)\<rparr>) player_id drawn ''deck''
               in (g2, e1 @
                     [CardSelectionKeyboard player_id ''replace_hand_card''
                        (get_card_selection_keyboard (hand (all_participants g2 ! pi)) 1 []
                           (blocked_indices g2 player_id)),
                      GroupMessage ''drew_from_deck'' [player_id]]))"

definition handle_player_action_draw_discard :: "game \<Rightarrow> py_id \<Rightarrow> game \<times> effect list" where
  "handle_player_action_draw_discard g player_id =
     (case player_index g player_id of
        None \<Rightarrow> (g, [])
      | Some pi \<Rightarrow>
          if discard_pile g = []
          then (g, [PrivateMessage player_id ''discard_pile_empty'',
                    PrivateMessage player_id ''choose_another_action''])
          else
            let top_discard = last (discard_pile g);
                can_take_from_discard =
                  (ctype top_discard = bottle \<or>
                   (ctype top_discard = character \<and> cname top_discard = ''The Alibi''))
            in if \<not> can_take_from_discard
               then (g, [PrivateMessage player_id ''cannot_take_from_discard'',
                         PrivateMessage player_id ''choose_another_action''])
               else
                 let g2 = set_drawn_card (g\<lparr>discard_pile := butlast (discard_pile g)\<rparr>)
                            player_id top_discard ''discard''
                 in (g2,
                     [CardSelectionKeyboard player_id ''replace_hand_card''
                        (get_card_selection_keyboard (hand (all_participants g2 ! pi)) 1 []
                           (blocked_indices g2 player_id)),
                      GroupMessage ''took_from_discard'' [player_id]]))"

definition process_card_replacement :: "game \<Rightarrow> py_id \<Rightarrow> int \<Rightarrow> card \<Rightarrow> string option \<Rightarrow> game \<times> effect list" where
  "process_card_replacement g player_id card_idx_to_replace new_card source_of_draw =
     (case player_index g player_id of
        None \<Rightarrow> (g, [])
      | Some pi \<Rightarrow>
          let player_data = all_participants g ! pi in
          if \<not> valid_index card_idx_to_replace (hand player_data)
          then (g, [PrivateMessage player_id ''invalid_card_selection'',
                    PrivateMessage player_id ''still_your_turn''])
          else
            let old_card_replaced = hand player_data ! nat card_idx_to_replace;
                g1 = update_player g pi
                       (\<lambda>p. p\<lparr> hand := (hand p)[nat card_idx_to_replace := new_card],
                                viewed_card_indices := viewed_card_indices p - {card_idx_to_replace} \<rparr>);
                g2 = g1\<lparr>discard_pile := discard_pile g1 @ [old_card_replaced]\<rparr>
            in (g2, [PrivateMessage player_id ''you_replaced'',
                     GroupMessage ''replaced_and_discarded'' [player_id],
                     Await (process_discarded_card player_id old_card_replaced)]))"

text \<open>
  The branches of \<open>handle_callback_query\<close> for the turn buttons.  \<open>user\<close> is the
  Telegram id of the sender, \<open>expected_player_id\<close> the id carried by the button.
\<close>

definition turn_callback_guard :: "game \<Rightarrow> int \<Rightarrow> int \<Rightarrow> bool" where
  "turn_callback_guard g user expected_player_id =
     (phase g = PLAYING \<and> user = expected_player_id \<and> Some (IntId user) = current_player_id g)"

definition cb_turn_draw_deck :: "(nat \<Rightarrow> nat) \<Rightarrow> game \<Rightarrow> int \<Rightarrow> int \<Rightarrow> game \<times> effect list" where
  "cb_turn_draw_deck rnd g user expected_player_id =
     (if \<not> turn_callback_guard g user expected_player_id then (g, [])
      else handle_player_action_draw_deck rnd g (IntId user))"

definition cb_turn_draw_discard :: "game \<Rightarrow> int \<Rightarrow> int \<Rightarrow> game \<times> effect list" where
  "cb_turn_draw_discard g user expected_player_id =
     (if \<not> turn_callback_guard g user expected_player_id then (g, [])
      else handle_player_action_draw_discard g (IntId user))"

definition cb_replace_hand_card_select :: "game \<Rightarrow> int \<Rightarrow> int \<Rightarrow> int \<Rightarrow> game \<times> effect list" where
  "cb_replace_hand_card_select g user expected_player_id card_idx_to_replace =
     (if \<not> turn_callback_guard g user expected_player_id then (g, [])
      else
        let turn_ctx = (case player_turn_context g (IntId user) of Some t \<Rightarrow> t | None \<Rightarrow> empty_turn_ctx)
        in (case drawn_card turn_ctx of
              None \<Rightarrow> (g, [PrivateMessage (IntId user) ''no_drawn_card_context'',
                            PrivateMessage (IntId user) ''still_your_turn''])
            | Some drawn_card_info \<Rightarrow>
                let (g1, e1) = process_card_replacement g (IntId user) card_idx_to_replace
                                 drawn_card_info (draw_source turn_ctx)
                in (g1\<lparr>player_turn_context := (player_turn_context g1)(IntId user := None)\<rparr>, e1)))"

definition cb_replace_hand_card_cancel_overall :: "game \<Rightarrow> int \<Rightarrow> int \<Rightarrow> game \<times> effect list" where
  "cb_replace_hand_card_cancel_overall g user expected_player_id =
     (if \<not> turn_callback_guard g user expected_player_id then (g, [])
      else
        let drawn_card_info =
              (case player_turn_context g (IntId user) of Some t \<Rightarrow> drawn_card t | None \<Rightarrow> None);
            g1 = (case drawn_card_info of
                    Some c \<Rightarrow> g\<lparr>discard_pile := discard_pile g @ [c]\<rparr>
                  | None \<Rightarrow> g)
        in (g1\<lparr>player_turn_context := (player_turn_context g1)(IntId user := None)\<rparr>,
            (if drawn_card_info \<noteq> None \<and> player_turn_context g (IntId user) \<noteq> None
             then [GroupMessage ''cancelled_replacement'' [IntId user]] else []) @
            [PrivateMessage (IntId user) ''your_turn_continues'']))"

section \<open>The turn of an AI player (handle_ai_player_turn)\<close>

text \<open>
  \<open>r\<close> is the number \<open>random.randrange(len(hand))\<close> draws, reduced below the hand
  size.  The second test of an empty hand after the draw cannot be met and is left out.
\<close>

definition handle_ai_player_turn :: "(nat \<Rightarrow> nat) \<Rightarrow> nat \<Rightarrow> game \<Rightarrow> py_id \<Rightarrow> game \<times> effect list" where
  "handle_ai_player_turn rnd r g ai_player_id =
     (case player_index g ai_player_id of
        None \<Rightarrow> (g, [Await advance_turn_or_continue_sequence])
      | Some pi \<Rightarrow>
          let ai_player = all_participants g ! pi in
          if \<not> is_ai ai_player then (g, [Await advance_turn_or_continue_sequence])
          else if hand ai_player = []
          then (let (g', e) = handle_omerta_call g (Some ai_player_id) False True
                in (g', GroupMessage ''ai_pondering'' [ai_player_id] # e))
          else
            let (g1, e1) =
                  (if deck g = [] \<and> discard_pile g \<noteq> []
                   then (reshuffle_discard_pile rnd g, [GroupMessage ''ai_observes_reshuffle'' []])
                   else (g, []))
            in if deck g1 = []
               then (let (g', e) = handle_omerta_call g1 (Some ai_player_id) False True
                     in (g', GroupMessage ''ai_pondering'' [ai_player_id] # e1 @ e))
               else
                 let drawn = last (deck g1);
                     card_to_replace_idx = r mod length (hand ai_player);
                     replaced_card = hand ai_player ! card_to_replace_idx;
                     g2 = update_player (g1\<lparr>deck := butlast (deck g1)\<rparr>) pi
                            (\<lambda>p. p\<lparr>hand := (hand p)[card_to_replace_idx := drawn]\<rparr>);
                     g3 = g2\<lparr>discard_pile := discard_pile g2 @ [replaced_card]\<rparr>
                 in (g3, GroupMessage ''ai_pondering'' [ai_player_id] # e1 @
                           [GroupMessage ''ai_discarded'' [ai_player_id],
                            Await (process_discarded_card ai_player_id replaced_card)]))"

section \<open>Ability effects (execute_the_snitch_ability, execute_the_driver_ability,
  execute_safecracker_exchange, execute_police_patrol_ability)\<close>

text \<open>The loop over the targets of The Snitch: a missing target is skipped, an empty deck ends the loop.\<close>

fun snitch_give :: "py_id list \<Rightarrow> game \<Rightarrow> game \<times> effect list" where
  "snitch_give [] g = (g, [])"
| "snitch_give (target_id # rest) g =
     (case player_index g target_id of
        None \<Rightarrow> snitch_give rest g
      | Some ti \<Rightarrow>
          let target_player = all_participants g ! ti in
          if deck g \<noteq> []
          then (let g1 = (update_player g ti (\<lambda>p. p\<lparr>hand := hand p @ [last (deck g)]\<rparr>))
                           \<lparr>deck := butlast (deck g)\<rparr>;
                    (g2, e2) = snitch_give rest g1
                in (g2, (if is_ai target_player then []
                         else [PrivateMessage (pid target_player) ''snitch_slipped_you_a_card'']) @ e2))
          else (g, if is_ai target_player then []
                   else [PrivateMessage (pid target_player) ''snitch_deck_empty'']))"

definition execute_the_snitch_ability :: "game \<Rightarrow> py_id \<Rightarrow> py_id list \<Rightarrow> game \<times> effect list" where
  "execute_the_snitch_ability g snitch_player_id target_player_ids =
     (case player_index g snitch_player_id of
        None \<Rightarrow> (g\<lparr>active_ability_context := None\<rparr>, [Await advance_turn_or_continue_sequence])
      | Some si \<Rightarrow>
          let (g1, e1) = snitch_give target_player_ids g
          in (g1\<lparr>active_ability_context := None\<rparr>,
              e1 @ [GroupMessage ''snitch_shared_information'' (snitch_player_id # target_player_ids),
                    Await advance_turn_or_continue_sequence]))"

text \<open>
  The loop of The Driver over the chosen positions, highest first: a valid position is
  popped from the hand; a bottle goes on the discard pile, any other card is put aside.
  The state of the loop is the hand, the discard pile, the cards put aside and the viewed
  positions.
\<close>

fun driver_discard :: "int list \<Rightarrow> card list \<Rightarrow> card list \<Rightarrow> card list \<Rightarrow> int set
                        \<Rightarrow> card list \<times> card list \<times> card list \<times> int set" where
  "driver_discard [] h d put_back v = (h, d, put_back, v)"
| "driver_discard (idx # rest) h d put_back v =
     (if valid_index idx h
      then (let card_to_check = h ! nat idx;
                h' = remove_nth (nat idx) h
            in if ctype card_to_check = bottle
               then driver_discard rest h' (d @ [card_to_check]) put_back (v - {idx})
               else driver_discard rest h' d (put_back @ [card_to_check]) (v - {idx}))
      else driver_discard rest h d put_back v)"

text \<open>One penalty card per card put aside, until the deck is empty.\<close>

fun draw_penalties :: "nat \<Rightarrow> card list \<Rightarrow> card list \<Rightarrow> card list \<times> card list" where
  "draw_penalties 0 h d = (h, d)"
| "draw_penalties (Suc n) h d =
     (if d \<noteq> [] then draw_penalties n (h @ [last d]) (butlast d) else (h, d))"

definition execute_the_driver_ability :: "(nat \<Rightarrow> nat) \<Rightarrow> game \<Rightarrow> py_id \<Rightarrow> int list \<Rightarrow> game \<times> effect list" where
  "execute_the_driver_ability rnd g driver_player_id card_indices_to_discard =
     (case player_index g driver_player_id of
        None \<Rightarrow> (g\<lparr>active_ability_context := None\<rparr>, [Await advance_turn_or_continue_sequence])
      | Some di \<Rightarrow>
          let driver_player = all_participants g ! di;
              (h1, d1, cards_to_put_back, v1) =
                driver_discard (rev (sort card_indices_to_discard)) (hand driver_player)
                  (discard_pile g) [] (viewed_card_indices driver_player);
              (h2, v2) = (if cards_to_put_back \<noteq> []
                          then (shuffle rnd (h1 @ cards_to_put_back), {})
                          else (h1, v1));
              (h3, deck3) = draw_penalties (length cards_to_put_back) h2 (deck g);
              g1 = (update_player g di (\<lambda>p. p\<lparr>hand := h3, viewed_card_indices := v2\<rparr>))
                     \<lparr>discard_pile := d1, deck := deck3, active_ability_context := None\<rparr>
          in (g1, [GroupMessage ''driver_made_a_drop'' [driver_player_id]] @
                  (if is_ai driver_player then []
                   else [PrivateMessage driver_player_id ''driver_action_summary'']) @
                  [Await advance_turn_or_continue_sequence]))"

definition execute_safecracker_exchange :: "game \<Rightarrow> py_id \<Rightarrow> int \<Rightarrow> int \<Rightarrow> game \<times> effect list" where
  "execute_safecracker_exchange g safecracker_player_id safe_card_idx_to_take hand_card_idx_to_give =
     (case player_index g safecracker_player_id of
        None \<Rightarrow> (g\<lparr>active_ability_context := None\<rparr>, [Await advance_turn_or_continue_sequence])
      | Some si \<Rightarrow>
          let safecracker_player = all_participants g ! si in
          if hand safecracker_player \<noteq> [] \<and> safe g \<noteq> [] \<and>
             valid_index hand_card_idx_to_give (hand safecracker_player) \<and>
             valid_index safe_card_idx_to_take (safe g)
          then
            (let card_from_hand = hand safecracker_player ! nat hand_card_idx_to_give;
                 card_from_safe = safe g ! nat safe_card_idx_to_take;
                 g1 = update_player g si
                        (\<lambda>p. p\<lparr> hand := (hand p)[nat hand_card_idx_to_give := card_from_safe],
                                 viewed_card_indices := insert hand_card_idx_to_give (viewed_card_indices p) \<rparr>);
                 g2 = g1\<lparr> safe := (safe g1)[nat safe_card_idx_to_take := card_from_hand],
                          active_ability_context := None \<rparr>
             in (g2, [GroupMessage ''safecracker_exchange'' [safecracker_player_id]] @
                     (if is_ai safecracker_player then []
                      else [PrivateMessage safecracker_player_id ''safecracker_successful'']) @
                     [Await advance_turn_or_continue_sequence]))
          else (g\<lparr>active_ability_context := None\<rparr>,
                [GroupMessage ''safecracker_fumbled'' [safecracker_player_id],
                 Await advance_turn_or_continue_sequence]))"

text \<open>
  Police Patrol stores the block under the key \<open>str(target_player_id)\<close>:
  \<open>blocked_cards[str(id)][card_idx] = 2\<close>.
\<close>

definition execute_police_patrol_ability :: "game \<Rightarrow> py_id \<Rightarrow> py_id \<Rightarrow> int \<Rightarrow> game \<times> effect list" where
  "execute_police_patrol_ability g police_player_id target_player_id target_card_idx =
     (case (player_index g police_player_id, player_index g target_player_id) of
        (Some pi, Some ti) \<Rightarrow>
          let target_player = all_participants g ! ti in
          if hand target_player \<noteq> [] \<and> valid_index target_card_idx (hand target_player)
          then
            (let target_player_id_str = StrId (py_str target_player_id);
                 blocked_map = (case map_of (blocked_cards g) target_player_id_str of
                                  None \<Rightarrow> [] | Some m \<Rightarrow> m);
                 g1 = g\<lparr> blocked_cards :=
                            AList.update target_player_id_str
                              (AList.update target_card_idx 2 blocked_map) (blocked_cards g),
                          active_ability_context := None \<rparr>
             in (g1, [GroupMessage ''police_patrol_blocked'' [police_player_id, target_player_id]] @
                     (if is_ai target_player then []
                      else [PrivateMessage (pid target_player) ''police_patrol_blocked_your_card'']) @
                     [Await advance_turn_or_continue_sequence]))
          else (g\<lparr>active_ability_context := None\<rparr>,
                [GroupMessage ''police_patrol_no_card'' [police_player_id, target_player_id],
                 Await advance_turn_or_continue_sequence])
      | _ \<Rightarrow> (g\<lparr>active_ability_context := None\<rparr>, [Await advance_turn_or_continue_sequence]))"

text \<open>
  \<open>decrement_blocked_cards_at_cycle_start\<close>: every counter goes down by one, an entry
  that reaches zero is deleted, and a player left with no entry is deleted.  The notices of
  the expired blocks are left out.
\<close>

definition decrement_blocked_cards_at_cycle_start :: "game \<Rightarrow> game" where
  "decrement_blocked_cards_at_cycle_start g =
     g\<lparr>blocked_cards :=
         filter (\<lambda>(player_key, blocked_map). blocked_map \<noteq> [])
           (map (\<lambda>(player_key, blocked_map).
                   (player_key,
                    filter (\<lambda>(card_idx, cycles_left). 0 < cycles_left)
                      (map (\<lambda>(card_idx, cycles_left). (card_idx, cycles_left - 1)) blocked_map)))
                (blocked_cards g))\<rparr>"

section \<open>The Killer interrupt (check_for_killer_reaction,
  resume_original_ability_after_killer_interaction)\<close>

text \<open>
  \<open>snapshot_id\<close> and \<open>killer_id\<close> are the identities of the two objects the function
  creates: the deep copy of the suspended context and the context of the Killer prompt.
\<close>

definition check_for_killer_reaction ::
    "game \<Rightarrow> py_id \<Rightarrow> py_id \<Rightarrow> string \<Rightarrow> nat \<Rightarrow> nat \<Rightarrow> nat \<Rightarrow> bool \<times> game \<times> effect list" where
  "check_for_killer_reaction g original_ability_user_id player_being_targeted_id original_ability_name
       original_ability_context_signature_at_snapshot snapshot_id killer_id =
     (case active_ability_context g of
        None \<Rightarrow> (False, g, [])
      | Some original_ability_full_context \<Rightarrow>
          if actx_id (ctx original_ability_full_context) \<noteq> original_ability_context_signature_at_snapshot
          then (False, g, [])
          else
            (case get_player_by_id g player_being_targeted_id of
               None \<Rightarrow> (False, g, [])
             | Some player_being_targeted \<Rightarrow>
                 if is_ai player_being_targeted then (False, g, [])
                 else
                   let had_job = truthy_str (timeout_job_name (ctx original_ability_full_context));
                       cancelled = (if had_job
                                    then (ctx original_ability_full_context)\<lparr>timeout_job_name := None\<rparr>
                                    else ctx original_ability_full_context);
                       snapshotted_original_context = cancelled\<lparr>actx_id := snapshot_id\<rparr>;
                       killer_context =
                         \<lparr> ctx = \<lparr> actx_id = killer_id, ctx_player_id = player_being_targeted_id,
                                   card_name = ''The Killer'', step = ''killer_prompt_for_use'',
                                   timeout_job_name = Some ''killer_react_timeout'',
                                   targets_chosen = [], cards_selected_indices = [],
                                   gangster_swap_type = None, p1_id = None, p1_card_idx = None,
                                   p2_id = None, p2_card_idx = None, swap_count = None \<rparr>,
                           original_ability_context_snapshot = Some snapshotted_original_context \<rparr>
                   in (True, g\<lparr>active_ability_context := Some killer_context\<rparr>,
                       (if had_job
                        then [CancelJob (the (timeout_job_name (ctx original_ability_full_context)))]
                        else []) @
                       [PrivateMessage player_being_targeted_id ''killer_prompt'',
                        RunOnce ''character_ability_timeout_job'' killer_id,
                        GroupMessage ''is_being_targeted''
                          [player_being_targeted_id, original_ability_user_id]])))"

text \<open>
  The resume after the Killer step.  Python's \<open>x in s\<close>, \<open>s.endswith(x)\<close> and
  \<open>s.startswith(x)\<close> on strings are \<open>sublist\<close>, \<open>suffix\<close> and \<open>prefix\<close>.  A
  re-prompt leaves the restored context in place with a new timeout job, guarded by the
  identity of that context.
\<close>

definition reprompt :: "game \<Rightarrow> ability_ctx \<Rightarrow> string \<Rightarrow> game \<times> effect list" where
  "reprompt g c prompt =
     (g\<lparr>active_ability_context :=
          Some \<lparr> ctx = c\<lparr>timeout_job_name := Some ''ability_timeout_RESUMED''\<rparr>,
                 original_ability_context_snapshot = None \<rparr>\<rparr>,
      [PrivateMessage (ctx_player_id c) ''resuming_make_your_selection_again'',
       PrivateMessage (ctx_player_id c) prompt,
       RunOnce ''character_ability_timeout_job'' (actx_id c)])"

definition resume_original_ability_after_killer_interaction ::
    "game \<Rightarrow> ability_ctx option \<Rightarrow> string \<Rightarrow> game \<times> effect list" where
  "resume_original_ability_after_killer_interaction g original_ability_ctx_snapshot killer_action_result =
     (case original_ability_ctx_snapshot of
        None \<Rightarrow> (g\<lparr>active_ability_context := None\<rparr>, [Await advance_turn_or_continue_sequence])
      | Some snap \<Rightarrow>
          let g1 = g\<lparr>active_ability_context :=
                       Some \<lparr> ctx = snap, original_ability_context_snapshot = None \<rparr>\<rparr>;
              original_ability_name = card_name snap;
              original_player_id = ctx_player_id snap;
              original_step = step snap
          in
          if \<not> (original_ability_name \<noteq> [] \<and> truthy_id original_player_id \<and> original_step \<noteq> [] \<and>
                 get_player_by_id g1 original_player_id \<noteq> None)
          then (g1\<lparr>active_ability_context := None\<rparr>, [Await advance_turn_or_continue_sequence])
          else if sublist ''_confirm_target'' original_step \<or> sublist ''_confirm_swap'' original_step \<or>
                  sublist ''_confirmed_block_target'' original_step
          then
            (if original_ability_name = ''The Lady'' \<and> targets_chosen snap \<noteq> []
             then (g1, [Await (execute_the_lady_ability original_player_id (hd (targets_chosen snap)))])
             else if original_ability_name = ''The Mamma'' \<and> targets_chosen snap \<noteq> []
             then (g1, [Await (execute_the_mamma_ability original_player_id (hd (targets_chosen snap)))])
             else if original_ability_name = ''The Snitch'' \<and> targets_chosen snap \<noteq> []
             then (g1, [Await (execute_the_snitch_ability_call original_player_id (targets_chosen snap))])
             else if original_ability_name = ''Police Patrol'' \<and> targets_chosen snap \<noteq> [] \<and>
                     cards_selected_indices snap \<noteq> []
             then (g1, [Await (execute_police_patrol_ability_call original_player_id
                                 (hd (targets_chosen snap)) (hd (cards_selected_indices snap)))])
             else if original_ability_name = ''The Gangster'' \<and>
                     truthy_opt_id (p1_id snap) \<and> p1_card_idx snap \<noteq> None \<and>
                     truthy_opt_id (p2_id snap) \<and> p2_card_idx snap \<noteq> None
             then (g1, [Await (execute_gangster_swap (gangster_swap_type snap)
                                 (the (p1_id snap)) (the (p1_card_idx snap))
                                 (the (p2_id snap)) (the (p2_card_idx snap)))])
             else (g1\<lparr>active_ability_context := None\<rparr>,
                   [PrivateMessage original_player_id ''flow_was_interrupted'',
                    Await advance_turn_or_continue_sequence]))
          else if suffix ''_select_target'' original_step \<or> suffix ''_select_targets'' original_step \<or>
                  suffix ''_select_own_card'' original_step \<or>
                  suffix ''_select_opponent_card'' original_step \<or>
                  prefix ''gangster_others_select_'' original_step
          then
            (if original_ability_name = ''The Lady''
             then reprompt g1 (snap\<lparr>step := ''lady_select_target'', targets_chosen := []\<rparr>)
                    ''resuming_the_lady''
             else if original_ability_name = ''The Mamma''
             then reprompt g1 (snap\<lparr>step := ''mamma_select_target'', targets_chosen := []\<rparr>)
                    ''resuming_the_mamma''
             else if original_ability_name = ''The Snitch''
             then reprompt g1 (snap\<lparr>step := ''snitch_select_targets'', targets_chosen := []\<rparr>)
                    ''resuming_the_snitch''
             else if original_ability_name = ''Police Patrol''
             then reprompt g1 (snap\<lparr>step := ''police_select_target_player'', targets_chosen := [],
                                     cards_selected_indices := []\<rparr>)
                    ''resuming_police_patrol''
             else if original_ability_name = ''The Gangster''
             then reprompt g1 (snap\<lparr>step := ''gangster_select_action_type'', gangster_swap_type := None,
                                     p1_id := None, p1_card_idx := None, p2_id := None,
                                     p2_card_idx := None, targets_chosen := [],
                                     cards_selected_indices := []\<rparr>)
                    ''resuming_the_gangster''
             else (g1\<lparr>active_ability_context := None\<rparr>,
                   [PrivateMessage original_player_id ''resuming_make_your_selection_again'',
                    PrivateMessage original_player_id ''action_was_interrupted'',
                    Await advance_turn_or_continue_sequence]))
          else (g1\<lparr>active_ability_context := None, current_player_id := Some original_player_id\<rparr>,
                [PrivateMessage original_player_id ''effect_is_lost'',
                 Await advance_turn_or_continue_sequence]))"

text \<open>
  The branch \<open>killer_decline_\<close> of \<open>handle_callback_query\<close>: the target declines the
  Killer prompt whose identity the button carries.
\<close>

definition cb_killer_decline :: "game \<Rightarrow> int \<Rightarrow> int \<Rightarrow> nat \<Rightarrow> game \<times> effect list" where
  "cb_killer_decline g user player_id_from_cb killer_ctx_sig_from_cb =
     (case active_ability_context g of
        None \<Rightarrow> (g, [])
      | Some active_ability_ctx \<Rightarrow>
          if ctx_player_id (ctx active_ability_ctx) \<noteq> IntId user \<or> user \<noteq> player_id_from_cb \<or>
             card_name (ctx active_ability_ctx) \<noteq> ''The Killer'' \<or>
             step (ctx active_ability_ctx) \<noteq> ''killer_prompt_for_use'' \<or>
             actx_id (ctx active_ability_ctx) \<noteq> killer_ctx_sig_from_cb
          then (g, [])
          else
            (case original_ability_context_snapshot active_ability_ctx of
               None \<Rightarrow> (g\<lparr>active_ability_context := None\<rparr>,
                         (case timeout_job_name (ctx active_ability_ctx) of
                            Some n \<Rightarrow> [CancelJob n] | None \<Rightarrow> []) @
                         [Await advance_turn_or_continue_sequence])
             | Some original_ability_snapshot \<Rightarrow>
                 (let (g1, e1) = resume_original_ability_after_killer_interaction
                                   (g\<lparr>active_ability_context := None\<rparr>)
                                   (Some original_ability_snapshot) ''declined''
                  in (g1, (case timeout_job_name (ctx active_ability_ctx) of
                             Some n \<Rightarrow> [CancelJob n] | None \<Rightarrow> []) @
                          [GroupMessage ''declined_to_use_killer''
                             [IntId user, ctx_player_id original_ability_snapshot]] @ e1))))"

section \<open>Timer callbacks (character_ability_timeout_job, end_bottle_match_window_job,
  ai_attempt_bottle_match_job)\<close>

text \<open>
  A job gets the session that \<open>get_game\<close> returns when it fires, \<open>None\<close> when the
  session is gone, and the identity it captured when it was scheduled.  The first two
  read it with \<open>job_data.get\<close>, which may give \<open>None\<close>.
\<close>

definition character_ability_timeout_job :: "game option \<Rightarrow> nat option \<Rightarrow> game option \<times> effect list" where
  "character_ability_timeout_job game_now expected_context_signature =
     (case game_now of
        None \<Rightarrow> (None, [])
      | Some g \<Rightarrow>
          (case active_ability_context g of
             None \<Rightarrow> (Some g, [])
           | Some current_active_ability_ctx \<Rightarrow>
               if Some (actx_id (ctx current_active_ability_ctx)) \<noteq> expected_context_signature
               then (Some g, [])
               else
                 let user_id = ctx_player_id (ctx current_active_ability_ctx);
                     ability_name = card_name (ctx current_active_ability_ctx);
                     notices =
                       (case get_player_by_id g user_id of
                          Some player_obj \<Rightarrow>
                            if is_ai player_obj then [] else [PrivateMessage user_id ''times_up'']
                        | None \<Rightarrow> []) @
                       [GroupMessage ''ran_out_of_time'' [user_id]];
                     original_snapshot =
                       (if ability_name = ''The Killer''
                        then original_ability_context_snapshot current_active_ability_ctx
                        else None);
                     g1 = g\<lparr>active_ability_context := None\<rparr>
                 in (case original_snapshot of
                       Some s \<Rightarrow>
                         (let (g2, e2) = resume_original_ability_after_killer_interaction g1 (Some s)
                                           ''timeout_on_killer_decision''
                          in (Some g2, notices @ e2))
                     | None \<Rightarrow> (Some g1, notices @ [Await advance_turn_or_continue_sequence]))))"

fun truthy_sig :: "nat option \<Rightarrow> bool" where
  "truthy_sig None = False"
| "truthy_sig (Some n) = (n \<noteq> 0)"

definition end_bottle_match_window_job :: "game option \<Rightarrow> nat option \<Rightarrow> game option \<times> effect list" where
  "end_bottle_match_window_job game_now expected_bottle_ctx_signature =
     (case game_now of
        None \<Rightarrow> (None, [])
      | Some g \<Rightarrow>
          (case bottle_match_context g of
             None \<Rightarrow> (Some g, [])
           | Some current_bottle_ctx \<Rightarrow>
               if phase g \<noteq> BOTTLE_MATCHING_WINDOW \<or>
                  (truthy_sig expected_bottle_ctx_signature \<and>
                   Some (bctx_id current_bottle_ctx) \<noteq> expected_bottle_ctx_signature)
               then (Some g, [])
               else
                 let trigger = triggering_player_id current_bottle_ctx;
                     g1 = g\<lparr>bottle_match_context := None, bottle_match_context_just_ended := True\<rparr>;
                     g2 = (if truthy_opt_id trigger then g1\<lparr>current_player_id := trigger\<rparr> else g1)
                 in (Some g2,
                     (if truthy_opt_id (fastest_matcher_id current_bottle_ctx) then []
                      else [GroupMessage ''bottle_matching_window_closed'' []]) @
                     [Await advance_turn_or_continue_sequence])))"

definition ai_attempt_bottle_match_job ::
    "game option \<Rightarrow> py_id \<Rightarrow> int \<Rightarrow> nat \<Rightarrow> game option \<times> effect list" where
  "ai_attempt_bottle_match_job game_now ai_player_id ai_card_idx_to_match expected_bottle_ctx_signature =
     (case game_now of
        None \<Rightarrow> (None, [])
      | Some g \<Rightarrow>
          if phase g \<noteq> BOTTLE_MATCHING_WINDOW then (Some g, [])
          else
            (case bottle_match_context g of
               None \<Rightarrow> (Some g, [])
             | Some current_bottle_ctx \<Rightarrow>
                 if bctx_id current_bottle_ctx \<noteq> expected_bottle_ctx_signature then (Some g, [])
                 else if truthy_opt_id (fastest_matcher_id current_bottle_ctx) then (Some g, [])
                 else (let (g1, e1) = handle_bottle_match_attempt g ai_player_id ai_card_idx_to_match True
                       in (Some g1, e1))))"

section \<open>Card accounting\<close>

text \<open>
  The cards of a session lie in four containers: the deck, the hands, the discard pile
  and the safe.  \<open>cards_in_play\<close> is their multiset, \<open>card_count\<close> their number.
  Between a draw and the choice of the card to replace, the drawn card is held in the turn
  context of the player (\<open>player_turn_context[user]['drawn_card']\<close>): \<open>pending_draw\<close>
  reads it, \<open>held\<close> is its multiset.
\<close>

definition hand_cards :: "player list \<Rightarrow> card multiset" where
  "hand_cards ps = mset (concat (map hand ps))"

definition cards_in_play :: "game \<Rightarrow> card multiset" where
  "cards_in_play g =
     mset (deck g) + hand_cards (all_participants g) + mset (discard_pile g) + mset (safe g)"

definition card_count :: "game \<Rightarrow> nat" where
  "card_count g =
     length (deck g) + sum_list (map (length \<circ> hand) (all_participants g)) +
     length (discard_pile g) + length (safe g)"

definition pending_draw :: "game \<Rightarrow> py_id \<Rightarrow> card option" where
  "pending_draw g p = (case player_turn_context g p of None \<Rightarrow> None | Some t \<Rightarrow> drawn_card t)"

definition held :: "game \<Rightarrow> py_id \<Rightarrow> card multiset" where
  "held g p = (case pending_draw g p of None \<Rightarrow> {#} | Some c \<Rightarrow> {#c#})"

definition pile_sizes :: "game \<Rightarrow> nat \<times> nat list \<times> nat \<times> nat" where
  "pile_sizes g = (length (deck g), map (length \<circ> hand) (all_participants g),
                   length (discard_pile g), length (safe g))"

text \<open>
  A replacement as the player makes it: the draw button, then the button of the hand
  position (or the cancel button, which discards the drawn card).
\<close>

definition replace_from_deck :: "(nat \<Rightarrow> nat) \<Rightarrow> game \<Rightarrow> int \<Rightarrow> int \<Rightarrow> game \<times> effect list" where
  "replace_from_deck rnd g user idx =
     (let (g1, e1) = cb_turn_draw_deck rnd g user user;
          (g2, e2) = cb_replace_hand_card_select g1 user user idx
      in (g2, e1 @ e2))"

definition replace_from_discard :: "game \<Rightarrow> int \<Rightarrow> int \<Rightarrow> game \<times> effect list" where
  "replace_from_discard g user idx =
     (let (g1, e1) = cb_turn_draw_discard g user user;
          (g2, e2) = cb_replace_hand_card_select g1 user user idx
      in (g2, e1 @ e2))"

definition draw_deck_and_cancel :: "(nat \<Rightarrow> nat) \<Rightarrow> game \<Rightarrow> int \<Rightarrow> game \<times> effect list" where
  "draw_deck_and_cancel rnd g user =
     (let (g1, e1) = cb_turn_draw_deck rnd g user user;
          (g2, e2) = cb_replace_hand_card_cancel_overall g1 user user
      in (g2, e1 @ e2))"

definition draw_discard_and_cancel :: "game \<Rightarrow> int \<Rightarrow> game \<times> effect list" where
  "draw_discard_and_cancel g user =
     (let (g1, e1) = cb_turn_draw_discard g user user;
          (g2, e2) = cb_replace_hand_card_cancel_overall g1 user user
      in (g2, e1 @ e2))"

text \<open>
  The operations of a round that move cards.  A replacement is legal for a player who
  holds no drawn card and names a position of the hand; the reshuffle is legal where the
  code enters it, with an empty deck and a non-empty discard pile.  A run applies the
  operations one after the other and is \<open>None\<close> when one of them is not legal.
\<close>

datatype game_op =
    ReplaceFromDeck "nat \<Rightarrow> nat" int int
  | ReplaceFromDiscard int int
  | DrawDeckAndCancel "nat \<Rightarrow> nat" int
  | DrawDiscardAndCancel int
  | AiTurn "nat \<Rightarrow> nat" nat py_id
  | BottleMatchAttempt py_id int bool
  | SnitchGives py_id "py_id list"
  | DriverDiscards "nat \<Rightarrow> nat" py_id "int list"
  | SafecrackerExchange py_id int int
  | Reshuffle "nat \<Rightarrow> nat"

definition legal_replacement :: "game \<Rightarrow> int \<Rightarrow> int \<Rightarrow> bool" where
  "legal_replacement g user idx =
     (pending_draw g (IntId user) = None \<and>
      (case player_index g (IntId user) of
         None \<Rightarrow> True
       | Some pi \<Rightarrow> valid_index idx (hand (all_participants g ! pi))))"

fun legal_op :: "game \<Rightarrow> game_op \<Rightarrow> bool" where
  "legal_op g (ReplaceFromDeck rnd user idx) = legal_replacement g user idx"
| "legal_op g (ReplaceFromDiscard user idx) = legal_replacement g user idx"
| "legal_op g (DrawDeckAndCancel rnd user) = (pending_draw g (IntId user) = None)"
| "legal_op g (DrawDiscardAndCancel user) = (pending_draw g (IntId user) = None)"
| "legal_op g (Reshuffle rnd) = (deck g = [] \<and> discard_pile g \<noteq> [])"
| "legal_op g _ = True"

fun apply_op :: "game \<Rightarrow> game_op \<Rightarrow> game" where
  "apply_op g (ReplaceFromDeck rnd user idx) = fst (replace_from_deck rnd g user idx)"
| "apply_op g (ReplaceFromDiscard user idx) = fst (replace_from_discard g user idx)"
| "apply_op g (DrawDeckAndCancel rnd user) = fst (draw_deck_and_cancel rnd g user)"
| "apply_op g (DrawDiscardAndCancel user) = fst (draw_discard_and_cancel g user)"
| "apply_op g (AiTurn rnd r ai_player_id) = fst (handle_ai_player_turn rnd r g ai_player_id)"
| "apply_op g (BottleMatchAttempt p i ai) = fst (handle_bottle_match_attempt g p i ai)"
| "apply_op g (SnitchGives p targets) = fst (execute_the_snitch_ability g p targets)"
| "apply_op g (DriverDiscards rnd p idxs) = fst (execute_the_driver_ability rnd g p idxs)"
| "apply_op g (SafecrackerExchange p si hi) = fst (execute_safecracker_exchange g p si hi)"
| "apply_op g (Reshuffle rnd) = reshuffle_discard_pile rnd g"

fun run_ops :: "game \<Rightarrow> game_op list \<Rightarrow> game option" where
  "run_ops g [] = Some g"
| "run_ops g (op # ops) = (if legal_op g op then run_ops (apply_op g op) ops else None)"

section \<open>Example sessions\<close>

text \<open>The dicts that \<open>add_game\<close>, \<open>add_player_to_game\<close> and \<open>add_ai_player_to_game\<close> create.\<close>

definition new_game :: "int \<Rightarrow> game" where
  "new_game c =
     \<lparr> chat_id = c, phase = SETUP, players = [], ai_players = [], deck = [], discard_pile = [],
       safe = [], current_player_id = None, al_capone_player_id = None, turn_order = [],
       cycle_count = 0, omerta_caller_id = None, active_ability_context = None,
       bottle_match_context = None, blocked_cards = [], player_turn_context = Map.empty,
       bottle_match_context_just_ended = False, final_scores_list = None \<rparr>"

definition new_player :: "py_id \<Rightarrow> string \<Rightarrow> int \<Rightarrow> bool \<Rightarrow> player" where
  "new_player i n t ai =
     \<lparr> pid = i, first_name = n, hand = [], viewed_card_indices = {}, status = ACTIVE,
       join_time = t, is_ai = ai, score_this_round = 0, cannot_call_omerta = False \<rparr>"

definition the_lady :: card where
  "the_lady = character_card (''The Lady'', 15, ''Shuffle an opponent's hand without looking'', 20)"

definition ex_tie :: game where
  "ex_tie = (new_game 1)
     \<lparr> phase := PLAYING,
       players := [ (new_player (IntId 101) ''Alice'' 1 False)
                      \<lparr>hand := [bottle_card 1, bottle_card 1, bottle_card 1, bottle_card 2]\<rparr>,
                    (new_player (IntId 102) ''Bob'' 2 False)
                      \<lparr>hand := [bottle_card 2, bottle_card 1, bottle_card 1, bottle_card 1]\<rparr> ],
       ai_players := [ (new_player (StrId ''ai_1_1234'') ''AI Bot 1'' 3 True)
                      \<lparr>hand := [bottle_card 9, bottle_card 9, bottle_card 6, bottle_card 6]\<rparr> ] \<rparr>"

definition ex_penalty :: game where
  "ex_penalty = (new_game 1)
     \<lparr> phase := PLAYING,
       players := [ (new_player (IntId 101) ''Alice'' 1 False)
                      \<lparr>hand := [bottle_card 2, bottle_card 2, bottle_card 2, bottle_card 2]\<rparr>,
                    (new_player (IntId 102) ''Bob'' 2 False)
                      \<lparr>hand := [the_lady, the_lady, bottle_card 10, bottle_card 9]\<rparr> ] \<rparr>"

definition score_board :: "game \<times> effect list \<Rightarrow> (py_id \<times> int \<times> bool) list" where
  "score_board r = map (\<lambda>f. (fs_id f, fs_score f, fs_is_winner f)) (the (final_scores_list (fst r)))"

definition new_ability_ctx :: "nat \<Rightarrow> py_id \<Rightarrow> string \<Rightarrow> string \<Rightarrow> ability_ctx" where
  "new_ability_ctx i p n st =
     \<lparr> actx_id = i, ctx_player_id = p, card_name = n, step = st,
       timeout_job_name = Some ''ability_timeout'', targets_chosen = [], cards_selected_indices = [],
       gangster_swap_type = None, p1_id = None, p1_card_idx = None, p2_id = None,
       p2_card_idx = None, swap_count = None \<rparr>"

definition ex_play :: game where
  "ex_play = ex_tie\<lparr> deck := [bottle_card 7, bottle_card 8], discard_pile := [bottle_card 2],
                      safe := [bottle_card 3, bottle_card 4, bottle_card 5, the_lady],
                      current_player_id := Some (IntId 102) \<rparr>"

definition ex_window :: game where
  "ex_window = ex_play
     \<lparr> phase := BOTTLE_MATCHING_WINDOW,
       current_player_id := Some (IntId 101),
       active_ability_context :=
         Some \<lparr> ctx = new_ability_ctx 7 (IntId 101) ''The Mole'' ''mole_select_own_card'',
                original_ability_context_snapshot = None \<rparr>,
       bottle_match_context :=
         Some \<lparr> bctx_id = 11, discarded_card_value = Some 2, fastest_matcher_id = None,
                bottle_timeout_job_name = Some ''bottle_match_timeout'',
                triggering_player_id = Some (IntId 101), failed_matchers = {} \<rparr> \<rparr>"

definition ex_snitch :: game where
  "ex_snitch = ex_play
     \<lparr> phase := CHARACTER_ABILITY_TARGETING, current_player_id := Some (IntId 101),
       active_ability_context :=
         Some \<lparr> ctx = (new_ability_ctx 7 (IntId 101) ''The Snitch'' ''snitch_confirmed_targets'')
                        \<lparr>targets_chosen := [IntId 102]\<rparr>,
                original_ability_context_snapshot = None \<rparr> \<rparr>"

definition ex_empty_deck :: game where
  "ex_empty_deck = ex_play\<lparr> deck := [], discard_pile := [bottle_card 2],
                            current_player_id := Some (IntId 101) \<rparr>"

definition ex_reshuffle :: game where
  "ex_reshuffle = ex_play\<lparr> deck := [], discard_pile := [bottle_card 2, bottle_card 3, the_lady],
                           current_player_id := Some (IntId 101) \<rparr>"

definition ex_snitch_snapshot :: ability_ctx where
  "ex_snitch_snapshot =
     (new_ability_ctx 8 (IntId 101) ''The Snitch'' ''snitch_confirmed_targets'')
       \<lparr>timeout_job_name := None, targets_chosen := [IntId 102]\<rparr>"

definition ex_window_won :: game where
  "ex_window_won = ex_window
     \<lparr>bottle_match_context :=
        map_option (\<lambda>b. b\<lparr>fastest_matcher_id := Some (IntId 101)\<rparr>) (bottle_match_context ex_window)\<rparr>"

definition ex_window_failed :: game where
  "ex_window_failed = fst (handle_bottle_match_attempt ex_window (StrId ''ai_1_1234'') 0 True)"

definition ex_attempts :: "(py_id \<times> int \<times> bool) list" where
  "ex_attempts = [(StrId ''ai_1_1234'', 0, True), (StrId ''ai_1_1234'', 1, True),
                  (IntId 102, 0, False), (IntId 101, 0, False)]"

definition ex_driver :: game where
  "ex_driver = update_player ex_play 0
     (\<lambda>p. p\<lparr>hand := [the_lady, bottle_card 1, bottle_card 1, bottle_card 2]\<rparr>)"

definition ex_ops :: "game_op list" where
  "ex_ops =
     [ReplaceFromDeck (\<lambda>i. 0) 102 1,
      ReplaceFromDiscard 102 0,
      SnitchGives (IntId 101) [IntId 102],
      AiTurn (\<lambda>i. 0) 0 (StrId ''ai_1_1234''),
      DriverDiscards (\<lambda>i. 0) (IntId 101) [3, 0],
      SafecrackerExchange (IntId 101) 3 0,
      Reshuffle (\<lambda>i. 0),
      DriverDiscards (\<lambda>i. 0) (IntId 101) [0],
      DrawDeckAndCancel (\<lambda>i. 0) 102]"

definition ex_window_ops :: "game_op list" where
  "ex_window_ops =
     [BottleMatchAttempt (StrId ''ai_1_1234'') 0 True,
      BottleMatchAttempt (IntId 102) 0 False]"

section \<open>Properties\<close>

lemma shuffle_from_mset:
  "i < length xs \<Longrightarrow> mset (shuffle_from rnd i xs) = mset xs"
proof (induction i arbitrary: xs)
  case 0
  then show ?case by simp
next
  case (Suc i)
  let ?j = "rnd (Suc i) mod (Suc i + 1)"
  have "?j < Suc i + 1" by (rule mod_less_divisor) simp
  with Suc.prems have j: "?j < length xs" by linarith
  have sw: "mset (xs[Suc i := xs ! ?j, ?j := xs ! Suc i]) = mset xs"
    using mset_swap[OF j Suc.prems] by simp
  have "i < length (xs[Suc i := xs ! ?j, ?j := xs ! Suc i])" using Suc.prems by simp
  from Suc.IH[OF this] sw show ?case by (simp add: Let_def)
qed

lemma shuffle_mset: "mset (shuffle rnd xs) = mset xs"
proof (cases xs)
  case Nil
  then show ?thesis by (simp add: shuffle_def)
next
  case (Cons a as)
  then show ?thesis by (simp add: shuffle_def shuffle_from_mset)
qed

lemma shuffle_length: "length (shuffle rnd xs) = length xs"
  using shuffle_mset[of rnd xs] by (rule mset_eq_length)

subsection \<open>The deck\<close>

lemma unshuffled_deck_length: "length unshuffled_deck = 64"
  by code_simp

lemma unshuffled_deck_bottle_points:
  "map cpoints (filter (\<lambda>c. ctype c = bottle) unshuffled_deck) = concat (map (replicate 4) [1..10])"
  by code_simp

lemma unshuffled_deck_bottle_values:
  "map cvalue (filter (\<lambda>c. ctype c = bottle) unshuffled_deck)
     = map Some (concat (map (replicate 4) [1..10]))"
  by code_simp

lemma unshuffled_deck_characters:
  "map (\<lambda>n. length (filter (\<lambda>c. ctype c = character \<and> cname c = n) unshuffled_deck))
       [''The Lady'', ''The Mole'', ''The Gangster'', ''The Snitch'', ''The Driver'',
        ''The Safecracker'', ''The Killer'', ''The Mamma'', ''Police Patrol'',
        ''The Alibi'', ''The Witness'']
     = [2, 2, 2, 2, 2, 2, 2, 2, 2, 3, 3]"
  by code_simp

text \<open>
  Claim C10.  The deck built by \<open>create_deck\<close> has 64 cards before the shuffle: the
  bottles are four cards of each value 1 to 10, each with points equal to its value; the
  characters are two copies of each of nine cards and three copies each of The Alibi and
  The Witness.  Whatever numbers the random source draws, the shuffled deck is a
  permutation of that list: the same multiset, the same 64 cards.
\<close>

theorem create_deck_contents:
  "length unshuffled_deck = 64 \<and>
   map cvalue (filter (\<lambda>c. ctype c = bottle) unshuffled_deck)
     = map Some (concat (map (replicate 4) [1..10])) \<and>
   map cpoints (filter (\<lambda>c. ctype c = bottle) unshuffled_deck)
     = concat (map (replicate 4) [1..10]) \<and>
   map (\<lambda>n. length (filter (\<lambda>c. ctype c = character \<and> cname c = n) unshuffled_deck))
       [''The Lady'', ''The Mole'', ''The Gangster'', ''The Snitch'', ''The Driver'',
        ''The Safecracker'', ''The Killer'', ''The Mamma'', ''Police Patrol'',
        ''The Alibi'', ''The Witness'']
     = [2, 2, 2, 2, 2, 2, 2, 2, 2, 3, 3] \<and>
   mset (create_deck rnd) = mset unshuffled_deck \<and>
   length (create_deck rnd) = 64"
  using unshuffled_deck_length unshuffled_deck_bottle_points unshuffled_deck_bottle_values
    unshuffled_deck_characters
  by (simp only: create_deck_def shuffle_mset shuffle_length simp_thms)

subsection \<open>Omerta settlement\<close>

lemma first_lowest_unique:
  "first_lowest xs f a \<Longrightarrow> first_lowest xs f b \<Longrightarrow> a = b"
  unfolding first_lowest_def
  by (metis linorder_neqE_nat not_less)

lemma first_lowest_cong:
  "(\<And>i. i \<in> set xs \<Longrightarrow> f i = g i) \<Longrightarrow> first_lowest xs f w = first_lowest xs g w"
  unfolding first_lowest_def by auto

lemma hd_sort_key_first_lowest:
  "sorted xs \<Longrightarrow> distinct xs \<Longrightarrow> xs \<noteq> [] \<Longrightarrow> first_lowest xs f (hd (sort_key f xs))"
proof (induction xs)
  case Nil
  then show ?case by simp
next
  case (Cons a xs)
  show ?case
  proof (cases "xs = []")
    case True
    then show ?thesis by (simp add: first_lowest_def)
  next
    case False
    with Cons have IH: "first_lowest xs f (hd (sort_key f xs))" by simp
    from False obtain z zs where zs: "sort_key f xs = z # zs"
      by (metis length_0_conv length_sort neq_Nil_conv)
    have lt: "\<forall>x\<in>set xs. a < x" using Cons.prems by (auto simp: le_less)
    show ?thesis
    proof (cases "f a \<le> f z")
      case True
      then have "hd (sort_key f (a # xs)) = a" using zs by simp
      moreover have "\<forall>x\<in>set xs. f a \<le> f x" using IH True zs
        by (auto simp: first_lowest_def)
      ultimately show ?thesis using lt by (auto simp: first_lowest_def)
    next
      case F: False
      then have "hd (sort_key f (a # xs)) = z" using zs by simp
      then show ?thesis using IH zs F lt by (auto simp: first_lowest_def)
    qed
  qed
qed


lemma find_index_Some:
  "find_index P xs = Some i \<Longrightarrow> i < length xs \<and> P (xs ! i) \<and> (\<forall>j<i. \<not> P (xs ! j))"
proof (induction xs arbitrary: i)
  case Nil
  then show ?case by simp
next
  case (Cons x xs)
  show ?case
  proof (cases "P x")
    case True
    with Cons.prems show ?thesis by simp
  next
    case False
    with Cons.prems obtain k where k: "find_index P xs = Some k" "i = Suc k" by auto
    from Cons.IH[OF k(1)] False k(2) show ?thesis by (auto simp: less_Suc_eq_0_disj)
  qed
qed

lemma determine_winner_caller:
  assumes el: "sorted elig" "distinct elig" "ci \<in> set elig" "\<forall>i\<in>set elig. i < length sc"
    and dist: "distinct (map pid sc)"
  defines "val \<equiv> \<lambda>i. score_this_round (sc ! i)"
  defines "perfect \<equiv> first_lowest elig val ci \<and> val ci \<le> OMERTA_THRESHOLD"
  defines "sc' \<equiv> (if perfect then sc
                   else sc[ci := (sc ! ci)\<lparr>score_this_round := val ci + OMERTA_PENALTY\<rparr>])"
  shows "\<exists>w. determine_winner (Some ci) elig sc = (Some w, sc') \<and>
             first_lowest elig (\<lambda>i. score_this_round (sc' ! i)) w \<and> (perfect \<longrightarrow> w = ci)"
proof -
  have ne: "elig \<noteq> []" using el(3) by auto
  define low where "low = hd (sort_key val elig)"
  have low: "first_lowest elig val low"
    unfolding low_def by (rule hd_sort_key_first_lowest[OF el(1,2) ne])
  have low_in: "low \<in> set elig" using low by (simp add: first_lowest_def)
  have ci_len: "ci < length sc" and low_len: "low < length sc" using el(3,4) low_in by auto
  have same: "pid (sc ! ci) = pid (sc ! low) \<longleftrightarrow> ci = low"
    using dist ci_len low_len by (metis length_map nth_eq_iff_index_eq nth_map)
  have test: "(pid (sc ! ci) = pid (sc ! low) \<and> val ci \<le> OMERTA_THRESHOLD) \<longleftrightarrow> perfect"
    unfolding perfect_def same using low first_lowest_unique by blast
  define upd where "upd = sc[ci := (sc ! ci)\<lparr>score_this_round := val ci + OMERTA_PENALTY\<rparr>]"
  have dw: "determine_winner (Some ci) elig sc =
        (if pid (sc ! ci) = pid (sc ! low) \<and> val ci \<le> OMERTA_THRESHOLD then (Some ci, sc)
         else (Some (hd (sort_key (\<lambda>i. score_this_round (upd ! i)) elig)), upd))"
    using ne el(3) by (simp add: determine_winner_def Let_def low_def val_def upd_def)
  show ?thesis
  proof (cases perfect)
    case True
    then have yt: "pid (sc ! ci) = pid (sc ! low) \<and> val ci \<le> OMERTA_THRESHOLD"
      using test by blast
    have "determine_winner (Some ci) elig sc = (Some ci, sc)"
      unfolding dw using yt by (rule if_P)
    moreover have "first_lowest elig (\<lambda>i. score_this_round (sc' ! i)) ci"
      using True by (simp add: sc'_def perfect_def val_def)
    ultimately show ?thesis using True by (simp add: sc'_def)
  next
    case False
    have sc': "sc' = upd" using False by (simp add: sc'_def upd_def)
    have nt: "\<not> (pid (sc ! ci) = pid (sc ! low) \<and> val ci \<le> OMERTA_THRESHOLD)"
      using test False by blast
    have "determine_winner (Some ci) elig sc =
            (Some (hd (sort_key (\<lambda>i. score_this_round (sc' ! i)) elig)), sc')"
      unfolding dw sc' using nt by (rule if_not_P)
    moreover have "first_lowest elig (\<lambda>i. score_this_round (sc' ! i))
                     (hd (sort_key (\<lambda>i. score_this_round (sc' ! i)) elig))"
      by (rule hd_sort_key_first_lowest[OF el(1,2) ne])
    ultimately show ?thesis using False by simp
  qed
qed


lemma omerta_cancel_contexts_players:
  "players (fst (omerta_cancel_contexts g)) = players g \<and>
   ai_players (fst (omerta_cancel_contexts g)) = ai_players g"
  by (simp add: omerta_cancel_contexts_def split: option.splits)

lemma all_participants_set_participants:
  "all_participants (set_participants g ps) = ps"
  by (simp add: all_participants_def set_participants_def)

lemma score_hands_length: "length (score_hands c ps) = length ps"
  by (simp add: score_hands_def)

lemma score_hands_pid: "map pid (score_hands c ps) = map pid ps"
  by (simp add: score_hands_def)

lemma score_hands_nth:
  "i < length ps \<Longrightarrow> score_this_round (score_hands c ps ! i) =
     (if status (ps ! i) \<noteq> ACTIVE \<and> Some (pid (ps ! i)) \<noteq> c then 999
      else calculate_score_for_hand (hand (ps ! i)))"
  by (simp add: score_hands_def)

lemma eligible_for_win_caller:
  assumes "ci < length ps" "pid (ps ! ci) = cid" "distinct (map pid ps)"
  shows "eligible_for_win (Some cid) (Some ci) ps =
           filter (\<lambda>i. status (ps ! i) = ACTIVE \<or> i = ci) [0..<length ps]"
proof -
  have eq: "\<And>i. i < length ps \<Longrightarrow> (pid (ps ! i) = cid) = (i = ci)"
    using assms by (metis length_map nth_eq_iff_index_eq nth_map)
  have a0: "filter (\<lambda>i. scoring_filter (Some cid) (ps ! i)) [0..<length ps] =
            filter (\<lambda>i. status (ps ! i) = ACTIVE \<or> i = ci) [0..<length ps]"
    by (rule filter_cong) (auto simp: scoring_filter_def eq)
  have "ci \<in> set (filter (\<lambda>i. status (ps ! i) = ACTIVE \<or> i = ci) [0..<length ps])"
    using assms(1) by simp
  then have ne: "filter (\<lambda>i. status (ps ! i) = ACTIVE \<or> i = ci) [0..<length ps] \<noteq> []"
    by (metis empty_iff empty_set)
  have aps: "active_players_for_scoring (Some cid) (Some ci) ps =
             filter (\<lambda>i. status (ps ! i) = ACTIVE \<or> i = ci) [0..<length ps]"
    using ne by (simp add: active_players_for_scoring_def Let_def a0)
  show ?thesis
    unfolding eligible_for_win_def aps
    by (rule trans[OF filter_cong[OF refl] ]) (auto simp: scoring_filter_def eq)
qed


lemma handle_omerta_call_result:
  assumes ph: "phase g \<noteq> OMERTA_CALLED" "phase g \<noteq> COMPLETED"
    and tr: "truthy_id cid"
  shows "final_scores_list (fst (handle_omerta_call g (Some cid) a b)) =
           Some (case determine_winner (player_index g cid)
                        (eligible_for_win (Some cid) (player_index g cid) (all_participants g))
                        (score_hands (Some cid) (all_participants g))
                 of (winner, final) \<Rightarrow> make_final_scores winner final)"
proof -
  have ap: "all_participants (fst (omerta_cancel_contexts g)) = all_participants g"
    using omerta_cancel_contexts_players[of g] by (simp add: all_participants_def)
  show ?thesis
    using ph tr
    by (simp add: handle_omerta_call_def Let_def split_beta player_index_def all_participants_def
          ap[unfolded all_participants_def] omerta_cancel_contexts_players)
qed



text \<open>
  Claim C1, as the code has it.  When an Omerta is settled for a caller who is a
  participant (ids distinct), the eligible participants are the active ones and the
  caller.  The call is perfect when the caller's hand value is at most the threshold 7 and
  the caller is the first lowest scorer of the eligible participants in roster order
  (humans, then AI players): nobody eligible scores lower, and everybody eligible who
  stands earlier scores strictly higher.  A perfect call leaves the caller's score
  unchanged and the caller is the one winner.  Otherwise the caller's score is the hand
  value plus the penalty 20, and the one winner is the first lowest scorer of the eligible
  participants under the scores with the penalty applied, who may again be the caller.
\<close>

theorem omerta_caller_settlement:
  assumes ph: "phase g \<noteq> OMERTA_CALLED" "phase g \<noteq> COMPLETED"
    and tr: "truthy_id cid"
    and idx: "player_index g cid = Some ci"
    and dist: "distinct (map pid (all_participants g))"
  shows
   "let ps = all_participants g;
        hand_value = (\<lambda>i. calculate_score_for_hand (hand (ps ! i)));
        elig = filter (\<lambda>i. status (ps ! i) = ACTIVE \<or> i = ci) [0..<length ps];
        perfect = (first_lowest elig hand_value ci \<and> hand_value ci \<le> OMERTA_THRESHOLD);
        final_value = (\<lambda>i. if i = ci \<and> \<not> perfect then hand_value i + OMERTA_PENALTY
                            else hand_value i);
        res = the (final_scores_list (fst (handle_omerta_call g (Some cid) a b)))
    in length res = length ps \<and>
       (\<forall>i\<in>set elig. fs_score (res ! i) = final_value i) \<and>
       (\<exists>w. first_lowest elig final_value w \<and> (perfect \<longrightarrow> w = ci) \<and>
            (\<forall>i<length ps. fs_is_winner (res ! i) = (i = w)))"
proof -
  define ps where "ps = all_participants g"
  define hand_value where "hand_value = (\<lambda>i. calculate_score_for_hand (hand (ps ! i)))"
  define elig where "elig = filter (\<lambda>i. status (ps ! i) = ACTIVE \<or> i = ci) [0..<length ps]"
  define perfect where
    "perfect = (first_lowest elig hand_value ci \<and> hand_value ci \<le> OMERTA_THRESHOLD)"
  define final_value where
    "final_value = (\<lambda>i. if i = ci \<and> \<not> perfect then hand_value i + OMERTA_PENALTY else hand_value i)"
  define sc where "sc = score_hands (Some cid) ps"
  define val where "val = (\<lambda>i. score_this_round (sc ! i))"
  from find_index_Some[OF idx[unfolded player_index_def]]
  have ci: "ci < length ps" "pid (ps ! ci) = cid" by (simp_all add: ps_def)
  have dist': "distinct (map pid ps)" using dist by (simp add: ps_def)
  have el_eq: "eligible_for_win (Some cid) (Some ci) ps = elig"
    unfolding elig_def by (rule eligible_for_win_caller[OF ci dist'])
  have el1: "sorted elig" unfolding elig_def by (rule sorted_wrt_filter) simp
  have el2: "distinct elig" "ci \<in> set elig" "\<forall>i\<in>set elig. i < length sc"
    using ci(1) by (simp_all add: elig_def sc_def score_hands_length)
  note el = el1 el2
  have dsc: "distinct (map pid sc)" using dist' by (simp add: sc_def score_hands_pid)
  have val_elig: "\<And>i. i \<in> set elig \<Longrightarrow> val i = hand_value i"
    using ci(2) by (auto simp: val_def sc_def elig_def score_hands_nth hand_value_def)
  have perf_eq: "(first_lowest elig val ci \<and> val ci \<le> OMERTA_THRESHOLD) = perfect"
    unfolding perfect_def using first_lowest_cong[of elig val hand_value ci] val_elig el(3)
    by simp
  define sc' where "sc' = (if perfect then sc
      else sc[ci := (sc ! ci)\<lparr>score_this_round := val ci + OMERTA_PENALTY\<rparr>])"
  have "\<exists>w. determine_winner (Some ci) elig sc = (Some w, sc') \<and>
            first_lowest elig (\<lambda>i. score_this_round (sc' ! i)) w \<and> (perfect \<longrightarrow> w = ci)"
    using determine_winner_caller[OF el dsc]
    unfolding sc'_def val_def perf_eq[unfolded val_def] .
  then obtain w where w: "determine_winner (Some ci) elig sc = (Some w, sc')"
      "first_lowest elig (\<lambda>i. score_this_round (sc' ! i)) w" "perfect \<longrightarrow> w = ci"
    by blast
  have len': "length sc' = length ps" by (simp add: sc'_def sc_def score_hands_length)
  have lsc: "length sc = length ps" by (simp add: sc_def score_hands_length)
  have pid_sc: "\<And>i. i < length ps \<Longrightarrow> pid (sc ! i) = pid (ps ! i)"
    by (simp add: sc_def score_hands_def)
  have pid': "\<And>i. i < length ps \<Longrightarrow> pid (sc' ! i) = pid (ps ! i)"
    using pid_sc lsc ci(1) by (simp add: sc'_def nth_list_update)
  have fin_elig: "\<And>i. i \<in> set elig \<Longrightarrow> score_this_round (sc' ! i) = final_value i"
  proof -
    fix i assume i: "i \<in> set elig"
    then have il: "i < length sc" using el(4) by simp
    show "score_this_round (sc' ! i) = final_value i"
      using val_elig[OF i] val_elig[OF el(3)] il
      by (auto simp: sc'_def final_value_def val_def nth_list_update)
  qed
  have fl: "first_lowest elig final_value w"
    using w(2) first_lowest_cong[of elig "\<lambda>i. score_this_round (sc' ! i)" final_value w] fin_elig
    by simp
  have w_len: "w < length ps" using fl el(4) by (auto simp: first_lowest_def sc_def score_hands_length)
  have res: "the (final_scores_list (fst (handle_omerta_call g (Some cid) a b))) =
             make_final_scores (Some w) sc'"
    using handle_omerta_call_result[OF ph tr, of a b] w(1)
    by (simp add: idx ps_def[symmetric] el_eq sc_def[symmetric])
  have win: "\<forall>i<length ps. fs_is_winner (make_final_scores (Some w) sc' ! i) = (i = w)"
  proof (intro allI impI)
    fix i assume i: "i < length ps"
    have "pid (sc' ! i) = pid (ps ! i)" "pid (sc' ! w) = pid (ps ! w)"
      using pid' i w_len by simp_all
    moreover have "(pid (ps ! i) = pid (ps ! w)) = (i = w)"
      using dist' i w_len by (metis length_map nth_eq_iff_index_eq nth_map)
    ultimately show "fs_is_winner (make_final_scores (Some w) sc' ! i) = (i = w)"
      using i w_len len' by (simp add: make_final_scores_def)
  qed
  have sc_res: "\<forall>i\<in>set elig. fs_score (make_final_scores (Some w) sc' ! i) = final_value i"
    using fin_elig el(4) len' by (auto simp: make_final_scores_def sc_def score_hands_length)
  have "length (make_final_scores (Some w) sc') = length ps"
    using len' by (simp add: make_final_scores_def)
  with win sc_res fl w(3)
  have "length (make_final_scores (Some w) sc') = length ps \<and>
       (\<forall>i\<in>set elig. fs_score (make_final_scores (Some w) sc' ! i) = final_value i) \<and>
       (\<exists>w'. first_lowest elig final_value w' \<and> (perfect \<longrightarrow> w' = ci) \<and>
            (\<forall>i<length ps. fs_is_winner (make_final_scores (Some w) sc' ! i) = (i = w')))"
    by blast
  then show ?thesis
    unfolding Let_def res
    unfolding final_value_def perfect_def elig_def hand_value_def ps_def .
qed



theorem omerta_caller_settlement_witness:
  "phase ex_tie \<noteq> OMERTA_CALLED \<and> phase ex_tie \<noteq> COMPLETED \<and> truthy_id (IntId 102) \<and>
   player_index ex_tie (IntId 102) = Some 1 \<and> distinct (map pid (all_participants ex_tie)) \<and>
   (let ps = all_participants ex_tie;
        hand_value = (\<lambda>i. calculate_score_for_hand (hand (ps ! i)));
        elig = filter (\<lambda>i. status (ps ! i) = ACTIVE \<or> i = 1) [0..<length ps];
        perfect = (first_lowest elig hand_value 1 \<and> hand_value 1 \<le> OMERTA_THRESHOLD);
        final_value = (\<lambda>i. if i = 1 \<and> \<not> perfect then hand_value i + OMERTA_PENALTY
                            else hand_value i);
        res = the (final_scores_list (fst (handle_omerta_call ex_tie (Some (IntId 102)) False False)))
    in length res = length ps \<and>
       (\<forall>i\<in>set elig. fs_score (res ! i) = final_value i) \<and>
       (\<exists>w. first_lowest elig final_value w \<and> (perfect \<longrightarrow> w = 1) \<and>
            (\<forall>i<length ps. fs_is_winner (res ! i) = (i = w))))"
proof -
  have h1: "phase ex_tie \<noteq> OMERTA_CALLED" by code_simp
  have h2: "phase ex_tie \<noteq> COMPLETED" by code_simp
  have h3: "truthy_id (IntId 102)" by simp
  have h4: "player_index ex_tie (IntId 102) = Some 1" by code_simp
  have h5: "distinct (map pid (all_participants ex_tie))" by code_simp
  from omerta_caller_settlement[OF h1 h2 h3 h4 h5, of False False] h1 h2 h3 h4 h5
  show ?thesis by blast
qed

text \<open>
  The claim as stated fails twice.  In \<open>ex_tie\<close> the caller 101 and participant 102 both
  hold 5 points: the caller's score is not the strict minimum, and the caller wins.  In
  \<open>ex_penalty\<close> the caller 101 holds 8 points, above the threshold: the penalty makes it
  28, still the lowest, and the caller wins the re-evaluation.
\<close>

theorem omerta_caller_counterexample:
  "score_board (handle_omerta_call ex_tie (Some (IntId 101)) False False)
     = [(IntId 101, 5, True), (IntId 102, 5, False), (StrId ''ai_1_1234'', 30, False)] \<and>
   score_board (handle_omerta_call ex_penalty (Some (IntId 101)) False False)
     = [(IntId 101, 28, True), (IntId 102, 49, False)]"
  by code_simp

text \<open>
  Claim C9.  When the phase is already \<open>omerta_called\<close> or \<open>completed\<close>, a call of the
  settlement handler returns the session as it is and does nothing else: no message, no
  reveal of the hands, no score, no phase change, no second record of the results.
\<close>

theorem omerta_reentry_is_noop:
  "phase g = OMERTA_CALLED \<or> phase g = COMPLETED \<Longrightarrow>
     handle_omerta_call g caller_id forced_by_no_players forced_by_empty_deck = (g, [])"
  by (simp add: handle_omerta_call_def)

theorem omerta_reentry_is_noop_witness:
  "(phase (ex_tie\<lparr>phase := COMPLETED\<rparr>) = OMERTA_CALLED \<or>
    phase (ex_tie\<lparr>phase := COMPLETED\<rparr>) = COMPLETED) \<and>
   handle_omerta_call (ex_tie\<lparr>phase := COMPLETED\<rparr>) (Some (IntId 101)) False False
     = (ex_tie\<lparr>phase := COMPLETED\<rparr>, [])"
  using omerta_reentry_is_noop[of "ex_tie\<lparr>phase := COMPLETED\<rparr>" "Some (IntId 101)" False False]
  by simp

subsection \<open>Structure of the session updates\<close>

lemma all_participants_field_updates [simp]:
  "all_participants (g\<lparr>deck := d\<rparr>) = all_participants g"
  "all_participants (g\<lparr>discard_pile := dp\<rparr>) = all_participants g"
  "all_participants (g\<lparr>safe := sf\<rparr>) = all_participants g"
  "all_participants (g\<lparr>phase := ph\<rparr>) = all_participants g"
  "all_participants (g\<lparr>current_player_id := cp\<rparr>) = all_participants g"
  "all_participants (g\<lparr>active_ability_context := ac\<rparr>) = all_participants g"
  "all_participants (g\<lparr>bottle_match_context := bc\<rparr>) = all_participants g"
  "all_participants (g\<lparr>bottle_match_context_just_ended := je\<rparr>) = all_participants g"
  "all_participants (g\<lparr>player_turn_context := tc\<rparr>) = all_participants g"
  "all_participants (g\<lparr>blocked_cards := bl\<rparr>) = all_participants g"
  "all_participants (g\<lparr>omerta_caller_id := oc\<rparr>) = all_participants g"
  "all_participants (g\<lparr>final_scores_list := fl\<rparr>) = all_participants g"
  by (simp_all add: all_participants_def)

lemma all_participants_update_player [simp]:
  "all_participants (update_player g i f) = (all_participants g)[i := f (all_participants g ! i)]"
  by (simp add: update_player_def all_participants_set_participants)

lemma update_player_fields [simp]:
  "deck (update_player g i f) = deck g"
  "discard_pile (update_player g i f) = discard_pile g"
  "safe (update_player g i f) = safe g"
  "phase (update_player g i f) = phase g"
  "current_player_id (update_player g i f) = current_player_id g"
  "active_ability_context (update_player g i f) = active_ability_context g"
  "bottle_match_context (update_player g i f) = bottle_match_context g"
  "player_turn_context (update_player g i f) = player_turn_context g"
  "blocked_cards (update_player g i f) = blocked_cards g"
  by (simp_all add: update_player_def set_participants_def)

lemma player_index_bound:
  "player_index g p = Some i \<Longrightarrow> i < length (all_participants g)"
  using find_index_Some[of "\<lambda>q. pid q = p" "all_participants g" i]
  by (simp add: player_index_def)


subsection \<open>Stale timers\<close>

text \<open>
  Claim C4.  When the ability timeout, the bottle-window expiry or the bottle-match job of
  an AI player fires and the session has no active context of its kind, or the context
  has another identity than the one the timer captured when it was scheduled, the callback
  returns the session unchanged and does nothing else.  A timer also does nothing when the
  session is gone.  The identity a bottle-window timer captures is that of an object, so
  it is not zero.
\<close>

theorem stale_timer_is_noop:
  "((\<forall>a. active_ability_context g = Some a \<longrightarrow> Some (actx_id (ctx a)) \<noteq> expected_context_signature)
      \<longrightarrow> character_ability_timeout_job (Some g) expected_context_signature = (Some g, [])) \<and>
   ((\<forall>b. bottle_match_context g = Some b \<longrightarrow> bctx_id b \<noteq> captured) \<and> captured \<noteq> 0
      \<longrightarrow> end_bottle_match_window_job (Some g) (Some captured) = (Some g, [])) \<and>
   ((\<forall>b. bottle_match_context g = Some b \<longrightarrow> bctx_id b \<noteq> captured)
      \<longrightarrow> ai_attempt_bottle_match_job (Some g) ai_player_id card_idx captured = (Some g, [])) \<and>
   character_ability_timeout_job None expected_context_signature = (None, []) \<and>
   end_bottle_match_window_job None (Some captured) = (None, []) \<and>
   ai_attempt_bottle_match_job None ai_player_id card_idx captured = (None, [])"
  by (auto simp: character_ability_timeout_job_def end_bottle_match_window_job_def
        ai_attempt_bottle_match_job_def split: option.splits)

theorem stale_timer_is_noop_witness:
  "map_option (actx_id \<circ> ctx) (active_ability_context ex_window) = Some 7 \<and>
   map_option bctx_id (bottle_match_context ex_window) = Some 11 \<and>
   character_ability_timeout_job (Some ex_window) (Some 5) = (Some ex_window, []) \<and>
   end_bottle_match_window_job (Some ex_window) (Some 5) = (Some ex_window, []) \<and>
   ai_attempt_bottle_match_job (Some ex_window) (StrId ''ai_1_1234'') 0 5 = (Some ex_window, []) \<and>
   snd (character_ability_timeout_job (Some ex_window) (Some 7))
     = [PrivateMessage (IntId 101) ''times_up'', GroupMessage ''ran_out_of_time'' [IntId 101],
        Await advance_turn_or_continue_sequence] \<and>
   snd (end_bottle_match_window_job (Some ex_window) (Some 11))
     = [GroupMessage ''bottle_matching_window_closed'' [], Await advance_turn_or_continue_sequence] \<and>
   snd (ai_attempt_bottle_match_job (Some ex_window) (StrId ''ai_1_1234'') 0 11)
     = [GroupMessage ''bottle_match_failed'' [StrId ''ai_1_1234'']]"
proof -
  have a: "map_option (actx_id \<circ> ctx) (active_ability_context ex_window) = Some 7" by code_simp
  have b: "map_option bctx_id (bottle_match_context ex_window) = Some 11" by code_simp
  have a': "\<forall>a. active_ability_context ex_window = Some a \<longrightarrow> Some (actx_id (ctx a)) \<noteq> Some 5"
    using a by auto
  have b': "\<forall>b. bottle_match_context ex_window = Some b \<longrightarrow> bctx_id b \<noteq> 5"
    using b by auto
  have c: "snd (character_ability_timeout_job (Some ex_window) (Some 7))
     = [PrivateMessage (IntId 101) ''times_up'', GroupMessage ''ran_out_of_time'' [IntId 101],
        Await advance_turn_or_continue_sequence]" by code_simp
  have d: "snd (end_bottle_match_window_job (Some ex_window) (Some 11))
     = [GroupMessage ''bottle_matching_window_closed'' [], Await advance_turn_or_continue_sequence]"
    by code_simp
  have e: "snd (ai_attempt_bottle_match_job (Some ex_window) (StrId ''ai_1_1234'') 0 11)
     = [GroupMessage ''bottle_match_failed'' [StrId ''ai_1_1234'']]" by code_simp
  from stale_timer_is_noop[of ex_window "Some 5" 5 "StrId ''ai_1_1234''" 0] a b a' b' c d e
  show ?thesis by simp
qed

subsection \<open>Reshuffle of the discard pile\<close>

lemma player_index_reshuffle [simp]:
  "player_index (reshuffle_discard_pile rnd g) p = player_index g p"
  by (simp add: player_index_def all_participants_def reshuffle_discard_pile_def)

lemma all_participants_reshuffle [simp]:
  "all_participants (reshuffle_discard_pile rnd g) = all_participants g"
  by (simp add: all_participants_def reshuffle_discard_pile_def)

lemma draw_deck_after_reshuffle:
  assumes "deck g = []" "discard_pile g \<noteq> []" "player_index g player_id = Some pi"
  shows "handle_player_action_draw_deck rnd g player_id =
             (if deck (reshuffle_discard_pile rnd g) = []
              then (reshuffle_discard_pile rnd g, [GroupMessage ''discard_pile_reshuffled'' [player_id],
                         PrivateMessage player_id ''deck_completely_empty'',
                         PrivateMessage player_id ''deck_empty_choose_another_action''])
              else (fst (handle_player_action_draw_deck rnd (reshuffle_discard_pile rnd g) player_id),
                    GroupMessage ''discard_pile_reshuffled'' [player_id] #
                      snd (handle_player_action_draw_deck rnd (reshuffle_discard_pile rnd g) player_id)))"
proof (cases "deck (reshuffle_discard_pile rnd g) = []")
  case True
  then show ?thesis using assms
    by (simp add: handle_player_action_draw_deck_def Let_def)
next
  case False
  then show ?thesis using assms
    by (simp add: handle_player_action_draw_deck_def Let_def)
qed


lemma ai_turn_after_reshuffle:
  assumes "deck g = []" "discard_pile g \<noteq> []" "player_index g ai_player_id = Some ai"
    "is_ai (all_participants g ! ai)" "hand (all_participants g ! ai) \<noteq> []"
  shows "handle_ai_player_turn rnd r g ai_player_id =
             (if deck (reshuffle_discard_pile rnd g) = []
              then (fst (handle_omerta_call (reshuffle_discard_pile rnd g) (Some ai_player_id) False True),
                    GroupMessage ''ai_pondering'' [ai_player_id] #
                    GroupMessage ''ai_observes_reshuffle'' [] #
                      snd (handle_omerta_call (reshuffle_discard_pile rnd g) (Some ai_player_id) False True))
              else (fst (handle_ai_player_turn rnd r (reshuffle_discard_pile rnd g) ai_player_id),
                    GroupMessage ''ai_pondering'' [ai_player_id] #
                    GroupMessage ''ai_observes_reshuffle'' [] #
                      tl (snd (handle_ai_player_turn rnd r (reshuffle_discard_pile rnd g) ai_player_id))))"
proof (cases "deck (reshuffle_discard_pile rnd g) = []")
  case True
  then show ?thesis using assms
    by (simp add: handle_ai_player_turn_def Let_def split_beta)
next
  case False
  then show ?thesis using assms
    by (simp add: handle_ai_player_turn_def Let_def split_beta)
qed


lemma reshuffle_deck_length:
  "discard_pile g \<noteq> [] \<Longrightarrow> length (deck (reshuffle_discard_pile rnd g)) = length (discard_pile g) - 1"
  by (simp add: reshuffle_discard_pile_def shuffle_length)

lemma reshuffle_deck_empty_iff:
  "discard_pile g \<noteq> [] \<Longrightarrow> (deck (reshuffle_discard_pile rnd g) = []) = (length (discard_pile g) = 1)"
proof -
  assume dp: "discard_pile g \<noteq> []"
  have "(deck (reshuffle_discard_pile rnd g) = []) = (length (deck (reshuffle_discard_pile rnd g)) = 0)"
    by simp
  also have "\<dots> = (length (discard_pile g) - 1 = 0)"
    by (simp only: reshuffle_deck_length[OF dp])
  also have "\<dots> = (length (discard_pile g) = 1)"
    using dp by (cases "discard_pile g") simp_all
  finally show ?thesis .
qed

lemma set_drawn_card_fields [simp]:
  "all_participants (set_drawn_card g p c s) = all_participants g"
  "deck (set_drawn_card g p c s) = deck g"
  "discard_pile (set_drawn_card g p c s) = discard_pile g"
  "safe (set_drawn_card g p c s) = safe g"
  "phase (set_drawn_card g p c s) = phase g"
  "current_player_id (set_drawn_card g p c s) = current_player_id g"
  "blocked_indices (set_drawn_card g p c s) k = blocked_indices g k"
  "map_option drawn_card (player_turn_context (set_drawn_card g p c s) p) = Some (Some c)"
  "map_option draw_source (player_turn_context (set_drawn_card g p c s) p) = Some (Some s)"
  by (simp_all add: set_drawn_card_def Let_def all_participants_def blocked_indices_def)

lemma reshuffle_fields [simp]:
  "safe (reshuffle_discard_pile rnd g) = safe g"
  "phase (reshuffle_discard_pile rnd g) = phase g"
  "discard_pile (reshuffle_discard_pile rnd g) = [last (discard_pile g)]"
  "blocked_indices (reshuffle_discard_pile rnd g) k = blocked_indices g k"
  by (simp_all add: reshuffle_discard_pile_def blocked_indices_def)

lemma blocked_indices_deck [simp]:
  "blocked_indices (g\<lparr>deck := d\<rparr>) k = blocked_indices g k"
  by (simp add: blocked_indices_def)

text \<open>An ordinary draw from a deck that holds a card.\<close>

lemma draw_deck_nonempty:
  assumes "player_index g player_id = Some pi" "deck g \<noteq> []"
  shows "handle_player_action_draw_deck rnd g player_id =
           (set_drawn_card (g\<lparr>deck := butlast (deck g)\<rparr>) player_id (last (deck g)) ''deck'',
            [CardSelectionKeyboard player_id ''replace_hand_card''
               (get_card_selection_keyboard (hand (all_participants g ! pi)) 1 []
                  (blocked_indices g player_id)),
             GroupMessage ''drew_from_deck'' [player_id]])"
  using assms by (simp add: handle_player_action_draw_deck_def Let_def)

lemma ai_turn_nonempty:
  assumes "player_index g ai_player_id = Some ai" "is_ai (all_participants g ! ai)"
    "hand (all_participants g ! ai) \<noteq> []" "deck g \<noteq> []"
  shows "handle_ai_player_turn rnd r g ai_player_id =
           ((update_player (g\<lparr>deck := butlast (deck g)\<rparr>) ai
               (\<lambda>p. p\<lparr>hand := (hand p)[r mod length (hand (all_participants g ! ai)) := last (deck g)]\<rparr>))
              \<lparr>discard_pile := discard_pile g @
                 [hand (all_participants g ! ai) ! (r mod length (hand (all_participants g ! ai)))]\<rparr>,
            [GroupMessage ''ai_pondering'' [ai_player_id],
             GroupMessage ''ai_discarded'' [ai_player_id],
             Await (process_discarded_card ai_player_id
                      (hand (all_participants g ! ai) ! (r mod length (hand (all_participants g ! ai)))))])"
  using assms by (simp add: handle_ai_player_turn_def Let_def)

lemma omerta_call_completes:
  assumes "phase g \<noteq> OMERTA_CALLED" "phase g \<noteq> COMPLETED"
  shows "phase (fst (handle_omerta_call g caller f1 f2)) = COMPLETED"
    and "omerta_caller_id (fst (handle_omerta_call g caller f1 f2)) = caller"
    and "final_scores_list (fst (handle_omerta_call g caller f1 f2)) \<noteq> None"
  using assms by (simp_all add: handle_omerta_call_def Let_def split_beta set_participants_def)

lemma human_draw_after_reshuffle:
  assumes "deck g = []" "discard_pile g \<noteq> []" "player_index g player_id = Some pi"
    "deck (reshuffle_discard_pile rnd g) \<noteq> []"
  shows "handle_player_action_draw_deck rnd g player_id =
           (set_drawn_card ((reshuffle_discard_pile rnd g)
                              \<lparr>deck := butlast (deck (reshuffle_discard_pile rnd g))\<rparr>)
              player_id (last (deck (reshuffle_discard_pile rnd g))) ''deck'',
            [GroupMessage ''discard_pile_reshuffled'' [player_id],
             CardSelectionKeyboard player_id ''replace_hand_card''
               (get_card_selection_keyboard (hand (all_participants g ! pi)) 1 []
                  (blocked_indices g player_id)),
             GroupMessage ''drew_from_deck'' [player_id]])"
proof -
  have p: "player_index (reshuffle_discard_pile rnd g) player_id = Some pi"
    using assms(3) by simp
  show ?thesis
    unfolding draw_deck_after_reshuffle[OF assms(1-3), of rnd]
    using assms(4) by (simp add: draw_deck_nonempty[OF p assms(4)])
qed

lemma ai_draw_after_reshuffle:
  assumes "deck g = []" "discard_pile g \<noteq> []" "player_index g ai_player_id = Some ai"
    "is_ai (all_participants g ! ai)" "hand (all_participants g ! ai) \<noteq> []"
    "deck (reshuffle_discard_pile rnd g) \<noteq> []"
  shows "handle_ai_player_turn rnd r g ai_player_id =
           ((update_player ((reshuffle_discard_pile rnd g)
                               \<lparr>deck := butlast (deck (reshuffle_discard_pile rnd g))\<rparr>) ai
               (\<lambda>p. p\<lparr>hand := (hand p)[r mod length (hand (all_participants g ! ai))
                                          := last (deck (reshuffle_discard_pile rnd g))]\<rparr>))
              \<lparr>discard_pile := [last (discard_pile g),
                  hand (all_participants g ! ai) ! (r mod length (hand (all_participants g ! ai)))]\<rparr>,
            [GroupMessage ''ai_pondering'' [ai_player_id],
             GroupMessage ''ai_observes_reshuffle'' [],
             GroupMessage ''ai_discarded'' [ai_player_id],
             Await (process_discarded_card ai_player_id
                      (hand (all_participants g ! ai) ! (r mod length (hand (all_participants g ! ai)))))])"
proof -
  have p: "player_index (reshuffle_discard_pile rnd g) ai_player_id = Some ai"
    using assms(3) by simp
  have a: "is_ai (all_participants (reshuffle_discard_pile rnd g) ! ai)"
    "hand (all_participants (reshuffle_discard_pile rnd g) ! ai) \<noteq> []"
    using assms(4,5) by simp_all
  show ?thesis
    unfolding ai_turn_after_reshuffle[OF assms(1-5), of rnd r]
    using assms(6) by (simp add: ai_turn_nonempty[OF p a assms(6)])
qed


lemma mset_butlast_last: "xs \<noteq> [] \<Longrightarrow> mset xs = mset (butlast xs) + {#last xs#}"
  by (subst append_butlast_last_id[symmetric]) (simp_all del: append_butlast_last_id)

text \<open>
  Claim C6, as the code has it.  A draw with an empty deck and a non-empty discard pile
  reshuffles: the top discard card stays as the whole discard pile, the other cards become
  the deck, which so has one card less than the old discard pile.  When the old discard
  pile held more than one card, the draw then proceeds: for a human player the last card of
  the new deck is taken off the deck and held as the drawn card of the player, with the
  deck as its source, the hands and the other piles stay, and the player is sent the
  prompt for the card to replace; an AI player takes the last card of the new deck into
  the hand at the chosen position and puts the replaced card on the discard pile.  Either
  way the result is that of the same draw on the reshuffled session.  When the old discard
  pile held one card, the deck is still empty: the turn of an AI player ends in the Omerta
  settlement with the AI player as caller, while a human player is told that the deck is
  empty and offered the other turn actions again, and no Omerta is called.
\<close>

theorem reshuffle_on_empty_deck:
  "deck g = [] \<and> discard_pile g \<noteq> [] \<longrightarrow>
   (let g1 = reshuffle_discard_pile rnd g;
        human = handle_player_action_draw_deck rnd g player_id;
        robot = handle_ai_player_turn rnd r g ai_player_id;
        k = r mod length (hand (all_participants g ! ai))
    in
      length (deck g1) = length (discard_pile g) - 1 \<and>
      mset (deck g1) = mset (butlast (discard_pile g)) \<and>
      discard_pile g1 = [last (discard_pile g)] \<and>
      (deck g1 = []) = (length (discard_pile g) = 1) \<and>
      (player_index g player_id = Some pi \<and> 1 < length (discard_pile g) \<longrightarrow>
          deck (fst human) = butlast (deck g1) \<and>
          length (deck (fst human)) = length (discard_pile g) - 2 \<and>
          map_option drawn_card (player_turn_context (fst human) player_id) = Some (Some (last (deck g1))) \<and>
          map_option draw_source (player_turn_context (fst human) player_id) = Some (Some ''deck'') \<and>
          add_mset (last (deck g1)) (mset (deck (fst human))) = mset (butlast (discard_pile g)) \<and>
          discard_pile (fst human) = [last (discard_pile g)] \<and>
          all_participants (fst human) = all_participants g \<and>
          safe (fst human) = safe g \<and>
          phase (fst human) = phase g \<and>
          snd human =
          [GroupMessage ''discard_pile_reshuffled'' [player_id],
           CardSelectionKeyboard player_id ''replace_hand_card''
             (get_card_selection_keyboard (hand (all_participants g ! pi)) 1 []
                (blocked_indices g player_id)),
           GroupMessage ''drew_from_deck'' [player_id]] \<and>
          human =
          (fst (handle_player_action_draw_deck rnd g1 player_id),
           GroupMessage ''discard_pile_reshuffled'' [player_id] #
             snd (handle_player_action_draw_deck rnd g1 player_id))) \<and>
      (player_index g player_id = Some pi \<and> length (discard_pile g) = 1 \<longrightarrow>
          human =
          (g1,
           [GroupMessage ''discard_pile_reshuffled'' [player_id],
            PrivateMessage player_id ''deck_completely_empty'',
            PrivateMessage player_id ''deck_empty_choose_another_action'']) \<and>
          deck (fst human) = [] \<and>
          phase (fst human) = phase g \<and>
          omerta_caller_id (fst human) = omerta_caller_id g \<and>
          final_scores_list (fst human) = final_scores_list g) \<and>
      (player_index g ai_player_id = Some ai \<and> is_ai (all_participants g ! ai) \<and>
       hand (all_participants g ! ai) \<noteq> [] \<and> 1 < length (discard_pile g) \<longrightarrow>
          deck (fst robot) = butlast (deck g1) \<and>
          length (deck (fst robot)) = length (discard_pile g) - 2 \<and>
          hand (all_participants (fst robot) ! ai) =
          (hand (all_participants g ! ai))[k := last (deck g1)] \<and>
          (\<forall>j. j \<noteq> ai \<longrightarrow> all_participants (fst robot) ! j = all_participants g ! j) \<and>
          discard_pile (fst robot) =
          [last (discard_pile g), hand (all_participants g ! ai) ! k] \<and>
          safe (fst robot) = safe g \<and>
          snd robot =
          [GroupMessage ''ai_pondering'' [ai_player_id],
           GroupMessage ''ai_observes_reshuffle'' [],
           GroupMessage ''ai_discarded'' [ai_player_id],
           Await (process_discarded_card ai_player_id (hand (all_participants g ! ai) ! k))] \<and>
          robot =
          (fst (handle_ai_player_turn rnd r g1 ai_player_id),
           GroupMessage ''ai_pondering'' [ai_player_id] # GroupMessage ''ai_observes_reshuffle'' [] #
             tl (snd (handle_ai_player_turn rnd r g1 ai_player_id)))) \<and>
      (player_index g ai_player_id = Some ai \<and> is_ai (all_participants g ! ai) \<and>
       hand (all_participants g ! ai) \<noteq> [] \<and> length (discard_pile g) = 1 \<longrightarrow>
          robot =
          (fst (handle_omerta_call g1 (Some ai_player_id) False True),
           GroupMessage ''ai_pondering'' [ai_player_id] # GroupMessage ''ai_observes_reshuffle'' [] #
             snd (handle_omerta_call g1 (Some ai_player_id) False True)) \<and>
          (phase g \<noteq> OMERTA_CALLED \<and> phase g \<noteq> COMPLETED \<longrightarrow>
          phase (fst robot) = COMPLETED \<and>
          omerta_caller_id (fst robot) = Some ai_player_id \<and>
          final_scores_list (fst robot) \<noteq> None)))"
proof (rule impI, elim conjE)
  assume d: "deck g = []" and dp: "discard_pile g \<noteq> []"
  have ne: "deck (reshuffle_discard_pile rnd g) \<noteq> []" if "1 < length (discard_pile g)"
    using that reshuffle_deck_empty_iff[OF dp, of rnd] by simp
  have em: "deck (reshuffle_discard_pile rnd g) = []" if "length (discard_pile g) = 1"
    using that reshuffle_deck_empty_iff[OF dp, of rnd] by simp
  have A1: "length (deck (reshuffle_discard_pile rnd g)) = length (discard_pile g) - 1" by (rule reshuffle_deck_length[OF dp])
  have A2: "mset (deck (reshuffle_discard_pile rnd g)) = mset (butlast (discard_pile g))" by (simp add: reshuffle_discard_pile_def shuffle_mset)
  have A3: "discard_pile (reshuffle_discard_pile rnd g) = [last (discard_pile g)]" by (simp add: reshuffle_discard_pile_def)
  have A4: "(deck (reshuffle_discard_pile rnd g) = []) = (length (discard_pile g) = 1)" by (rule reshuffle_deck_empty_iff[OF dp])
  have H1: "(player_index g player_id = Some pi \<and> 1 < length (discard_pile g) \<longrightarrow>
          deck (fst (handle_player_action_draw_deck rnd g player_id)) = butlast (deck (reshuffle_discard_pile rnd g)) \<and>
          length (deck (fst (handle_player_action_draw_deck rnd g player_id))) = length (discard_pile g) - 2 \<and>
          map_option drawn_card (player_turn_context (fst (handle_player_action_draw_deck rnd g player_id)) player_id) = Some (Some (last (deck (reshuffle_discard_pile rnd g)))) \<and>
          map_option draw_source (player_turn_context (fst (handle_player_action_draw_deck rnd g player_id)) player_id) = Some (Some ''deck'') \<and>
          add_mset (last (deck (reshuffle_discard_pile rnd g))) (mset (deck (fst (handle_player_action_draw_deck rnd g player_id)))) = mset (butlast (discard_pile g)) \<and>
          discard_pile (fst (handle_player_action_draw_deck rnd g player_id)) = [last (discard_pile g)] \<and>
          all_participants (fst (handle_player_action_draw_deck rnd g player_id)) = all_participants g \<and>
          safe (fst (handle_player_action_draw_deck rnd g player_id)) = safe g \<and>
          phase (fst (handle_player_action_draw_deck rnd g player_id)) = phase g \<and>
          snd (handle_player_action_draw_deck rnd g player_id) =
          [GroupMessage ''discard_pile_reshuffled'' [player_id],
           CardSelectionKeyboard player_id ''replace_hand_card''
             (get_card_selection_keyboard (hand (all_participants g ! pi)) 1 []
                (blocked_indices g player_id)),
           GroupMessage ''drew_from_deck'' [player_id]] \<and>
          (handle_player_action_draw_deck rnd g player_id) =
          (fst (handle_player_action_draw_deck rnd (reshuffle_discard_pile rnd g) player_id),
           GroupMessage ''discard_pile_reshuffled'' [player_id] #
             snd (handle_player_action_draw_deck rnd (reshuffle_discard_pile rnd g) player_id)))"
  proof (intro impI, elim conjE)
    assume p: "player_index g player_id = Some pi" and l: "1 < length (discard_pile g)"
    note eq = human_draw_after_reshuffle[OF d dp p ne[OF l]]
    note old = draw_deck_after_reshuffle[OF d dp p, of rnd]
    have h1: "deck (fst (handle_player_action_draw_deck rnd g player_id)) = butlast (deck (reshuffle_discard_pile rnd g))"
      by (simp add: eq)
    have h2: "length (deck (fst (handle_player_action_draw_deck rnd g player_id))) = length (discard_pile g) - 2"
      by (simp add: eq A1)
    have h3: "map_option drawn_card (player_turn_context (fst (handle_player_action_draw_deck rnd g player_id)) player_id) = Some (Some (last (deck (reshuffle_discard_pile rnd g))))"
      by (simp add: eq)
    have h4: "map_option draw_source (player_turn_context (fst (handle_player_action_draw_deck rnd g player_id)) player_id) = Some (Some ''deck'')"
      by (simp add: eq)
    have h5: "add_mset (last (deck (reshuffle_discard_pile rnd g))) (mset (deck (fst (handle_player_action_draw_deck rnd g player_id)))) = mset (butlast (discard_pile g))"
      using mset_butlast_last[OF ne[OF l]] A2 by (simp add: eq)
    have h6: "discard_pile (fst (handle_player_action_draw_deck rnd g player_id)) = [last (discard_pile g)]"
      by (simp add: eq)
    have h7: "all_participants (fst (handle_player_action_draw_deck rnd g player_id)) = all_participants g"
      by (simp add: eq)
    have h8: "safe (fst (handle_player_action_draw_deck rnd g player_id)) = safe g"
      by (simp add: eq)
    have h9: "phase (fst (handle_player_action_draw_deck rnd g player_id)) = phase g"
      by (simp add: eq)
    have h10: "snd (handle_player_action_draw_deck rnd g player_id) =
          [GroupMessage ''discard_pile_reshuffled'' [player_id],
           CardSelectionKeyboard player_id ''replace_hand_card''
             (get_card_selection_keyboard (hand (all_participants g ! pi)) 1 []
                (blocked_indices g player_id)),
           GroupMessage ''drew_from_deck'' [player_id]]"
      by (simp add: eq)
    have h11: "(handle_player_action_draw_deck rnd g player_id) =
          (fst (handle_player_action_draw_deck rnd (reshuffle_discard_pile rnd g) player_id),
           GroupMessage ''discard_pile_reshuffled'' [player_id] #
             snd (handle_player_action_draw_deck rnd (reshuffle_discard_pile rnd g) player_id))"
      using ne[OF l] by (simp add: old)
    show "deck (fst (handle_player_action_draw_deck rnd g player_id)) = butlast (deck (reshuffle_discard_pile rnd g)) \<and>
          length (deck (fst (handle_player_action_draw_deck rnd g player_id))) = length (discard_pile g) - 2 \<and>
          map_option drawn_card (player_turn_context (fst (handle_player_action_draw_deck rnd g player_id)) player_id) = Some (Some (last (deck (reshuffle_discard_pile rnd g)))) \<and>
          map_option draw_source (player_turn_context (fst (handle_player_action_draw_deck rnd g player_id)) player_id) = Some (Some ''deck'') \<and>
          add_mset (last (deck (reshuffle_discard_pile rnd g))) (mset (deck (fst (handle_player_action_draw_deck rnd g player_id)))) = mset (butlast (discard_pile g)) \<and>
          discard_pile (fst (handle_player_action_draw_deck rnd g player_id)) = [last (discard_pile g)] \<and>
          all_participants (fst (handle_player_action_draw_deck rnd g player_id)) = all_participants g \<and>
          safe (fst (handle_player_action_draw_deck rnd g player_id)) = safe g \<and>
          phase (fst (handle_player_action_draw_deck rnd g player_id)) = phase g \<and>
          snd (handle_player_action_draw_deck rnd g player_id) =
          [GroupMessage ''discard_pile_reshuffled'' [player_id],
           CardSelectionKeyboard player_id ''replace_hand_card''
             (get_card_selection_keyboard (hand (all_participants g ! pi)) 1 []
                (blocked_indices g player_id)),
           GroupMessage ''drew_from_deck'' [player_id]] \<and>
          (handle_player_action_draw_deck rnd g player_id) =
          (fst (handle_player_action_draw_deck rnd (reshuffle_discard_pile rnd g) player_id),
           GroupMessage ''discard_pile_reshuffled'' [player_id] #
             snd (handle_player_action_draw_deck rnd (reshuffle_discard_pile rnd g) player_id))"
      by (intro conjI) (rule h1 h2 h3 h4 h5 h6 h7 h8 h9 h10 h11)+
  qed
  have H2: "(player_index g player_id = Some pi \<and> length (discard_pile g) = 1 \<longrightarrow>
          (handle_player_action_draw_deck rnd g player_id) =
          ((reshuffle_discard_pile rnd g),
           [GroupMessage ''discard_pile_reshuffled'' [player_id],
            PrivateMessage player_id ''deck_completely_empty'',
            PrivateMessage player_id ''deck_empty_choose_another_action'']) \<and>
          deck (fst (handle_player_action_draw_deck rnd g player_id)) = [] \<and>
          phase (fst (handle_player_action_draw_deck rnd g player_id)) = phase g \<and>
          omerta_caller_id (fst (handle_player_action_draw_deck rnd g player_id)) = omerta_caller_id g \<and>
          final_scores_list (fst (handle_player_action_draw_deck rnd g player_id)) = final_scores_list g)"
  proof (intro impI, elim conjE)
    assume p: "player_index g player_id = Some pi" and l: "length (discard_pile g) = 1"
    note old = draw_deck_after_reshuffle[OF d dp p, of rnd]
    have e1: "(handle_player_action_draw_deck rnd g player_id) =
          ((reshuffle_discard_pile rnd g),
           [GroupMessage ''discard_pile_reshuffled'' [player_id],
            PrivateMessage player_id ''deck_completely_empty'',
            PrivateMessage player_id ''deck_empty_choose_another_action''])"
      using em[OF l] by (simp add: old)
    have e2: "deck (fst (handle_player_action_draw_deck rnd g player_id)) = []"
      using em[OF l] by (simp add: old)
    have e3: "phase (fst (handle_player_action_draw_deck rnd g player_id)) = phase g"
      using em[OF l] by (simp add: old)
    have e4: "omerta_caller_id (fst (handle_player_action_draw_deck rnd g player_id)) = omerta_caller_id g"
      using em[OF l] by (simp add: old reshuffle_discard_pile_def)
    have e5: "final_scores_list (fst (handle_player_action_draw_deck rnd g player_id)) = final_scores_list g"
      using em[OF l] by (simp add: old reshuffle_discard_pile_def)
    show "(handle_player_action_draw_deck rnd g player_id) =
          ((reshuffle_discard_pile rnd g),
           [GroupMessage ''discard_pile_reshuffled'' [player_id],
            PrivateMessage player_id ''deck_completely_empty'',
            PrivateMessage player_id ''deck_empty_choose_another_action'']) \<and>
          deck (fst (handle_player_action_draw_deck rnd g player_id)) = [] \<and>
          phase (fst (handle_player_action_draw_deck rnd g player_id)) = phase g \<and>
          omerta_caller_id (fst (handle_player_action_draw_deck rnd g player_id)) = omerta_caller_id g \<and>
          final_scores_list (fst (handle_player_action_draw_deck rnd g player_id)) = final_scores_list g"
      by (intro conjI) (rule e1 e2 e3 e4 e5)+
  qed
  have R1: "(player_index g ai_player_id = Some ai \<and> is_ai (all_participants g ! ai) \<and>
       hand (all_participants g ! ai) \<noteq> [] \<and> 1 < length (discard_pile g) \<longrightarrow>
          deck (fst (handle_ai_player_turn rnd r g ai_player_id)) = butlast (deck (reshuffle_discard_pile rnd g)) \<and>
          length (deck (fst (handle_ai_player_turn rnd r g ai_player_id))) = length (discard_pile g) - 2 \<and>
          hand (all_participants (fst (handle_ai_player_turn rnd r g ai_player_id)) ! ai) =
          (hand (all_participants g ! ai))[(r mod length (hand (all_participants g ! ai))) := last (deck (reshuffle_discard_pile rnd g))] \<and>
          (\<forall>j. j \<noteq> ai \<longrightarrow> all_participants (fst (handle_ai_player_turn rnd r g ai_player_id)) ! j = all_participants g ! j) \<and>
          discard_pile (fst (handle_ai_player_turn rnd r g ai_player_id)) =
          [last (discard_pile g), hand (all_participants g ! ai) ! (r mod length (hand (all_participants g ! ai)))] \<and>
          safe (fst (handle_ai_player_turn rnd r g ai_player_id)) = safe g \<and>
          snd (handle_ai_player_turn rnd r g ai_player_id) =
          [GroupMessage ''ai_pondering'' [ai_player_id],
           GroupMessage ''ai_observes_reshuffle'' [],
           GroupMessage ''ai_discarded'' [ai_player_id],
           Await (process_discarded_card ai_player_id (hand (all_participants g ! ai) ! (r mod length (hand (all_participants g ! ai)))))] \<and>
          (handle_ai_player_turn rnd r g ai_player_id) =
          (fst (handle_ai_player_turn rnd r (reshuffle_discard_pile rnd g) ai_player_id),
           GroupMessage ''ai_pondering'' [ai_player_id] # GroupMessage ''ai_observes_reshuffle'' [] #
             tl (snd (handle_ai_player_turn rnd r (reshuffle_discard_pile rnd g) ai_player_id))))"
  proof (intro impI, elim conjE)
    assume p: "player_index g ai_player_id = Some ai" and a: "is_ai (all_participants g ! ai)"
      and h: "hand (all_participants g ! ai) \<noteq> []" and l: "1 < length (discard_pile g)"
    note eq = ai_draw_after_reshuffle[OF d dp p a h ne[OF l]]
    note old = ai_turn_after_reshuffle[OF d dp p a h, of rnd r]
    note b = player_index_bound[OF p]
    have r1: "deck (fst (handle_ai_player_turn rnd r g ai_player_id)) = butlast (deck (reshuffle_discard_pile rnd g))"
      by (simp add: eq)
    have r2: "length (deck (fst (handle_ai_player_turn rnd r g ai_player_id))) = length (discard_pile g) - 2"
      by (simp add: eq A1)
    have r3: "hand (all_participants (fst (handle_ai_player_turn rnd r g ai_player_id)) ! ai) =
          (hand (all_participants g ! ai))[(r mod length (hand (all_participants g ! ai))) := last (deck (reshuffle_discard_pile rnd g))]"
      using b by (simp add: eq)
    have r4: "(\<forall>j. j \<noteq> ai \<longrightarrow> all_participants (fst (handle_ai_player_turn rnd r g ai_player_id)) ! j = all_participants g ! j)"
      by (simp add: eq)
    have r5: "discard_pile (fst (handle_ai_player_turn rnd r g ai_player_id)) =
          [last (discard_pile g), hand (all_participants g ! ai) ! (r mod length (hand (all_participants g ! ai)))]"
      by (simp add: eq)
    have r6: "safe (fst (handle_ai_player_turn rnd r g ai_player_id)) = safe g"
      by (simp add: eq)
    have r7: "snd (handle_ai_player_turn rnd r g ai_player_id) =
          [GroupMessage ''ai_pondering'' [ai_player_id],
           GroupMessage ''ai_observes_reshuffle'' [],
           GroupMessage ''ai_discarded'' [ai_player_id],
           Await (process_discarded_card ai_player_id (hand (all_participants g ! ai) ! (r mod length (hand (all_participants g ! ai)))))]"
      by (simp add: eq)
    have r8: "(handle_ai_player_turn rnd r g ai_player_id) =
          (fst (handle_ai_player_turn rnd r (reshuffle_discard_pile rnd g) ai_player_id),
           GroupMessage ''ai_pondering'' [ai_player_id] # GroupMessage ''ai_observes_reshuffle'' [] #
             tl (snd (handle_ai_player_turn rnd r (reshuffle_discard_pile rnd g) ai_player_id)))"
      using ne[OF l] by (simp add: old)
    show "deck (fst (handle_ai_player_turn rnd r g ai_player_id)) = butlast (deck (reshuffle_discard_pile rnd g)) \<and>
          length (deck (fst (handle_ai_player_turn rnd r g ai_player_id))) = length (discard_pile g) - 2 \<and>
          hand (all_participants (fst (handle_ai_player_turn rnd r g ai_player_id)) ! ai) =
          (hand (all_participants g ! ai))[(r mod length (hand (all_participants g ! ai))) := last (deck (reshuffle_discard_pile rnd g))] \<and>
          (\<forall>j. j \<noteq> ai \<longrightarrow> all_participants (fst (handle_ai_player_turn rnd r g ai_player_id)) ! j = all_participants g ! j) \<and>
          discard_pile (fst (handle_ai_player_turn rnd r g ai_player_id)) =
          [last (discard_pile g), hand (all_participants g ! ai) ! (r mod length (hand (all_participants g ! ai)))] \<and>
          safe (fst (handle_ai_player_turn rnd r g ai_player_id)) = safe g \<and>
          snd (handle_ai_player_turn rnd r g ai_player_id) =
          [GroupMessage ''ai_pondering'' [ai_player_id],
           GroupMessage ''ai_observes_reshuffle'' [],
           GroupMessage ''ai_discarded'' [ai_player_id],
           Await (process_discarded_card ai_player_id (hand (all_participants g ! ai) ! (r mod length (hand (all_participants g ! ai)))))] \<and>
          (handle_ai_player_turn rnd r g ai_player_id) =
          (fst (handle_ai_player_turn rnd r (reshuffle_discard_pile rnd g) ai_player_id),
           GroupMessage ''ai_pondering'' [ai_player_id] # GroupMessage ''ai_observes_reshuffle'' [] #
             tl (snd (handle_ai_player_turn rnd r (reshuffle_discard_pile rnd g) ai_player_id)))"
      by (intro conjI) (rule r1 r2 r3 r4 r5 r6 r7 r8)+
  qed
  have R2: "(player_index g ai_player_id = Some ai \<and> is_ai (all_participants g ! ai) \<and>
       hand (all_participants g ! ai) \<noteq> [] \<and> length (discard_pile g) = 1 \<longrightarrow>
          (handle_ai_player_turn rnd r g ai_player_id) =
          (fst (handle_omerta_call (reshuffle_discard_pile rnd g) (Some ai_player_id) False True),
           GroupMessage ''ai_pondering'' [ai_player_id] # GroupMessage ''ai_observes_reshuffle'' [] #
             snd (handle_omerta_call (reshuffle_discard_pile rnd g) (Some ai_player_id) False True)) \<and>
          (phase g \<noteq> OMERTA_CALLED \<and> phase g \<noteq> COMPLETED \<longrightarrow>
          phase (fst (handle_ai_player_turn rnd r g ai_player_id)) = COMPLETED \<and>
          omerta_caller_id (fst (handle_ai_player_turn rnd r g ai_player_id)) = Some ai_player_id \<and>
          final_scores_list (fst (handle_ai_player_turn rnd r g ai_player_id)) \<noteq> None))"
  proof (intro impI, elim conjE)
    assume p: "player_index g ai_player_id = Some ai" and a: "is_ai (all_participants g ! ai)"
      and h: "hand (all_participants g ! ai) \<noteq> []" and l: "length (discard_pile g) = 1"
    note old = ai_turn_after_reshuffle[OF d dp p a h, of rnd r]
    have o1: "(handle_ai_player_turn rnd r g ai_player_id) =
          (fst (handle_omerta_call (reshuffle_discard_pile rnd g) (Some ai_player_id) False True),
           GroupMessage ''ai_pondering'' [ai_player_id] # GroupMessage ''ai_observes_reshuffle'' [] #
             snd (handle_omerta_call (reshuffle_discard_pile rnd g) (Some ai_player_id) False True))"
      using em[OF l] by (simp add: old)
    have o2: "(phase g \<noteq> OMERTA_CALLED \<and> phase g \<noteq> COMPLETED \<longrightarrow>
          phase (fst (handle_ai_player_turn rnd r g ai_player_id)) = COMPLETED \<and>
          omerta_caller_id (fst (handle_ai_player_turn rnd r g ai_player_id)) = Some ai_player_id \<and>
          final_scores_list (fst (handle_ai_player_turn rnd r g ai_player_id)) \<noteq> None)"
      using em[OF l] omerta_call_completes[of "reshuffle_discard_pile rnd g" "Some ai_player_id" False True]
      by (simp add: old)
    show "(handle_ai_player_turn rnd r g ai_player_id) =
          (fst (handle_omerta_call (reshuffle_discard_pile rnd g) (Some ai_player_id) False True),
           GroupMessage ''ai_pondering'' [ai_player_id] # GroupMessage ''ai_observes_reshuffle'' [] #
             snd (handle_omerta_call (reshuffle_discard_pile rnd g) (Some ai_player_id) False True)) \<and>
          (phase g \<noteq> OMERTA_CALLED \<and> phase g \<noteq> COMPLETED \<longrightarrow>
          phase (fst (handle_ai_player_turn rnd r g ai_player_id)) = COMPLETED \<and>
          omerta_caller_id (fst (handle_ai_player_turn rnd r g ai_player_id)) = Some ai_player_id \<and>
          final_scores_list (fst (handle_ai_player_turn rnd r g ai_player_id)) \<noteq> None)"
      by (intro conjI) (rule o1 o2)+
  qed
  show "let g1 = reshuffle_discard_pile rnd g;
        human = handle_player_action_draw_deck rnd g player_id;
        robot = handle_ai_player_turn rnd r g ai_player_id;
        k = r mod length (hand (all_participants g ! ai))
    in
      length (deck g1) = length (discard_pile g) - 1 \<and>
      mset (deck g1) = mset (butlast (discard_pile g)) \<and>
      discard_pile g1 = [last (discard_pile g)] \<and>
      (deck g1 = []) = (length (discard_pile g) = 1) \<and>
      (player_index g player_id = Some pi \<and> 1 < length (discard_pile g) \<longrightarrow>
          deck (fst human) = butlast (deck g1) \<and>
          length (deck (fst human)) = length (discard_pile g) - 2 \<and>
          map_option drawn_card (player_turn_context (fst human) player_id) = Some (Some (last (deck g1))) \<and>
          map_option draw_source (player_turn_context (fst human) player_id) = Some (Some ''deck'') \<and>
          add_mset (last (deck g1)) (mset (deck (fst human))) = mset (butlast (discard_pile g)) \<and>
          discard_pile (fst human) = [last (discard_pile g)] \<and>
          all_participants (fst human) = all_participants g \<and>
          safe (fst human) = safe g \<and>
          phase (fst human) = phase g \<and>
          snd human =
          [GroupMessage ''discard_pile_reshuffled'' [player_id],
           CardSelectionKeyboard player_id ''replace_hand_card''
             (get_card_selection_keyboard (hand (all_participants g ! pi)) 1 []
                (blocked_indices g player_id)),
           GroupMessage ''drew_from_deck'' [player_id]] \<and>
          human =
          (fst (handle_player_action_draw_deck rnd g1 player_id),
           GroupMessage ''discard_pile_reshuffled'' [player_id] #
             snd (handle_player_action_draw_deck rnd g1 player_id))) \<and>
      (player_index g player_id = Some pi \<and> length (discard_pile g) = 1 \<longrightarrow>
          human =
          (g1,
           [GroupMessage ''discard_pile_reshuffled'' [player_id],
            PrivateMessage player_id ''deck_completely_empty'',
            PrivateMessage player_id ''deck_empty_choose_another_action'']) \<and>
          deck (fst human) = [] \<and>
          phase (fst human) = phase g \<and>
          omerta_caller_id (fst human) = omerta_caller_id g \<and>
          final_scores_list (fst human) = final_scores_list g) \<and>
      (player_index g ai_player_id = Some ai \<and> is_ai (all_participants g ! ai) \<and>
       hand (all_participants g ! ai) \<noteq> [] \<and> 1 < length (discard_pile g) \<longrightarrow>
          deck (fst robot) = butlast (deck g1) \<and>
          length (deck (fst robot)) = length (discard_pile g) - 2 \<and>
          hand (all_participants (fst robot) ! ai) =
          (hand (all_participants g ! ai))[k := last (deck g1)] \<and>
          (\<forall>j. j \<noteq> ai \<longrightarrow> all_participants (fst robot) ! j = all_participants g ! j) \<and>
          discard_pile (fst robot) =
          [last (discard_pile g), hand (all_participants g ! ai) ! k] \<and>
          safe (fst robot) = safe g \<and>
          snd robot =
          [GroupMessage ''ai_pondering'' [ai_player_id],
           GroupMessage ''ai_observes_reshuffle'' [],
           GroupMessage ''ai_discarded'' [ai_player_id],
           Await (process_discarded_card ai_player_id (hand (all_participants g ! ai) ! k))] \<and>
          robot =
          (fst (handle_ai_player_turn rnd r g1 ai_player_id),
           GroupMessage ''ai_pondering'' [ai_player_id] # GroupMessage ''ai_observes_reshuffle'' [] #
             tl (snd (handle_ai_player_turn rnd r g1 ai_player_id)))) \<and>
      (player_index g ai_player_id = Some ai \<and> is_ai (all_participants g ! ai) \<and>
       hand (all_participants g ! ai) \<noteq> [] \<and> length (discard_pile g) = 1 \<longrightarrow>
          robot =
          (fst (handle_omerta_call g1 (Some ai_player_id) False True),
           GroupMessage ''ai_pondering'' [ai_player_id] # GroupMessage ''ai_observes_reshuffle'' [] #
             snd (handle_omerta_call g1 (Some ai_player_id) False True)) \<and>
          (phase g \<noteq> OMERTA_CALLED \<and> phase g \<noteq> COMPLETED \<longrightarrow>
          phase (fst robot) = COMPLETED \<and>
          omerta_caller_id (fst robot) = Some ai_player_id \<and>
          final_scores_list (fst robot) \<noteq> None))"
    unfolding Let_def by (intro conjI) (rule A1 A2 A3 A4 H1 H2 R1 R2)+
qed

theorem reshuffle_on_empty_deck_witness:
  "deck ex_reshuffle = [] \<and>
   discard_pile ex_reshuffle \<noteq> [] \<and>
   1 < length (discard_pile ex_reshuffle) \<and>
   player_index ex_reshuffle (IntId 101) = Some 0 \<and>
   player_index ex_reshuffle (StrId ''ai_1_1234'') = Some 2 \<and>
   is_ai (all_participants ex_reshuffle ! 2) \<and>
   hand (all_participants ex_reshuffle ! 2) \<noteq> [] \<and>
   length (deck (reshuffle_discard_pile (\<lambda>i. 0) ex_reshuffle)) = length (discard_pile ex_reshuffle) - 1 \<and>
   mset (deck (reshuffle_discard_pile (\<lambda>i. 0) ex_reshuffle)) = mset (butlast (discard_pile ex_reshuffle)) \<and>
   discard_pile (reshuffle_discard_pile (\<lambda>i. 0) ex_reshuffle) = [last (discard_pile ex_reshuffle)] \<and>
   (deck (reshuffle_discard_pile (\<lambda>i. 0) ex_reshuffle) = []) = (length (discard_pile ex_reshuffle) = 1) \<and>
   deck (fst (handle_player_action_draw_deck (\<lambda>i. 0) ex_reshuffle (IntId 101))) = butlast (deck (reshuffle_discard_pile (\<lambda>i. 0) ex_reshuffle)) \<and>
   length (deck (fst (handle_player_action_draw_deck (\<lambda>i. 0) ex_reshuffle (IntId 101)))) = length (discard_pile ex_reshuffle) - 2 \<and>
   map_option drawn_card (player_turn_context (fst (handle_player_action_draw_deck (\<lambda>i. 0) ex_reshuffle (IntId 101))) (IntId 101)) = Some (Some (last (deck (reshuffle_discard_pile (\<lambda>i. 0) ex_reshuffle)))) \<and>
   map_option draw_source (player_turn_context (fst (handle_player_action_draw_deck (\<lambda>i. 0) ex_reshuffle (IntId 101))) (IntId 101)) = Some (Some ''deck'') \<and>
   add_mset (last (deck (reshuffle_discard_pile (\<lambda>i. 0) ex_reshuffle))) (mset (deck (fst (handle_player_action_draw_deck (\<lambda>i. 0) ex_reshuffle (IntId 101))))) = mset (butlast (discard_pile ex_reshuffle)) \<and>
   discard_pile (fst (handle_player_action_draw_deck (\<lambda>i. 0) ex_reshuffle (IntId 101))) = [last (discard_pile ex_reshuffle)] \<and>
   all_participants (fst (handle_player_action_draw_deck (\<lambda>i. 0) ex_reshuffle (IntId 101))) = all_participants ex_reshuffle \<and>
   safe (fst (handle_player_action_draw_deck (\<lambda>i. 0) ex_reshuffle (IntId 101))) = safe ex_reshuffle \<and>
   phase (fst (handle_player_action_draw_deck (\<lambda>i. 0) ex_reshuffle (IntId 101))) = phase ex_reshuffle \<and>
   snd (handle_player_action_draw_deck (\<lambda>i. 0) ex_reshuffle (IntId 101)) =
          [GroupMessage ''discard_pile_reshuffled'' [(IntId 101)],
           CardSelectionKeyboard (IntId 101) ''replace_hand_card''
             (get_card_selection_keyboard (hand (all_participants ex_reshuffle ! 0)) 1 []
                (blocked_indices ex_reshuffle (IntId 101))),
           GroupMessage ''drew_from_deck'' [(IntId 101)]] \<and>
   (handle_player_action_draw_deck (\<lambda>i. 0) ex_reshuffle (IntId 101)) =
          (fst (handle_player_action_draw_deck (\<lambda>i. 0) (reshuffle_discard_pile (\<lambda>i. 0) ex_reshuffle) (IntId 101)),
           GroupMessage ''discard_pile_reshuffled'' [(IntId 101)] #
             snd (handle_player_action_draw_deck (\<lambda>i. 0) (reshuffle_discard_pile (\<lambda>i. 0) ex_reshuffle) (IntId 101))) \<and>
   deck (fst (handle_ai_player_turn (\<lambda>i. 0) 0 ex_reshuffle (StrId ''ai_1_1234''))) = butlast (deck (reshuffle_discard_pile (\<lambda>i. 0) ex_reshuffle)) \<and>
   length (deck (fst (handle_ai_player_turn (\<lambda>i. 0) 0 ex_reshuffle (StrId ''ai_1_1234'')))) = length (discard_pile ex_reshuffle) - 2 \<and>
   hand (all_participants (fst (handle_ai_player_turn (\<lambda>i. 0) 0 ex_reshuffle (StrId ''ai_1_1234''))) ! 2) =
          (hand (all_participants ex_reshuffle ! 2))[(0 mod length (hand (all_participants ex_reshuffle ! 2))) := last (deck (reshuffle_discard_pile (\<lambda>i. 0) ex_reshuffle))] \<and>
   all_participants (fst (handle_ai_player_turn (\<lambda>i. 0) 0 ex_reshuffle (StrId ''ai_1_1234''))) ! 0 = all_participants ex_reshuffle ! 0 \<and>
   all_participants (fst (handle_ai_player_turn (\<lambda>i. 0) 0 ex_reshuffle (StrId ''ai_1_1234''))) ! 1 = all_participants ex_reshuffle ! 1 \<and>
   discard_pile (fst (handle_ai_player_turn (\<lambda>i. 0) 0 ex_reshuffle (StrId ''ai_1_1234''))) =
          [last (discard_pile ex_reshuffle), hand (all_participants ex_reshuffle ! 2) ! (0 mod length (hand (all_participants ex_reshuffle ! 2)))] \<and>
   safe (fst (handle_ai_player_turn (\<lambda>i. 0) 0 ex_reshuffle (StrId ''ai_1_1234''))) = safe ex_reshuffle \<and>
   snd (handle_ai_player_turn (\<lambda>i. 0) 0 ex_reshuffle (StrId ''ai_1_1234'')) =
          [GroupMessage ''ai_pondering'' [(StrId ''ai_1_1234'')],
           GroupMessage ''ai_observes_reshuffle'' [],
           GroupMessage ''ai_discarded'' [(StrId ''ai_1_1234'')],
           Await (process_discarded_card (StrId ''ai_1_1234'') (hand (all_participants ex_reshuffle ! 2) ! (0 mod length (hand (all_participants ex_reshuffle ! 2)))))] \<and>
   (handle_ai_player_turn (\<lambda>i. 0) 0 ex_reshuffle (StrId ''ai_1_1234'')) =
          (fst (handle_ai_player_turn (\<lambda>i. 0) 0 (reshuffle_discard_pile (\<lambda>i. 0) ex_reshuffle) (StrId ''ai_1_1234'')),
           GroupMessage ''ai_pondering'' [(StrId ''ai_1_1234'')] # GroupMessage ''ai_observes_reshuffle'' [] #
             tl (snd (handle_ai_player_turn (\<lambda>i. 0) 0 (reshuffle_discard_pile (\<lambda>i. 0) ex_reshuffle) (StrId ''ai_1_1234'')))) \<and>
   deck ex_empty_deck = [] \<and>
   discard_pile ex_empty_deck \<noteq> [] \<and>
   length (discard_pile ex_empty_deck) = 1 \<and>
   player_index ex_empty_deck (IntId 101) = Some 0 \<and>
   player_index ex_empty_deck (StrId ''ai_1_1234'') = Some 2 \<and>
   is_ai (all_participants ex_empty_deck ! 2) \<and>
   hand (all_participants ex_empty_deck ! 2) \<noteq> [] \<and>
   phase ex_empty_deck \<noteq> OMERTA_CALLED \<and>
   phase ex_empty_deck \<noteq> COMPLETED \<and>
   (handle_player_action_draw_deck (\<lambda>i. 0) ex_empty_deck (IntId 101)) =
          ((reshuffle_discard_pile (\<lambda>i. 0) ex_empty_deck),
           [GroupMessage ''discard_pile_reshuffled'' [(IntId 101)],
            PrivateMessage (IntId 101) ''deck_completely_empty'',
            PrivateMessage (IntId 101) ''deck_empty_choose_another_action'']) \<and>
   deck (fst (handle_player_action_draw_deck (\<lambda>i. 0) ex_empty_deck (IntId 101))) = [] \<and>
   phase (fst (handle_player_action_draw_deck (\<lambda>i. 0) ex_empty_deck (IntId 101))) = phase ex_empty_deck \<and>
   omerta_caller_id (fst (handle_player_action_draw_deck (\<lambda>i. 0) ex_empty_deck (IntId 101))) = omerta_caller_id ex_empty_deck \<and>
   final_scores_list (fst (handle_player_action_draw_deck (\<lambda>i. 0) ex_empty_deck (IntId 101))) = final_scores_list ex_empty_deck \<and>
   (handle_ai_player_turn (\<lambda>i. 0) 0 ex_empty_deck (StrId ''ai_1_1234'')) =
          (fst (handle_omerta_call (reshuffle_discard_pile (\<lambda>i. 0) ex_empty_deck) (Some (StrId ''ai_1_1234'')) False True),
           GroupMessage ''ai_pondering'' [(StrId ''ai_1_1234'')] # GroupMessage ''ai_observes_reshuffle'' [] #
             snd (handle_omerta_call (reshuffle_discard_pile (\<lambda>i. 0) ex_empty_deck) (Some (StrId ''ai_1_1234'')) False True)) \<and>
   phase (fst (handle_ai_player_turn (\<lambda>i. 0) 0 ex_empty_deck (StrId ''ai_1_1234''))) = COMPLETED \<and>
   omerta_caller_id (fst (handle_ai_player_turn (\<lambda>i. 0) 0 ex_empty_deck (StrId ''ai_1_1234''))) = Some (StrId ''ai_1_1234'') \<and>
   final_scores_list (fst (handle_ai_player_turn (\<lambda>i. 0) 0 ex_empty_deck (StrId ''ai_1_1234''))) \<noteq> None \<and>
   map cname (deck (reshuffle_discard_pile (\<lambda>i. 0) ex_reshuffle)) = [''Bottle 3'', ''Bottle 2''] \<and>
   map cname (deck (fst (handle_player_action_draw_deck (\<lambda>i. 0) ex_reshuffle (IntId 101)))) = [''Bottle 3''] \<and>
   map_option (map_option cname) (map_option drawn_card (player_turn_context (fst (handle_player_action_draw_deck (\<lambda>i. 0) ex_reshuffle (IntId 101))) (IntId 101)))
     = Some (Some ''Bottle 2'') \<and>
   map cname (hand (all_participants ex_reshuffle ! 2)) = [''Bottle 9'', ''Bottle 9'', ''Bottle 6'', ''Bottle 6''] \<and>
   map cname (hand (all_participants (fst (handle_ai_player_turn (\<lambda>i. 0) 0 ex_reshuffle (StrId ''ai_1_1234''))) ! 2))
     = [''Bottle 2'', ''Bottle 9'', ''Bottle 6'', ''Bottle 6''] \<and>
   map cname (discard_pile (fst (handle_ai_player_turn (\<lambda>i. 0) 0 ex_reshuffle (StrId ''ai_1_1234'')))) = [''The Lady'', ''Bottle 9'']"
proof -
  have hy1: "deck ex_reshuffle = [] \<and>
            discard_pile ex_reshuffle \<noteq> [] \<and>
            1 < length (discard_pile ex_reshuffle) \<and>
            player_index ex_reshuffle (IntId 101) = Some 0 \<and>
            player_index ex_reshuffle (StrId ''ai_1_1234'') = Some 2 \<and>
            is_ai (all_participants ex_reshuffle ! 2) \<and>
            hand (all_participants ex_reshuffle ! 2) \<noteq> []"
    by code_simp
  have hy2: "deck ex_empty_deck = [] \<and>
            discard_pile ex_empty_deck \<noteq> [] \<and>
            length (discard_pile ex_empty_deck) = 1 \<and>
            player_index ex_empty_deck (IntId 101) = Some 0 \<and>
            player_index ex_empty_deck (StrId ''ai_1_1234'') = Some 2 \<and>
            is_ai (all_participants ex_empty_deck ! 2) \<and>
            hand (all_participants ex_empty_deck ! 2) \<noteq> [] \<and>
            phase ex_empty_deck \<noteq> OMERTA_CALLED \<and>
            phase ex_empty_deck \<noteq> COMPLETED"
    by code_simp
  have ev: "map cname (deck (reshuffle_discard_pile (\<lambda>i. 0) ex_reshuffle)) = [''Bottle 3'', ''Bottle 2''] \<and>
            map cname (deck (fst (handle_player_action_draw_deck (\<lambda>i. 0) ex_reshuffle (IntId 101)))) = [''Bottle 3''] \<and>
            map_option (map_option cname) (map_option drawn_card (player_turn_context (fst (handle_player_action_draw_deck (\<lambda>i. 0) ex_reshuffle (IntId 101))) (IntId 101)))
     = Some (Some ''Bottle 2'') \<and>
            map cname (hand (all_participants ex_reshuffle ! 2)) = [''Bottle 9'', ''Bottle 9'', ''Bottle 6'', ''Bottle 6''] \<and>
            map cname (hand (all_participants (fst (handle_ai_player_turn (\<lambda>i. 0) 0 ex_reshuffle (StrId ''ai_1_1234''))) ! 2))
     = [''Bottle 2'', ''Bottle 9'', ''Bottle 6'', ''Bottle 6''] \<and>
            map cname (discard_pile (fst (handle_ai_player_turn (\<lambda>i. 0) 0 ex_reshuffle (StrId ''ai_1_1234'')))) = [''The Lady'', ''Bottle 9'']"
    by code_simp
  note T1 = reshuffle_on_empty_deck[where g=ex_reshuffle and rnd="\<lambda>i. 0" and player_id="IntId 101" and pi=0
      and r=0 and ai_player_id="StrId ''ai_1_1234''" and ai=2, unfolded Let_def]
  note T2 = reshuffle_on_empty_deck[where g=ex_empty_deck and rnd="\<lambda>i. 0" and player_id="IntId 101" and pi=0
      and r=0 and ai_player_id="StrId ''ai_1_1234''" and ai=2, unfolded Let_def]
  have c1: "length (deck (reshuffle_discard_pile (\<lambda>i. 0) ex_reshuffle)) = length (discard_pile ex_reshuffle) - 1 \<and>
            mset (deck (reshuffle_discard_pile (\<lambda>i. 0) ex_reshuffle)) = mset (butlast (discard_pile ex_reshuffle)) \<and>
            discard_pile (reshuffle_discard_pile (\<lambda>i. 0) ex_reshuffle) = [last (discard_pile ex_reshuffle)] \<and>
            (deck (reshuffle_discard_pile (\<lambda>i. 0) ex_reshuffle) = []) = (length (discard_pile ex_reshuffle) = 1) \<and>
            deck (fst (handle_player_action_draw_deck (\<lambda>i. 0) ex_reshuffle (IntId 101))) = butlast (deck (reshuffle_discard_pile (\<lambda>i. 0) ex_reshuffle)) \<and>
            length (deck (fst (handle_player_action_draw_deck (\<lambda>i. 0) ex_reshuffle (IntId 101)))) = length (discard_pile ex_reshuffle) - 2 \<and>
            map_option drawn_card (player_turn_context (fst (handle_player_action_draw_deck (\<lambda>i. 0) ex_reshuffle (IntId 101))) (IntId 101)) = Some (Some (last (deck (reshuffle_discard_pile (\<lambda>i. 0) ex_reshuffle)))) \<and>
            map_option draw_source (player_turn_context (fst (handle_player_action_draw_deck (\<lambda>i. 0) ex_reshuffle (IntId 101))) (IntId 101)) = Some (Some ''deck'') \<and>
            add_mset (last (deck (reshuffle_discard_pile (\<lambda>i. 0) ex_reshuffle))) (mset (deck (fst (handle_player_action_draw_deck (\<lambda>i. 0) ex_reshuffle (IntId 101))))) = mset (butlast (discard_pile ex_reshuffle)) \<and>
            discard_pile (fst (handle_player_action_draw_deck (\<lambda>i. 0) ex_reshuffle (IntId 101))) = [last (discard_pile ex_reshuffle)] \<and>
            all_participants (fst (handle_player_action_draw_deck (\<lambda>i. 0) ex_reshuffle (IntId 101))) = all_participants ex_reshuffle \<and>
            safe (fst (handle_player_action_draw_deck (\<lambda>i. 0) ex_reshuffle (IntId 101))) = safe ex_reshuffle \<and>
            phase (fst (handle_player_action_draw_deck (\<lambda>i. 0) ex_reshuffle (IntId 101))) = phase ex_reshuffle \<and>
            snd (handle_player_action_draw_deck (\<lambda>i. 0) ex_reshuffle (IntId 101)) =
          [GroupMessage ''discard_pile_reshuffled'' [(IntId 101)],
           CardSelectionKeyboard (IntId 101) ''replace_hand_card''
             (get_card_selection_keyboard (hand (all_participants ex_reshuffle ! 0)) 1 []
                (blocked_indices ex_reshuffle (IntId 101))),
           GroupMessage ''drew_from_deck'' [(IntId 101)]] \<and>
            (handle_player_action_draw_deck (\<lambda>i. 0) ex_reshuffle (IntId 101)) =
          (fst (handle_player_action_draw_deck (\<lambda>i. 0) (reshuffle_discard_pile (\<lambda>i. 0) ex_reshuffle) (IntId 101)),
           GroupMessage ''discard_pile_reshuffled'' [(IntId 101)] #
             snd (handle_player_action_draw_deck (\<lambda>i. 0) (reshuffle_discard_pile (\<lambda>i. 0) ex_reshuffle) (IntId 101))) \<and>
            deck (fst (handle_ai_player_turn (\<lambda>i. 0) 0 ex_reshuffle (StrId ''ai_1_1234''))) = butlast (deck (reshuffle_discard_pile (\<lambda>i. 0) ex_reshuffle)) \<and>
            length (deck (fst (handle_ai_player_turn (\<lambda>i. 0) 0 ex_reshuffle (StrId ''ai_1_1234'')))) = length (discard_pile ex_reshuffle) - 2 \<and>
            hand (all_participants (fst (handle_ai_player_turn (\<lambda>i. 0) 0 ex_reshuffle (StrId ''ai_1_1234''))) ! 2) =
          (hand (all_participants ex_reshuffle ! 2))[(0 mod length (hand (all_participants ex_reshuffle ! 2))) := last (deck (reshuffle_discard_pile (\<lambda>i. 0) ex_reshuffle))] \<and>
            (\<forall>j. j \<noteq> 2 \<longrightarrow> all_participants (fst (handle_ai_player_turn (\<lambda>i. 0) 0 ex_reshuffle (StrId ''ai_1_1234''))) ! j = all_participants ex_reshuffle ! j) \<and>
            discard_pile (fst (handle_ai_player_turn (\<lambda>i. 0) 0 ex_reshuffle (StrId ''ai_1_1234''))) =
          [last (discard_pile ex_reshuffle), hand (all_participants ex_reshuffle ! 2) ! (0 mod length (hand (all_participants ex_reshuffle ! 2)))] \<and>
            safe (fst (handle_ai_player_turn (\<lambda>i. 0) 0 ex_reshuffle (StrId ''ai_1_1234''))) = safe ex_reshuffle \<and>
            snd (handle_ai_player_turn (\<lambda>i. 0) 0 ex_reshuffle (StrId ''ai_1_1234'')) =
          [GroupMessage ''ai_pondering'' [(StrId ''ai_1_1234'')],
           GroupMessage ''ai_observes_reshuffle'' [],
           GroupMessage ''ai_discarded'' [(StrId ''ai_1_1234'')],
           Await (process_discarded_card (StrId ''ai_1_1234'') (hand (all_participants ex_reshuffle ! 2) ! (0 mod length (hand (all_participants ex_reshuffle ! 2)))))] \<and>
            (handle_ai_player_turn (\<lambda>i. 0) 0 ex_reshuffle (StrId ''ai_1_1234'')) =
          (fst (handle_ai_player_turn (\<lambda>i. 0) 0 (reshuffle_discard_pile (\<lambda>i. 0) ex_reshuffle) (StrId ''ai_1_1234'')),
           GroupMessage ''ai_pondering'' [(StrId ''ai_1_1234'')] # GroupMessage ''ai_observes_reshuffle'' [] #
             tl (snd (handle_ai_player_turn (\<lambda>i. 0) 0 (reshuffle_discard_pile (\<lambda>i. 0) ex_reshuffle) (StrId ''ai_1_1234''))))"
    using T1 hy1 by blast
  have c2: "(handle_player_action_draw_deck (\<lambda>i. 0) ex_empty_deck (IntId 101)) =
          ((reshuffle_discard_pile (\<lambda>i. 0) ex_empty_deck),
           [GroupMessage ''discard_pile_reshuffled'' [(IntId 101)],
            PrivateMessage (IntId 101) ''deck_completely_empty'',
            PrivateMessage (IntId 101) ''deck_empty_choose_another_action'']) \<and>
            deck (fst (handle_player_action_draw_deck (\<lambda>i. 0) ex_empty_deck (IntId 101))) = [] \<and>
            phase (fst (handle_player_action_draw_deck (\<lambda>i. 0) ex_empty_deck (IntId 101))) = phase ex_empty_deck \<and>
            omerta_caller_id (fst (handle_player_action_draw_deck (\<lambda>i. 0) ex_empty_deck (IntId 101))) = omerta_caller_id ex_empty_deck \<and>
            final_scores_list (fst (handle_player_action_draw_deck (\<lambda>i. 0) ex_empty_deck (IntId 101))) = final_scores_list ex_empty_deck \<and>
            (handle_ai_player_turn (\<lambda>i. 0) 0 ex_empty_deck (StrId ''ai_1_1234'')) =
          (fst (handle_omerta_call (reshuffle_discard_pile (\<lambda>i. 0) ex_empty_deck) (Some (StrId ''ai_1_1234'')) False True),
           GroupMessage ''ai_pondering'' [(StrId ''ai_1_1234'')] # GroupMessage ''ai_observes_reshuffle'' [] #
             snd (handle_omerta_call (reshuffle_discard_pile (\<lambda>i. 0) ex_empty_deck) (Some (StrId ''ai_1_1234'')) False True)) \<and>
            phase (fst (handle_ai_player_turn (\<lambda>i. 0) 0 ex_empty_deck (StrId ''ai_1_1234''))) = COMPLETED \<and>
            omerta_caller_id (fst (handle_ai_player_turn (\<lambda>i. 0) 0 ex_empty_deck (StrId ''ai_1_1234''))) = Some (StrId ''ai_1_1234'') \<and>
            final_scores_list (fst (handle_ai_player_turn (\<lambda>i. 0) 0 ex_empty_deck (StrId ''ai_1_1234''))) \<noteq> None"
    using T2 hy2 by blast
  have q: "(\<forall>j. j \<noteq> 2 \<longrightarrow> all_participants (fst (handle_ai_player_turn (\<lambda>i. 0) 0 ex_reshuffle (StrId ''ai_1_1234''))) ! j = all_participants ex_reshuffle ! j)"
    using c1 by blast
  have c1n: "all_participants (fst (handle_ai_player_turn (\<lambda>i. 0) 0 ex_reshuffle (StrId ''ai_1_1234''))) ! 0 = all_participants ex_reshuffle ! 0 \<and>
   all_participants (fst (handle_ai_player_turn (\<lambda>i. 0) 0 ex_reshuffle (StrId ''ai_1_1234''))) ! 1 = all_participants ex_reshuffle ! 1"
    using q[rule_format, of 0] q[rule_format, of 1] by simp
  show ?thesis
    apply (insert hy1 hy2 ev c1 c2 c1n)
    apply (elim conjE)
    apply (intro conjI)
    apply assumption+
    done
qed

text \<open>
  The claim as stated fails for a human player: with an empty deck and one card on the
  discard pile the reshuffle leaves the deck empty, and the handler sends the two notices
  and returns; the phase stays \<open>playing\<close> and no Omerta is recorded.
\<close>

theorem reshuffle_human_counterexample:
  "deck ex_empty_deck = [] \<and> length (discard_pile ex_empty_deck) = 1 \<and>
   snd (handle_player_action_draw_deck (\<lambda>i. 0) ex_empty_deck (IntId 101))
     = [GroupMessage ''discard_pile_reshuffled'' [IntId 101],
        PrivateMessage (IntId 101) ''deck_completely_empty'',
        PrivateMessage (IntId 101) ''deck_empty_choose_another_action''] \<and>
   deck (fst (handle_player_action_draw_deck (\<lambda>i. 0) ex_empty_deck (IntId 101))) = [] \<and>
   phase (fst (handle_player_action_draw_deck (\<lambda>i. 0) ex_empty_deck (IntId 101))) = PLAYING \<and>
   omerta_caller_id (fst (handle_player_action_draw_deck (\<lambda>i. 0) ex_empty_deck (IntId 101))) = None \<and>
   final_scores_list (fst (handle_player_action_draw_deck (\<lambda>i. 0) ex_empty_deck (IntId 101))) = None"
  by code_simp

subsection \<open>Bottle matching\<close>

lemma announced_winners_append [simp]:
  "announced_winners (xs @ ys) = announced_winners xs @ announced_winners ys"
  by (simp add: announced_winners_def)

lemma announced_failures_append [simp]:
  "announced_failures (xs @ ys) = announced_failures xs @ announced_failures ys"
  by (simp add: announced_failures_def)

lemma announced_nil [simp]: "announced_winners [] = []" "announced_failures [] = []"
  by (simp_all add: announced_winners_def announced_failures_def)

lemma announced_winners_Cons [simp]:
  "announced_winners (GroupMessage m ps # es) =
     (if m = ''bottle_matched'' then ps else []) @ announced_winners es"
  "announced_winners (CancelJob n # es) = announced_winners es"
  "announced_winners (RunOnce n k # es) = announced_winners es"
  "announced_winners (PrivateMessage q m # es) = announced_winners es"
  "announced_winners (CardSelectionKeyboard q m bs # es) = announced_winners es"
  "announced_winners (UpdatePlayerStats fs # es) = announced_winners es"
  "announced_winners (Await c # es) = announced_winners es"
  by (simp_all add: announced_winners_def)

lemma announced_failures_Cons [simp]:
  "announced_failures (GroupMessage m ps # es) =
     (if m = ''bottle_match_failed'' then ps else []) @ announced_failures es"
  "announced_failures (CancelJob n # es) = announced_failures es"
  "announced_failures (RunOnce n k # es) = announced_failures es"
  "announced_failures (PrivateMessage q m # es) = announced_failures es"
  "announced_failures (CardSelectionKeyboard q m bs # es) = announced_failures es"
  "announced_failures (UpdatePlayerStats fs # es) = announced_failures es"
  "announced_failures (Await c # es) = announced_failures es"
  by (simp_all add: announced_failures_def)

lemma attempt_closed_window:
  "bottle_match_context g = None \<Longrightarrow> handle_bottle_match_attempt g p i ai = (g, [])"
  by (simp add: handle_bottle_match_attempt_def split: option.splits)

lemma attempts_closed_window:
  "bottle_match_context g = None \<Longrightarrow> bottle_attempts g atts = (g, [])"
  by (induction atts arbitrary: g) (auto simp: attempt_closed_window)

text \<open>The three outcomes of one attempt.\<close>

lemma attempt_outcomes:
  obtains
    (rejected) "handle_bottle_match_attempt g p i ai = (g, [])"
  | (matched) bc where "bottle_match_context g = Some bc" "\<not> truthy_opt_id (fastest_matcher_id bc)"
      "p \<notin> failed_matchers bc"
      "bottle_match_context (fst (handle_bottle_match_attempt g p i ai)) = None"
      "announced_winners (snd (handle_bottle_match_attempt g p i ai)) = [p]"
      "announced_failures (snd (handle_bottle_match_attempt g p i ai)) = []"
  | (failed) bc where "bottle_match_context g = Some bc" "\<not> truthy_opt_id (fastest_matcher_id bc)"
      "p \<notin> failed_matchers bc"
      "bottle_match_context (fst (handle_bottle_match_attempt g p i ai))
         = Some (bc\<lparr>failed_matchers := insert p (failed_matchers bc)\<rparr>)"
      "announced_winners (snd (handle_bottle_match_attempt g p i ai)) = []"
      "announced_failures (snd (handle_bottle_match_attempt g p i ai)) = [p]"
proof (cases "player_index g p")
  case None
  then have "handle_bottle_match_attempt g p i ai = (g, [])"
    by (simp add: handle_bottle_match_attempt_def)
  then show ?thesis by (rule rejected)
next
  case (Some pi)
  show ?thesis
  proof (cases "bottle_match_context g")
    case None
    then show ?thesis using rejected attempt_closed_window by blast
  next
    case bc: (Some bc)
    show ?thesis
    proof (cases "phase g \<noteq> BOTTLE_MATCHING_WINDOW \<or> truthy_opt_id (fastest_matcher_id bc) \<or>
                  p \<in> failed_matchers bc \<or> \<not> valid_index i (hand (all_participants g ! pi))")
      case True
      then have "handle_bottle_match_attempt g p i ai = (g, [])"
        using Some bc by (auto simp: handle_bottle_match_attempt_def Let_def)
      then show ?thesis by (rule rejected)
    next
      case False
      note adm = False
      show ?thesis
      proof (cases "ctype (hand (all_participants g ! pi) ! nat i) = bottle \<and>
                    cvalue (hand (all_participants g ! pi) ! nat i) = discarded_card_value bc")
        case True
        have "bottle_match_context (fst (handle_bottle_match_attempt g p i ai)) = None"
          using Some bc adm True by (simp add: handle_bottle_match_attempt_def Let_def)
        moreover have "announced_winners (snd (handle_bottle_match_attempt g p i ai)) = [p]"
          using Some bc adm True
          by (simp add: handle_bottle_match_attempt_def Let_def split: option.splits)
        moreover have "announced_failures (snd (handle_bottle_match_attempt g p i ai)) = []"
          using Some bc adm True
          by (simp add: handle_bottle_match_attempt_def Let_def split: option.splits)
        ultimately show ?thesis using matched[of bc] bc adm by blast
      next
        case False
        then have no: "(ctype (hand (all_participants g ! pi) ! nat i) = bottle \<and>
                    cvalue (hand (all_participants g ! pi) ! nat i) = discarded_card_value bc) = False"
          by simp
        have "bottle_match_context (fst (handle_bottle_match_attempt g p i ai))
                = Some (bc\<lparr>failed_matchers := insert p (failed_matchers bc)\<rparr>)"
          using Some bc adm no
          by (auto simp: handle_bottle_match_attempt_def Let_def update_player_def set_participants_def)
        moreover have "announced_winners (snd (handle_bottle_match_attempt g p i ai)) = []"
          using Some bc adm no
          by (auto simp: handle_bottle_match_attempt_def Let_def)
        moreover have "announced_failures (snd (handle_bottle_match_attempt g p i ai)) = [p]"
          using Some bc adm no
          by (auto simp: handle_bottle_match_attempt_def Let_def)
        ultimately show ?thesis using failed[of bc] bc adm by blast
      qed
    qed
  qed
qed

lemma attempts_one_winner:
  "length (announced_winners (snd (bottle_attempts g atts))) \<le> 1"
proof (induction atts arbitrary: g)
  case Nil
  show ?case by simp
next
  case (Cons a atts)
  obtain p i ai where a: "a = (p, i, ai)" by (cases a) auto
  show ?case
  proof (cases rule: attempt_outcomes[of g p i ai])
    case rejected
    then show ?thesis using Cons.IH[of g] by (simp add: a split_beta)
  next
    case (matched bc)
    then show ?thesis
      by (simp add: a split_beta attempts_closed_window)
  next
    case (failed bc)
    then show ?thesis
      using Cons.IH[of "fst (handle_bottle_match_attempt g p i ai)"] by (simp add: a split_beta)
  qed
qed

lemma attempts_failures_fresh:
  "distinct (announced_failures (snd (bottle_attempts g atts))) \<and>
   set (announced_failures (snd (bottle_attempts g atts))) \<inter> failed_so_far g = {}"
proof (induction atts arbitrary: g)
  case Nil
  show ?case by simp
next
  case (Cons a atts)
  obtain p i ai where a: "a = (p, i, ai)" by (cases a) auto
  show ?case
  proof (cases rule: attempt_outcomes[of g p i ai])
    case rejected
    then show ?thesis using Cons.IH[of g] by (simp add: a split_beta)
  next
    case (matched bc)
    then show ?thesis
      by (simp add: a split_beta attempts_closed_window)
  next
    case (failed bc)
    let ?g1 = "fst (handle_bottle_match_attempt g p i ai)"
    have fs: "failed_so_far ?g1 = insert p (failed_so_far g)"
      using failed by (simp add: failed_so_far_def)
    from Cons.IH[of ?g1] fs failed show ?thesis
      by (auto simp: a split_beta failed_so_far_def)
  qed
qed


lemma attempt_after_winner:
  "bottle_match_context g = Some bc \<Longrightarrow> truthy_opt_id (fastest_matcher_id bc) \<Longrightarrow>
   handle_bottle_match_attempt g p i ai = (g, [])"
  by (simp add: handle_bottle_match_attempt_def split: option.splits)

lemma attempt_after_failure:
  "bottle_match_context g = Some bc \<Longrightarrow> p \<in> failed_matchers bc \<Longrightarrow>
   handle_bottle_match_attempt g p i ai = (g, [])"
  by (simp add: handle_bottle_match_attempt_def split: option.splits)

lemma winner_announced:
  assumes "announced_winners (snd (handle_bottle_match_attempt g p i ai)) \<noteq> []"
  shows "announced_winners (snd (handle_bottle_match_attempt g p i ai)) = [p] \<and>
         (\<exists>bc. bottle_match_context g = Some bc \<and> \<not> truthy_opt_id (fastest_matcher_id bc)) \<and>
         bottle_match_context (fst (handle_bottle_match_attempt g p i ai)) = None"
  using assms by (cases rule: attempt_outcomes[of g p i ai]) auto

lemma failed_attempt_penalty:
  assumes "player_index g p = Some pi" "bottle_match_context g = Some bc"
    "phase g = BOTTLE_MATCHING_WINDOW" "\<not> truthy_opt_id (fastest_matcher_id bc)"
    "p \<notin> failed_matchers bc" "valid_index i (hand (all_participants g ! pi))"
    "\<not> (ctype (hand (all_participants g ! pi) ! nat i) = bottle \<and>
        cvalue (hand (all_participants g ! pi) ! nat i) = discarded_card_value bc)"
  shows "handle_bottle_match_attempt g p i ai =
           ((if deck g \<noteq> []
             then (update_player (g\<lparr>bottle_match_context :=
                                        Some (bc\<lparr>failed_matchers := insert p (failed_matchers bc)\<rparr>)\<rparr>)
                     pi (\<lambda>q. q\<lparr>hand := hand q @ [last (deck g)]\<rparr>))\<lparr>deck := butlast (deck g)\<rparr>
             else g\<lparr>bottle_match_context :=
                      Some (bc\<lparr>failed_matchers := insert p (failed_matchers bc)\<rparr>)\<rparr>),
            (if ai then [] else [PrivateMessage p ''match_failed'']) @
            [GroupMessage ''bottle_match_failed'' [p]])"
proof -
  from assms(7) have no: "(ctype (hand (all_participants g ! pi) ! nat i) = bottle \<and>
        cvalue (hand (all_participants g ! pi) ! nat i) = discarded_card_value bc) = False"
    by simp
  show ?thesis
    using assms(1-6) by (simp add: handle_bottle_match_attempt_def Let_def no)
qed


lemma failed_attempt_state:
  assumes "player_index g p = Some pi" "bottle_match_context g = Some bc"
    "phase g = BOTTLE_MATCHING_WINDOW" "\<not> truthy_opt_id (fastest_matcher_id bc)"
    "p \<notin> failed_matchers bc" "valid_index i (hand (all_participants g ! pi))"
    "\<not> (ctype (hand (all_participants g ! pi) ! nat i) = bottle \<and>
        cvalue (hand (all_participants g ! pi) ! nat i) = discarded_card_value bc)"
  shows "bottle_match_context (fst (handle_bottle_match_attempt g p i ai))
           = Some (bc\<lparr>failed_matchers := insert p (failed_matchers bc)\<rparr>)"
    and "deck (fst (handle_bottle_match_attempt g p i ai)) = butlast (deck g)"
    and "hand (all_participants (fst (handle_bottle_match_attempt g p i ai)) ! pi)
           = hand (all_participants g ! pi) @ (if deck g \<noteq> [] then [last (deck g)] else [])"
    and "\<forall>j. j \<noteq> pi \<longrightarrow> all_participants (fst (handle_bottle_match_attempt g p i ai)) ! j
                          = all_participants g ! j"
    and "discard_pile (fst (handle_bottle_match_attempt g p i ai)) = discard_pile g"
    and "announced_failures (snd (handle_bottle_match_attempt g p i ai)) = [p]"
proof -
  note eq = failed_attempt_penalty[OF assms, of ai]
  have b: "pi < length (all_participants g)" using assms(1) by (rule player_index_bound)
  show "bottle_match_context (fst (handle_bottle_match_attempt g p i ai))
           = Some (bc\<lparr>failed_matchers := insert p (failed_matchers bc)\<rparr>)"
    by (simp add: eq)
  show "deck (fst (handle_bottle_match_attempt g p i ai)) = butlast (deck g)"
    by (simp add: eq)
  show "hand (all_participants (fst (handle_bottle_match_attempt g p i ai)) ! pi)
           = hand (all_participants g ! pi) @ (if deck g \<noteq> [] then [last (deck g)] else [])"
    using b by (simp add: eq)
  show "\<forall>j. j \<noteq> pi \<longrightarrow> all_participants (fst (handle_bottle_match_attempt g p i ai)) ! j
                          = all_participants g ! j"
    by (simp add: eq)
  show "discard_pile (fst (handle_bottle_match_attempt g p i ai)) = discard_pile g"
    by (simp add: eq)
  show "announced_failures (snd (handle_bottle_match_attempt g p i ai)) = [p]"
    by (simp add: eq)
qed

text \<open>
  Claim C2.  An attempt on a window that already records a winner is rejected, and so is the
  attempt of a player the window holds as failed: the session is unchanged and nothing is
  sent.  An attempt announces a winner only when the window recorded none, the winner is
  the attempting player, and the window is closed by the same attempt.  So over any run of
  attempts at most one winner is announced, and the players announced as failed are
  pairwise distinct and were not failed before.  An admitted attempt with a card that does
  not match adds the player to the failed set of the window and moves the top card of the
  deck into the hand of the player when the deck is not empty; with an empty deck no hand
  changes.  No other hand and no other pile changes.
\<close>

theorem bottle_match_rules:
  "(bottle_match_context g = Some bc \<and> truthy_opt_id (fastest_matcher_id bc) \<longrightarrow>
      handle_bottle_match_attempt g p i ai = (g, [])) \<and>
   (bottle_match_context g = Some bc \<and> p \<in> failed_matchers bc \<longrightarrow>
      handle_bottle_match_attempt g p i ai = (g, [])) \<and>
   (announced_winners (snd (handle_bottle_match_attempt g p i ai)) \<noteq> [] \<longrightarrow>
      announced_winners (snd (handle_bottle_match_attempt g p i ai)) = [p] \<and>
      (\<exists>c. bottle_match_context g = Some c \<and> \<not> truthy_opt_id (fastest_matcher_id c)) \<and>
      bottle_match_context (fst (handle_bottle_match_attempt g p i ai)) = None) \<and>
   length (announced_winners (snd (bottle_attempts g atts))) \<le> 1 \<and>
   distinct (announced_failures (snd (bottle_attempts g atts))) \<and>
   set (announced_failures (snd (bottle_attempts g atts))) \<inter> failed_so_far g = {} \<and>
   (player_index g p = Some pi \<and> bottle_match_context g = Some bc \<and>
    phase g = BOTTLE_MATCHING_WINDOW \<and> \<not> truthy_opt_id (fastest_matcher_id bc) \<and>
    p \<notin> failed_matchers bc \<and> valid_index i (hand (all_participants g ! pi)) \<and>
    \<not> (ctype (hand (all_participants g ! pi) ! nat i) = bottle \<and>
       cvalue (hand (all_participants g ! pi) ! nat i) = discarded_card_value bc) \<longrightarrow>
      bottle_match_context (fst (handle_bottle_match_attempt g p i ai))
        = Some (bc\<lparr>failed_matchers := insert p (failed_matchers bc)\<rparr>) \<and>
      announced_failures (snd (handle_bottle_match_attempt g p i ai)) = [p] \<and>
      deck (fst (handle_bottle_match_attempt g p i ai)) = butlast (deck g) \<and>
      hand (all_participants (fst (handle_bottle_match_attempt g p i ai)) ! pi)
        = hand (all_participants g ! pi) @ (if deck g \<noteq> [] then [last (deck g)] else []) \<and>
      (\<forall>j. j \<noteq> pi \<longrightarrow> all_participants (fst (handle_bottle_match_attempt g p i ai)) ! j
                       = all_participants g ! j) \<and>
      discard_pile (fst (handle_bottle_match_attempt g p i ai)) = discard_pile g)"
proof -
  have 1: "bottle_match_context g = Some bc \<and> truthy_opt_id (fastest_matcher_id bc) \<longrightarrow>
      handle_bottle_match_attempt g p i ai = (g, [])"
    using attempt_after_winner[of g bc p i ai] by blast
  have 2: "bottle_match_context g = Some bc \<and> p \<in> failed_matchers bc \<longrightarrow>
      handle_bottle_match_attempt g p i ai = (g, [])"
    using attempt_after_failure[of g bc p i ai] by blast
  have 3: "announced_winners (snd (handle_bottle_match_attempt g p i ai)) \<noteq> [] \<longrightarrow>
      announced_winners (snd (handle_bottle_match_attempt g p i ai)) = [p] \<and>
      (\<exists>c. bottle_match_context g = Some c \<and> \<not> truthy_opt_id (fastest_matcher_id c)) \<and>
      bottle_match_context (fst (handle_bottle_match_attempt g p i ai)) = None"
    using winner_announced[of g p i ai] by blast
  have 4: "length (announced_winners (snd (bottle_attempts g atts))) \<le> 1"
    by (rule attempts_one_winner)
  have 5: "distinct (announced_failures (snd (bottle_attempts g atts)))"
    and 6: "set (announced_failures (snd (bottle_attempts g atts))) \<inter> failed_so_far g = {}"
    using attempts_failures_fresh[of g atts] by blast+
  have 7: "player_index g p = Some pi \<and> bottle_match_context g = Some bc \<and>
    phase g = BOTTLE_MATCHING_WINDOW \<and> \<not> truthy_opt_id (fastest_matcher_id bc) \<and>
    p \<notin> failed_matchers bc \<and> valid_index i (hand (all_participants g ! pi)) \<and>
    \<not> (ctype (hand (all_participants g ! pi) ! nat i) = bottle \<and>
       cvalue (hand (all_participants g ! pi) ! nat i) = discarded_card_value bc) \<longrightarrow>
      bottle_match_context (fst (handle_bottle_match_attempt g p i ai))
        = Some (bc\<lparr>failed_matchers := insert p (failed_matchers bc)\<rparr>) \<and>
      announced_failures (snd (handle_bottle_match_attempt g p i ai)) = [p] \<and>
      deck (fst (handle_bottle_match_attempt g p i ai)) = butlast (deck g) \<and>
      hand (all_participants (fst (handle_bottle_match_attempt g p i ai)) ! pi)
        = hand (all_participants g ! pi) @ (if deck g \<noteq> [] then [last (deck g)] else []) \<and>
      (\<forall>j. j \<noteq> pi \<longrightarrow> all_participants (fst (handle_bottle_match_attempt g p i ai)) ! j
                       = all_participants g ! j) \<and>
      discard_pile (fst (handle_bottle_match_attempt g p i ai)) = discard_pile g"
  proof (intro impI, elim conjE)
    assume a: "player_index g p = Some pi" "bottle_match_context g = Some bc"
      "phase g = BOTTLE_MATCHING_WINDOW" "\<not> truthy_opt_id (fastest_matcher_id bc)"
      "p \<notin> failed_matchers bc" "valid_index i (hand (all_participants g ! pi))"
      "\<not> (ctype (hand (all_participants g ! pi) ! nat i) = bottle \<and>
          cvalue (hand (all_participants g ! pi) ! nat i) = discarded_card_value bc)"
    note st = failed_attempt_state[OF a, of ai]
    show "bottle_match_context (fst (handle_bottle_match_attempt g p i ai))
        = Some (bc\<lparr>failed_matchers := insert p (failed_matchers bc)\<rparr>) \<and>
      announced_failures (snd (handle_bottle_match_attempt g p i ai)) = [p] \<and>
      deck (fst (handle_bottle_match_attempt g p i ai)) = butlast (deck g) \<and>
      hand (all_participants (fst (handle_bottle_match_attempt g p i ai)) ! pi)
        = hand (all_participants g ! pi) @ (if deck g \<noteq> [] then [last (deck g)] else []) \<and>
      (\<forall>j. j \<noteq> pi \<longrightarrow> all_participants (fst (handle_bottle_match_attempt g p i ai)) ! j
                       = all_participants g ! j) \<and>
      discard_pile (fst (handle_bottle_match_attempt g p i ai)) = discard_pile g"
      by (intro conjI) (rule st)+
  qed
  from 1 2 3 4 5 6 7 show ?thesis
    apply -
    apply (intro conjI)
          apply assumption+
    done
qed

theorem bottle_match_rules_witness:
  "(bottle_match_context ex_window_won = Some (the (bottle_match_context ex_window_won)) \<and>
    truthy_opt_id (fastest_matcher_id (the (bottle_match_context ex_window_won))) \<and>
    handle_bottle_match_attempt ex_window_won (IntId 102) 0 False = (ex_window_won, [])) \<and>
   (bottle_match_context ex_window_failed = Some (the (bottle_match_context ex_window_failed)) \<and>
    StrId ''ai_1_1234'' \<in> failed_matchers (the (bottle_match_context ex_window_failed)) \<and>
    handle_bottle_match_attempt ex_window_failed (StrId ''ai_1_1234'') 1 True = (ex_window_failed, [])) \<and>
   (announced_winners (snd (handle_bottle_match_attempt ex_window (IntId 102) 0 False)) = [IntId 102] \<and>
    bottle_match_context (fst (handle_bottle_match_attempt ex_window (IntId 102) 0 False)) = None) \<and>
   (announced_winners (snd (bottle_attempts ex_window ex_attempts)) = [IntId 102] \<and>
    announced_failures (snd (bottle_attempts ex_window ex_attempts)) = [StrId ''ai_1_1234''] \<and>
    length (announced_winners (snd (bottle_attempts ex_window ex_attempts))) \<le> 1 \<and>
    distinct (announced_failures (snd (bottle_attempts ex_window ex_attempts)))) \<and>
   (player_index ex_window (StrId ''ai_1_1234'') = Some 2 \<and>
    deck ex_window = [bottle_card 7, bottle_card 8] \<and>
    map (length \<circ> hand) (all_participants ex_window) = [4, 4, 4] \<and>
    failed_matchers (the (bottle_match_context ex_window_failed)) = {StrId ''ai_1_1234''} \<and>
    deck ex_window_failed = [bottle_card 7] \<and>
    hand (all_participants ex_window_failed ! 2) = hand (all_participants ex_window ! 2) @ [bottle_card 8] \<and>
    map (length \<circ> hand) (all_participants ex_window_failed) = [4, 4, 5])"
proof -
  let ?ai = "StrId ''ai_1_1234''"
  have w1: "bottle_match_context ex_window_won = Some (the (bottle_match_context ex_window_won)) \<and>
    truthy_opt_id (fastest_matcher_id (the (bottle_match_context ex_window_won)))" by code_simp
  have f1: "bottle_match_context ex_window_failed = Some (the (bottle_match_context ex_window_failed)) \<and>
    StrId ''ai_1_1234'' \<in> failed_matchers (the (bottle_match_context ex_window_failed))" by code_simp
  have a1: "announced_winners (snd (handle_bottle_match_attempt ex_window (IntId 102) 0 False)) \<noteq> []"
    by code_simp
  have r1: "announced_winners (snd (bottle_attempts ex_window ex_attempts)) = [IntId 102] \<and>
    announced_failures (snd (bottle_attempts ex_window ex_attempts)) = [StrId ''ai_1_1234'']" by code_simp
  have p1: "player_index ex_window ?ai = Some 2 \<and>
    bottle_match_context ex_window = Some (the (bottle_match_context ex_window)) \<and>
    phase ex_window = BOTTLE_MATCHING_WINDOW \<and>
    \<not> truthy_opt_id (fastest_matcher_id (the (bottle_match_context ex_window))) \<and>
    ?ai \<notin> failed_matchers (the (bottle_match_context ex_window)) \<and>
    valid_index 0 (hand (all_participants ex_window ! 2)) \<and>
    \<not> (ctype (hand (all_participants ex_window ! 2) ! nat 0) = bottle \<and>
       cvalue (hand (all_participants ex_window ! 2) ! nat 0)
         = discarded_card_value (the (bottle_match_context ex_window)))" by code_simp
  have d1: "deck ex_window = [bottle_card 7, bottle_card 8] \<and>
    map (length \<circ> hand) (all_participants ex_window) = [4, 4, 4] \<and>
    failed_matchers (the (bottle_match_context ex_window)) = {}" by code_simp
  have l1: "map (length \<circ> hand) (all_participants ex_window_failed) = [4, 4, 5]" by code_simp
  note A = bottle_match_rules[of ex_window_won "the (bottle_match_context ex_window_won)"
             "IntId 102" 0 False "[]" 0]
  note B = bottle_match_rules[of ex_window_failed "the (bottle_match_context ex_window_failed)"
             ?ai 1 True "[]" 0]
  note C = bottle_match_rules[of ex_window "the (bottle_match_context ex_window)"
             "IntId 102" 0 False ex_attempts 1]
  note D = bottle_match_rules[of ex_window "the (bottle_match_context ex_window)"
             ?ai 0 True ex_attempts 2]
  have c1: "handle_bottle_match_attempt ex_window_won (IntId 102) 0 False = (ex_window_won, [])"
    using A w1 by blast
  have c2: "handle_bottle_match_attempt ex_window_failed ?ai 1 True = (ex_window_failed, [])"
    using B f1 by blast
  have c3: "announced_winners (snd (handle_bottle_match_attempt ex_window (IntId 102) 0 False)) = [IntId 102] \<and>
    bottle_match_context (fst (handle_bottle_match_attempt ex_window (IntId 102) 0 False)) = None"
    using C a1 by blast
  have c4: "length (announced_winners (snd (bottle_attempts ex_window ex_attempts))) \<le> 1 \<and>
    distinct (announced_failures (snd (bottle_attempts ex_window ex_attempts)))"
    using C by blast
  have c5: "bottle_match_context ex_window_failed
        = Some ((the (bottle_match_context ex_window))
                  \<lparr>failed_matchers := insert ?ai (failed_matchers (the (bottle_match_context ex_window)))\<rparr>) \<and>
      deck ex_window_failed = butlast (deck ex_window) \<and>
      hand (all_participants ex_window_failed ! 2)
        = hand (all_participants ex_window ! 2) @ (if deck ex_window \<noteq> [] then [last (deck ex_window)] else [])"
    unfolding ex_window_failed_def using D p1 by blast
  have c6: "failed_matchers (the (bottle_match_context ex_window_failed)) = {StrId ''ai_1_1234''} \<and>
    deck ex_window_failed = [bottle_card 7] \<and>
    hand (all_participants ex_window_failed ! 2) = hand (all_participants ex_window ! 2) @ [bottle_card 8]"
    using c5 d1 by simp
  show ?thesis using w1 f1 c1 c2 c3 r1 c4 p1 d1 c6 l1 by simp
qed

subsection \<open>Hand sizes\<close>

lemma pop_cards_length:
  "n \<le> length d \<Longrightarrow> length (fst (pop_cards n d)) = n \<and> length (snd (pop_cards n d)) = length d - n"
proof (induction n arbitrary: d)
  case 0
  then show ?case by simp
next
  case (Suc n)
  then have "n \<le> length (butlast d)" by simp
  from Suc.IH[OF this] show ?case by (simp add: split_beta)
qed

lemma deal_hands_lengths:
  "HAND_CARDS_COUNT * length ps \<le> length d \<Longrightarrow>
     map (length \<circ> hand) (fst (deal_hands ps d)) = replicate (length ps) HAND_CARDS_COUNT"
proof (induction ps arbitrary: d)
  case Nil
  then show ?case by simp
next
  case (Cons p ps)
  then have le: "HAND_CARDS_COUNT \<le> length d" by simp
  have rest: "HAND_CARDS_COUNT * length ps \<le> length (snd (pop_cards HAND_CARDS_COUNT d))"
    using Cons.prems pop_cards_length[OF le] by simp
  show ?case
    using le pop_cards_length[OF le] Cons.IH[OF rest]
    by (simp add: split_beta)
qed

lemma create_deck_length: "length (create_deck rnd) = 64"
  by (simp add: create_deck_def shuffle_length unshuffled_deck_length)

lemma deal_cards_participants:
  "all_participants (snd (deal_cards_to_players rnd g)) =
     (if all_participants g = [] then []
      else fst (deal_hands (all_participants g) (create_deck rnd)))"
proof -
  have ap: "\<And>g' x. all_participants (g'\<lparr>deck := x\<rparr>) = all_participants g'"
    by (simp add: all_participants_def)
  have sp: "\<And>ps a b c d e f. all_participants ((set_participants (g\<lparr>deck := create_deck rnd\<rparr>) ps)
               \<lparr>deck := a, safe := b, discard_pile := c, cycle_count := d\<rparr>) = ps"
    by (simp add: all_participants_def set_participants_def)
  show ?thesis
    by (simp add: deal_cards_to_players_def Let_def split_beta ap)
       (simp add: all_participants_def set_participants_def)
qed

lemma deal_gives_four:
  assumes "length (all_participants g) \<le> MAX_PLAYERS"
  shows "map (length \<circ> hand) (all_participants (snd (deal_cards_to_players rnd g)))
           = replicate (length (all_participants g)) HAND_CARDS_COUNT"
proof (cases "all_participants g = []")
  case True
  then show ?thesis by (simp add: deal_cards_participants)
next
  case False
  have "HAND_CARDS_COUNT * length (all_participants g) \<le> length (create_deck rnd)"
    using assms by (simp add: create_deck_length HAND_CARDS_COUNT_def MAX_PLAYERS_def)
  from deal_hands_lengths[OF this] False show ?thesis
    by (simp add: deal_cards_participants)
qed


lemma replacement_keeps_hand_sizes:
  "map (length \<circ> hand) (all_participants (fst (process_card_replacement g player_id idx new_card src)))
     = map (length \<circ> hand) (all_participants g)"
proof (cases "player_index g player_id")
  case None
  then show ?thesis by (simp add: process_card_replacement_def)
next
  case (Some pi)
  then show ?thesis
    by (simp add: process_card_replacement_def Let_def map_update list_update_same_conv
          player_index_bound)
qed

lemma valid_index_nat: "valid_index i xs \<Longrightarrow> nat i < length xs"
  by (auto simp: valid_index_def)

lemma length_remove_nth: "i < length xs \<Longrightarrow> length (remove_nth i xs) = length xs - 1"
  by (auto simp: remove_nth_def)

lemma hand_sizes_same:
  "i < length ps \<Longrightarrow>
   (map (length \<circ> hand) ps)[i := length (hand (ps ! i))] = map (length \<circ> hand) ps"
  by (simp add: list_update_same_conv)

lemma successful_match_state:
  assumes "player_index g p = Some pi" "bottle_match_context g = Some bc"
    "phase g = BOTTLE_MATCHING_WINDOW" "\<not> truthy_opt_id (fastest_matcher_id bc)"
    "p \<notin> failed_matchers bc" "valid_index i (hand (all_participants g ! pi))"
    "ctype (hand (all_participants g ! pi) ! nat i) = bottle \<and>
     cvalue (hand (all_participants g ! pi) ! nat i) = discarded_card_value bc"
  shows "fst (handle_bottle_match_attempt g p i ai) =
           (update_player g pi (\<lambda>q. q\<lparr>hand := remove_nth (nat i) (hand q)\<rparr>))
             \<lparr> discard_pile := discard_pile g @ [hand (all_participants g ! pi) ! nat i],
               bottle_match_context := None, bottle_match_context_just_ended := True,
               current_player_id := triggering_player_id bc \<rparr>"
  using assms by (simp add: handle_bottle_match_attempt_def Let_def)

lemma successful_match_sizes:
  assumes "player_index g p = Some pi" "bottle_match_context g = Some bc"
    "phase g = BOTTLE_MATCHING_WINDOW" "\<not> truthy_opt_id (fastest_matcher_id bc)"
    "p \<notin> failed_matchers bc" "valid_index i (hand (all_participants g ! pi))"
    "ctype (hand (all_participants g ! pi) ! nat i) = bottle \<and>
     cvalue (hand (all_participants g ! pi) ! nat i) = discarded_card_value bc"
  shows "map (length \<circ> hand) (all_participants (fst (handle_bottle_match_attempt g p i ai)))
           = (map (length \<circ> hand) (all_participants g))
               [pi := length (hand (all_participants g ! pi)) - 1]"
  using valid_index_nat[OF assms(6)]
  by (simp add: successful_match_state[OF assms] map_update length_remove_nth)

lemma failed_match_sizes:
  assumes "player_index g p = Some pi" "bottle_match_context g = Some bc"
    "phase g = BOTTLE_MATCHING_WINDOW" "\<not> truthy_opt_id (fastest_matcher_id bc)"
    "p \<notin> failed_matchers bc" "valid_index i (hand (all_participants g ! pi))"
    "\<not> (ctype (hand (all_participants g ! pi) ! nat i) = bottle \<and>
        cvalue (hand (all_participants g ! pi) ! nat i) = discarded_card_value bc)"
  shows "map (length \<circ> hand) (all_participants (fst (handle_bottle_match_attempt g p i ai)))
           = (map (length \<circ> hand) (all_participants g))
               [pi := length (hand (all_participants g ! pi)) + (if deck g \<noteq> [] then 1 else 0)]"
proof -
  have b: "pi < length (all_participants g)" using assms(1) by (rule player_index_bound)
  show ?thesis
    using b
    by (simp add: failed_attempt_penalty[OF assms] map_update hand_sizes_same)
qed

lemma snitch_single_sizes:
  assumes "player_index g p \<noteq> None" "player_index g t = Some ti"
  shows "map (length \<circ> hand) (all_participants (fst (execute_the_snitch_ability g p [t])))
           = (map (length \<circ> hand) (all_participants g))
               [ti := length (hand (all_participants g ! ti)) + (if deck g \<noteq> [] then 1 else 0)]"
    and "deck g \<noteq> [] \<Longrightarrow>
           hand (all_participants (fst (execute_the_snitch_ability g p [t])) ! ti)
             = hand (all_participants g ! ti) @ [last (deck g)]"
proof -
  have b: "ti < length (all_participants g)" using assms(2) by (rule player_index_bound)
  show "map (length \<circ> hand) (all_participants (fst (execute_the_snitch_ability g p [t])))
           = (map (length \<circ> hand) (all_participants g))
               [ti := length (hand (all_participants g ! ti)) + (if deck g \<noteq> [] then 1 else 0)]"
    using assms b
    by (auto simp: execute_the_snitch_ability_def Let_def split_beta map_update hand_sizes_same)
  show "hand (all_participants (fst (execute_the_snitch_ability g p [t])) ! ti)
             = hand (all_participants g ! ti) @ [last (deck g)]" if "deck g \<noteq> []"
    using assms b that
    by (auto simp: execute_the_snitch_ability_def Let_def split_beta)
qed

lemma driver_single_sizes:
  assumes "player_index g p = Some di" "valid_index idx (hand (all_participants g ! di))"
  shows "map (length \<circ> hand) (all_participants (fst (execute_the_driver_ability rnd g p [idx])))
           = (map (length \<circ> hand) (all_participants g))
               [di := (if ctype (hand (all_participants g ! di) ! nat idx) = bottle
                       then length (hand (all_participants g ! di)) - 1
                       else length (hand (all_participants g ! di)) +
                              (if deck g \<noteq> [] then 1 else 0))]"
proof -
  have b: "di < length (all_participants g)" using assms(1) by (rule player_index_bound)
  have n: "nat idx < length (hand (all_participants g ! di))" using assms(2) by (rule valid_index_nat)
  then have pos: "hand (all_participants g ! di) \<noteq> []" by auto
  show ?thesis
    using assms b n pos
    by (simp add: execute_the_driver_ability_def Let_def split_beta map_update
          length_remove_nth shuffle_length)
qed

text \<open>
  Claim C8, as the code has it.  Right after the deal every participant of a session with
  at most nine participants holds exactly four cards, and the replacement of a hand card
  by a drawn card keeps the size of every hand.  The size is not fixed during play.  An
  admitted bottle match with a matching card takes one card out of the hand of the
  matcher; an admitted attempt with a card that does not match adds one card to it when
  the deck is not empty.  The Snitch on one target adds one card to the hand of the target
  when the deck is not empty.  The Driver on one chosen card takes it out of the hand when
  it is a bottle; when it is not, the card goes back into the hand and one penalty card is
  added when the deck is not empty.  No other hand changes its size in any of these.
\<close>

theorem hand_sizes_after_deal_and_replacement:
  "(length (all_participants g) \<le> MAX_PLAYERS \<longrightarrow>
      map (length \<circ> hand) (all_participants (snd (deal_cards_to_players rnd g)))
        = replicate (length (all_participants g)) HAND_CARDS_COUNT) \<and>
   map (length \<circ> hand)
       (all_participants (fst (process_card_replacement g' player_id idx new_card src)))
     = map (length \<circ> hand) (all_participants g') \<and>
   (player_index s p = Some pi \<and> bottle_match_context s = Some bc \<and>
    phase s = BOTTLE_MATCHING_WINDOW \<and> \<not> truthy_opt_id (fastest_matcher_id bc) \<and>
    p \<notin> failed_matchers bc \<and> valid_index i (hand (all_participants s ! pi)) \<and>
    (ctype (hand (all_participants s ! pi) ! nat i) = bottle \<and>
     cvalue (hand (all_participants s ! pi) ! nat i) = discarded_card_value bc) \<longrightarrow>
      map (length \<circ> hand) (all_participants (fst (handle_bottle_match_attempt s p i ai)))
        = (map (length \<circ> hand) (all_participants s))[pi := length (hand (all_participants s ! pi)) - 1]) \<and>
   (player_index s p = Some pi \<and> bottle_match_context s = Some bc \<and>
    phase s = BOTTLE_MATCHING_WINDOW \<and> \<not> truthy_opt_id (fastest_matcher_id bc) \<and>
    p \<notin> failed_matchers bc \<and> valid_index i (hand (all_participants s ! pi)) \<and>
    \<not> (ctype (hand (all_participants s ! pi) ! nat i) = bottle \<and>
     cvalue (hand (all_participants s ! pi) ! nat i) = discarded_card_value bc) \<longrightarrow>
      map (length \<circ> hand) (all_participants (fst (handle_bottle_match_attempt s p i ai)))
        = (map (length \<circ> hand) (all_participants s))[pi := length (hand (all_participants s ! pi)) + (if deck s \<noteq> [] then 1 else 0)]) \<and>
   (player_index s snitch_player_id \<noteq> None \<and> player_index s t = Some ti \<longrightarrow>
      map (length \<circ> hand) (all_participants (fst (execute_the_snitch_ability s snitch_player_id [t])))
        = (map (length \<circ> hand) (all_participants s))[ti := length (hand (all_participants s ! ti)) + (if deck s \<noteq> [] then 1 else 0)]) \<and>
   (player_index s driver_player_id = Some di \<and> valid_index card_idx (hand (all_participants s ! di)) \<longrightarrow>
      map (length \<circ> hand) (all_participants (fst (execute_the_driver_ability rnd' s driver_player_id [card_idx])))
        = (map (length \<circ> hand) (all_participants s))[di := (if ctype (hand (all_participants s ! di) ! nat card_idx) = bottle
                     then length (hand (all_participants s ! di)) - 1
                     else length (hand (all_participants s ! di)) + (if deck s \<noteq> [] then 1 else 0))])"
proof -
  have a: "length (all_participants g) \<le> MAX_PLAYERS \<longrightarrow>
      map (length \<circ> hand) (all_participants (snd (deal_cards_to_players rnd g)))
        = replicate (length (all_participants g)) HAND_CARDS_COUNT"
    using deal_gives_four[of g rnd] by blast
  have b: "map (length \<circ> hand)
       (all_participants (fst (process_card_replacement g' player_id idx new_card src)))
     = map (length \<circ> hand) (all_participants g')"
    by (rule replacement_keeps_hand_sizes)
  have c: "player_index s p = Some pi \<and> bottle_match_context s = Some bc \<and>
    phase s = BOTTLE_MATCHING_WINDOW \<and> \<not> truthy_opt_id (fastest_matcher_id bc) \<and>
    p \<notin> failed_matchers bc \<and> valid_index i (hand (all_participants s ! pi)) \<and>
    (ctype (hand (all_participants s ! pi) ! nat i) = bottle \<and>
     cvalue (hand (all_participants s ! pi) ! nat i) = discarded_card_value bc) \<longrightarrow>
      map (length \<circ> hand) (all_participants (fst (handle_bottle_match_attempt s p i ai)))
        = (map (length \<circ> hand) (all_participants s))[pi := length (hand (all_participants s ! pi)) - 1]"
    by (intro impI, elim conjE, rule successful_match_sizes) (assumption+, rule conjI)
  have d: "player_index s p = Some pi \<and> bottle_match_context s = Some bc \<and>
    phase s = BOTTLE_MATCHING_WINDOW \<and> \<not> truthy_opt_id (fastest_matcher_id bc) \<and>
    p \<notin> failed_matchers bc \<and> valid_index i (hand (all_participants s ! pi)) \<and>
    \<not> (ctype (hand (all_participants s ! pi) ! nat i) = bottle \<and>
     cvalue (hand (all_participants s ! pi) ! nat i) = discarded_card_value bc) \<longrightarrow>
      map (length \<circ> hand) (all_participants (fst (handle_bottle_match_attempt s p i ai)))
        = (map (length \<circ> hand) (all_participants s))[pi := length (hand (all_participants s ! pi)) + (if deck s \<noteq> [] then 1 else 0)]"
    by (intro impI, elim conjE, rule failed_match_sizes) assumption+
  have e: "player_index s snitch_player_id \<noteq> None \<and> player_index s t = Some ti \<longrightarrow>
      map (length \<circ> hand) (all_participants (fst (execute_the_snitch_ability s snitch_player_id [t])))
        = (map (length \<circ> hand) (all_participants s))[ti := length (hand (all_participants s ! ti)) + (if deck s \<noteq> [] then 1 else 0)]"
    by (intro impI, elim conjE, rule snitch_single_sizes(1)) assumption+
  have f: "player_index s driver_player_id = Some di \<and> valid_index card_idx (hand (all_participants s ! di)) \<longrightarrow>
      map (length \<circ> hand) (all_participants (fst (execute_the_driver_ability rnd' s driver_player_id [card_idx])))
        = (map (length \<circ> hand) (all_participants s))[di := (if ctype (hand (all_participants s ! di) ! nat card_idx) = bottle
                     then length (hand (all_participants s ! di)) - 1
                     else length (hand (all_participants s ! di)) + (if deck s \<noteq> [] then 1 else 0))]"
    by (intro impI, elim conjE, rule driver_single_sizes) assumption+
  show ?thesis by (intro conjI) (rule a b c d e f)+
qed

theorem hand_sizes_after_deal_and_replacement_witness:
  "length (all_participants ex_tie) \<le> MAX_PLAYERS \<and>
   map (length \<circ> hand) (all_participants (snd (deal_cards_to_players (\<lambda>i. 0) ex_tie)))
     = replicate (length (all_participants ex_tie)) HAND_CARDS_COUNT \<and>
   map (length \<circ> hand) (all_participants (fst (process_card_replacement ex_play (IntId 102) 1 the_lady (Some ''deck''))))
     = map (length \<circ> hand) (all_participants ex_play) \<and>
   map (length \<circ> hand) (all_participants ex_window) = [4, 4, 4] \<and>
   player_index ex_window (IntId 102) = Some 1 \<and> bottle_match_context ex_window = Some (the (bottle_match_context ex_window)) \<and>
    phase ex_window = BOTTLE_MATCHING_WINDOW \<and> \<not> truthy_opt_id (fastest_matcher_id (the (bottle_match_context ex_window))) \<and>
    (IntId 102) \<notin> failed_matchers (the (bottle_match_context ex_window)) \<and> valid_index 0 (hand (all_participants ex_window ! 1)) \<and>
    (ctype (hand (all_participants ex_window ! 1) ! nat 0) = bottle \<and>
     cvalue (hand (all_participants ex_window ! 1) ! nat 0) = discarded_card_value (the (bottle_match_context ex_window))) \<and>
   map (length \<circ> hand) (all_participants (fst (handle_bottle_match_attempt ex_window (IntId 102) 0 False))) = [4, 3, 4] \<and>
   player_index ex_window (StrId ''ai_1_1234'') = Some 2 \<and> bottle_match_context ex_window = Some (the (bottle_match_context ex_window)) \<and>
    phase ex_window = BOTTLE_MATCHING_WINDOW \<and> \<not> truthy_opt_id (fastest_matcher_id (the (bottle_match_context ex_window))) \<and>
    (StrId ''ai_1_1234'') \<notin> failed_matchers (the (bottle_match_context ex_window)) \<and> valid_index 0 (hand (all_participants ex_window ! 2)) \<and>
    \<not> (ctype (hand (all_participants ex_window ! 2) ! nat 0) = bottle \<and>
     cvalue (hand (all_participants ex_window ! 2) ! nat 0) = discarded_card_value (the (bottle_match_context ex_window))) \<and>
   map (length \<circ> hand) (all_participants (fst (handle_bottle_match_attempt ex_window (StrId ''ai_1_1234'') 0 True))) = [4, 4, 5] \<and>
   player_index ex_snitch (IntId 101) \<noteq> None \<and> player_index ex_snitch (IntId 102) = Some 1 \<and>
    deck ex_snitch \<noteq> [] \<and>
   map (length \<circ> hand) (all_participants (fst (execute_the_snitch_ability ex_snitch (IntId 101) [IntId 102]))) = [4, 5, 4] \<and>
   player_index ex_play (IntId 101) = Some 0 \<and> valid_index 0 (hand (all_participants ex_play ! 0)) \<and>
    ctype (hand (all_participants ex_play ! 0) ! nat 0) = bottle \<and>
   map (length \<circ> hand) (all_participants (fst (execute_the_driver_ability (\<lambda>i. 0) ex_play (IntId 101) [0]))) = [3, 4, 4] \<and>
   player_index ex_driver (IntId 101) = Some 0 \<and> valid_index 0 (hand (all_participants ex_driver ! 0)) \<and>
    ctype (hand (all_participants ex_driver ! 0) ! nat 0) \<noteq> bottle \<and> deck ex_driver \<noteq> [] \<and>
   map (length \<circ> hand) (all_participants (fst (execute_the_driver_ability (\<lambda>i. 0) ex_driver (IntId 101) [0]))) = [5, 4, 4]"
proof -
  have ha: "length (all_participants ex_tie) \<le> MAX_PLAYERS" by code_simp
  have hc: "player_index ex_window (IntId 102) = Some 1 \<and> bottle_match_context ex_window = Some (the (bottle_match_context ex_window)) \<and>
    phase ex_window = BOTTLE_MATCHING_WINDOW \<and> \<not> truthy_opt_id (fastest_matcher_id (the (bottle_match_context ex_window))) \<and>
    (IntId 102) \<notin> failed_matchers (the (bottle_match_context ex_window)) \<and> valid_index 0 (hand (all_participants ex_window ! 1)) \<and>
    (ctype (hand (all_participants ex_window ! 1) ! nat 0) = bottle \<and>
     cvalue (hand (all_participants ex_window ! 1) ! nat 0) = discarded_card_value (the (bottle_match_context ex_window)))" by code_simp
  have hd: "player_index ex_window (StrId ''ai_1_1234'') = Some 2 \<and> bottle_match_context ex_window = Some (the (bottle_match_context ex_window)) \<and>
    phase ex_window = BOTTLE_MATCHING_WINDOW \<and> \<not> truthy_opt_id (fastest_matcher_id (the (bottle_match_context ex_window))) \<and>
    (StrId ''ai_1_1234'') \<notin> failed_matchers (the (bottle_match_context ex_window)) \<and> valid_index 0 (hand (all_participants ex_window ! 2)) \<and>
    \<not> (ctype (hand (all_participants ex_window ! 2) ! nat 0) = bottle \<and>
     cvalue (hand (all_participants ex_window ! 2) ! nat 0) = discarded_card_value (the (bottle_match_context ex_window)))" by code_simp
  have he: "player_index ex_snitch (IntId 101) \<noteq> None \<and> player_index ex_snitch (IntId 102) = Some 1 \<and>
    deck ex_snitch \<noteq> []" by code_simp
  have hf1: "player_index ex_play (IntId 101) = Some 0 \<and> valid_index 0 (hand (all_participants ex_play ! 0)) \<and>
    ctype (hand (all_participants ex_play ! 0) ! nat 0) = bottle" by code_simp
  have hf2: "player_index ex_driver (IntId 101) = Some 0 \<and> valid_index 0 (hand (all_participants ex_driver ! 0)) \<and>
    ctype (hand (all_participants ex_driver ! 0) ! nat 0) \<noteq> bottle \<and> deck ex_driver \<noteq> []" by code_simp
  have s0: "map (length \<circ> hand) (all_participants ex_window) = [4, 4, 4]" by code_simp
  have vc: "(map (length \<circ> hand) (all_participants ex_window))[1 := length (hand (all_participants ex_window ! 1)) - 1] = [4, 3, 4]" by code_simp
  have vd: "(map (length \<circ> hand) (all_participants ex_window))[2 := length (hand (all_participants ex_window ! 2)) + (if deck ex_window \<noteq> [] then 1 else 0)] = [4, 4, 5]" by code_simp
  have ve: "(map (length \<circ> hand) (all_participants ex_snitch))[1 := length (hand (all_participants ex_snitch ! 1)) + (if deck ex_snitch \<noteq> [] then 1 else 0)] = [4, 5, 4]" by code_simp
  have vf1: "(map (length \<circ> hand) (all_participants ex_play))[0 := (if ctype (hand (all_participants ex_play ! 0) ! nat 0) = bottle
                     then length (hand (all_participants ex_play ! 0)) - 1
                     else length (hand (all_participants ex_play ! 0)) + (if deck ex_play \<noteq> [] then 1 else 0))] = [3, 4, 4]" by code_simp
  have vf2: "(map (length \<circ> hand) (all_participants ex_driver))[0 := (if ctype (hand (all_participants ex_driver ! 0) ! nat 0) = bottle
                     then length (hand (all_participants ex_driver ! 0)) - 1
                     else length (hand (all_participants ex_driver ! 0)) + (if deck ex_driver \<noteq> [] then 1 else 0))] = [5, 4, 4]" by code_simp
  note T = hand_sizes_after_deal_and_replacement[where g=ex_tie and rnd="\<lambda>i. 0" and g'=ex_play and player_id="IntId 102"
      and idx=1 and new_card=the_lady and src="Some ''deck''"]
  have a: "map (length \<circ> hand) (all_participants (snd (deal_cards_to_players (\<lambda>i. 0) ex_tie)))
     = replicate (length (all_participants ex_tie)) HAND_CARDS_COUNT" using T[where s=ex_window] ha by blast
  have b: "map (length \<circ> hand) (all_participants (fst (process_card_replacement ex_play (IntId 102) 1 the_lady (Some ''deck''))))
     = map (length \<circ> hand) (all_participants ex_play)" using T[where s=ex_window] by blast
  have c: "map (length \<circ> hand) (all_participants (fst (handle_bottle_match_attempt ex_window (IntId 102) 0 False))) = (map (length \<circ> hand) (all_participants ex_window))[1 := length (hand (all_participants ex_window ! 1)) - 1]"
    using T[where s=ex_window and p="IntId 102" and pi=1 and bc="the (bottle_match_context ex_window)"
        and i=0 and ai=False] hc by blast
  have d: "map (length \<circ> hand) (all_participants (fst (handle_bottle_match_attempt ex_window (StrId ''ai_1_1234'') 0 True))) = (map (length \<circ> hand) (all_participants ex_window))[2 := length (hand (all_participants ex_window ! 2)) + (if deck ex_window \<noteq> [] then 1 else 0)]"
    using T[where s=ex_window and p="StrId ''ai_1_1234''" and pi=2 and bc="the (bottle_match_context ex_window)"
        and i=0 and ai=True] hd by blast
  have e: "map (length \<circ> hand) (all_participants (fst (execute_the_snitch_ability ex_snitch (IntId 101) [IntId 102]))) = (map (length \<circ> hand) (all_participants ex_snitch))[1 := length (hand (all_participants ex_snitch ! 1)) + (if deck ex_snitch \<noteq> [] then 1 else 0)]"
    using T[where s=ex_snitch and snitch_player_id="IntId 101" and t="IntId 102" and ti=1] he by blast
  have f1: "map (length \<circ> hand) (all_participants (fst (execute_the_driver_ability (\<lambda>i. 0) ex_play (IntId 101) [0]))) = (map (length \<circ> hand) (all_participants ex_play))[0 := (if ctype (hand (all_participants ex_play ! 0) ! nat 0) = bottle
                     then length (hand (all_participants ex_play ! 0)) - 1
                     else length (hand (all_participants ex_play ! 0)) + (if deck ex_play \<noteq> [] then 1 else 0))]"
    using T[where s=ex_play and driver_player_id="IntId 101" and di=0 and card_idx=0 and rnd'="\<lambda>i. 0"] hf1
    by blast
  have f2: "map (length \<circ> hand) (all_participants (fst (execute_the_driver_ability (\<lambda>i. 0) ex_driver (IntId 101) [0]))) = (map (length \<circ> hand) (all_participants ex_driver))[0 := (if ctype (hand (all_participants ex_driver ! 0) ! nat 0) = bottle
                     then length (hand (all_participants ex_driver ! 0)) - 1
                     else length (hand (all_participants ex_driver ! 0)) + (if deck ex_driver \<noteq> [] then 1 else 0))]"
    using T[where s=ex_driver and driver_player_id="IntId 101" and di=0 and card_idx=0 and rnd'="\<lambda>i. 0"] hf2
    by blast
  note c' = trans[OF c vc] and d' = trans[OF d vd] and e' = trans[OF e ve]
    and f1' = trans[OF f1 vf1] and f2' = trans[OF f2 vf2]
  show ?thesis
    apply (insert ha hc hd he hf1 hf2 s0 a b c' d' e' f1' f2')
    apply (elim conjE)
    apply (intro conjI)
    apply assumption+
    done
qed

text \<open>
  The claim as stated fails in the bottle-matching window: participant 102 holds four
  cards, matches the discarded bottle with the card at position 0, and holds three.
\<close>

theorem hand_size_counterexample:
  "phase ex_window = BOTTLE_MATCHING_WINDOW \<and>
   map (length \<circ> hand) (all_participants ex_window) = [4, 4, 4] \<and>
   map (length \<circ> hand)
       (all_participants (fst (handle_bottle_match_attempt ex_window (IntId 102) 0 False)))
     = [4, 3, 4]"
  by code_simp

subsection \<open>Blocked positions\<close>

lemma blocked_indices_int_key:
  "blocked_indices (fst (execute_police_patrol_ability g police_player_id (IntId t) target_card_idx)) (IntId t)
     = blocked_indices g (IntId t)"
  by (simp add: execute_police_patrol_ability_def blocked_indices_def Let_def update_conv'
        split: option.splits prod.splits)

lemma blocked_indices_str_key:
  assumes "player_index g police_player_id = Some pi" "player_index g target_player_id = Some ti"
    "valid_index target_card_idx (hand (all_participants g ! ti))"
  shows "target_card_idx \<in> set (blocked_indices
           (fst (execute_police_patrol_ability g police_player_id target_player_id target_card_idx))
           (StrId (py_str target_player_id)))"
proof -
  from assms(3) have "hand (all_participants g ! ti) \<noteq> []" by (auto simp: valid_index_def)
  with assms show ?thesis
    by (simp add: execute_police_patrol_ability_def blocked_indices_def Let_def update_conv'
          dom_update)
qed

text \<open>
  Claim C7, where the code departs from it.  Police Patrol on a human player, whose id is
  an integer, stores the block under the key \<open>str(id)\<close>.  The prompts that look the
  blocks up under the id itself (the replacement prompt after a draw among them) see what
  they saw before: the blocked position is listed under the string key, and the set of
  blocked positions under the integer key is unchanged, so the position stays selectable.
\<close>

theorem police_block_missed_under_int_key:
  "player_index g police_player_id \<noteq> None \<and> player_index g (IntId t) = Some ti \<and>
   valid_index target_card_idx (hand (all_participants g ! ti)) \<longrightarrow>
     (let g1 = fst (execute_police_patrol_ability g police_player_id (IntId t) target_card_idx) in
        target_card_idx \<in> set (blocked_indices g1 (StrId (py_str (IntId t)))) \<and>
        blocked_indices g1 (IntId t) = blocked_indices g (IntId t))"
  using blocked_indices_str_key[of g police_player_id _ "IntId t" ti target_card_idx]
    blocked_indices_int_key[of g police_player_id t target_card_idx]
  by (auto simp: Let_def)

theorem police_block_missed_under_int_key_witness:
  "player_index ex_play (IntId 101) \<noteq> None \<and> player_index ex_play (IntId 102) = Some 1 \<and>
   valid_index 1 (hand (all_participants ex_play ! 1)) \<and>
   blocked_indices ex_play (IntId 102) = [] \<and>
   (let g1 = fst (execute_police_patrol_ability ex_play (IntId 101) (IntId 102) 1) in
      1 \<in> set (blocked_indices g1 (StrId (py_str (IntId 102)))) \<and>
      blocked_indices g1 (IntId 102) = blocked_indices ex_play (IntId 102) \<and>
      blocked_cards g1 = [(StrId ''102'', [(1, 2)])] \<and>
      snd (cb_turn_draw_deck (\<lambda>i. 0) g1 102 102)
        = [CardSelectionKeyboard (IntId 102) ''replace_hand_card''
             [select_button 0, select_button 1, select_button 2, select_button 3],
           GroupMessage ''drew_from_deck'' [IntId 102]] \<and>
      get_card_selection_keyboard (hand (all_participants g1 ! 1)) 1 []
          (blocked_indices g1 (StrId (py_str (IntId 102))))
        = [select_button 0, no_action_card_blocked 1, select_button 2, select_button 3])"
proof -
  have h: "player_index ex_play (IntId 101) \<noteq> None \<and> player_index ex_play (IntId 102) = Some 1 \<and>
   valid_index 1 (hand (all_participants ex_play ! 1))" by code_simp
  have e: "blocked_indices ex_play (IntId 102) = []" by code_simp
  have r: "(let g1 = fst (execute_police_patrol_ability ex_play (IntId 101) (IntId 102) 1) in
      blocked_cards g1 = [(StrId ''102'', [(1, 2)])] \<and>
      snd (cb_turn_draw_deck (\<lambda>i. 0) g1 102 102)
        = [CardSelectionKeyboard (IntId 102) ''replace_hand_card''
             [select_button 0, select_button 1, select_button 2, select_button 3],
           GroupMessage ''drew_from_deck'' [IntId 102]] \<and>
      get_card_selection_keyboard (hand (all_participants g1 ! 1)) 1 []
          (blocked_indices g1 (StrId (py_str (IntId 102))))
        = [select_button 0, no_action_card_blocked 1, select_button 2, select_button 3])" by code_simp
  from police_block_missed_under_int_key[of ex_play "IntId 101" 102 1 1] h e r
  show ?thesis unfolding Let_def by blast
qed

subsection \<open>The resume after the Killer step\<close>

lemma snitch_step_not_confirm:
  "\<not> sublist ''_confirm_target'' ''snitch_confirmed_targets''"
  "\<not> sublist ''_confirm_swap'' ''snitch_confirmed_targets''"
  "\<not> sublist ''_confirmed_block_target'' ''snitch_confirmed_targets''"
  by code_simp+

lemma snitch_step_not_select:
  "\<not> suffix ''_select_target'' ''snitch_confirmed_targets''"
  "\<not> suffix ''_select_targets'' ''snitch_confirmed_targets''"
  "\<not> suffix ''_select_own_card'' ''snitch_confirmed_targets''"
  "\<not> suffix ''_select_opponent_card'' ''snitch_confirmed_targets''"
  "\<not> prefix ''gangster_others_select_'' ''snitch_confirmed_targets''"
  by code_simp+

lemma get_player_by_id_active_ability [simp]:
  "get_player_by_id (g\<lparr>active_ability_context := a\<rparr>) p = get_player_by_id g p"
  by (simp add: get_player_by_id_def player_index_def all_participants_def)

text \<open>
  Claim C3, where the code departs from it.  A Snitch suspended at its confirmation step
  (the step is \<open>snitch_confirmed_targets\<close>) is not executed when the Killer step ends:
  the step name matches none of the confirmation patterns and none of the selection
  patterns, so the resume clears the ability context, tells the original player that the
  effect is lost and advances the turn.
\<close>

theorem resume_loses_confirmed_snitch:
  "card_name snap = ''The Snitch'' \<and> step snap = ''snitch_confirmed_targets'' \<and>
   truthy_id (ctx_player_id snap) \<and> get_player_by_id g (ctx_player_id snap) \<noteq> None \<longrightarrow>
   resume_original_ability_after_killer_interaction g (Some snap) killer_action_result =
     (g\<lparr>active_ability_context := None, current_player_id := Some (ctx_player_id snap)\<rparr>,
      [PrivateMessage (ctx_player_id snap) ''effect_is_lost'', Await advance_turn_or_continue_sequence])"
  by (simp add: resume_original_ability_after_killer_interaction_def Let_def
        snitch_step_not_confirm snitch_step_not_select)

theorem resume_loses_confirmed_snitch_witness:
  "(case check_for_killer_reaction ex_snitch (IntId 101) (IntId 102) ''The Snitch'' 7 8 9 of
      (started, g1, e1) \<Rightarrow>
        started \<and>
        map_option (step \<circ> ctx) (active_ability_context g1) = Some ''killer_prompt_for_use'' \<and>
        map_option original_ability_context_snapshot (active_ability_context g1)
          = Some (Some ex_snitch_snapshot) \<and>
        card_name ex_snitch_snapshot = ''The Snitch'' \<and>
        step ex_snitch_snapshot = ''snitch_confirmed_targets'' \<and>
        truthy_id (ctx_player_id ex_snitch_snapshot) \<and>
        get_player_by_id (g1\<lparr>active_ability_context := None\<rparr>) (ctx_player_id ex_snitch_snapshot) \<noteq> None \<and>
        resume_original_ability_after_killer_interaction (g1\<lparr>active_ability_context := None\<rparr>)
            (Some ex_snitch_snapshot) ''declined''
          = (g1\<lparr>active_ability_context := None,
                 current_player_id := Some (ctx_player_id ex_snitch_snapshot)\<rparr>,
             [PrivateMessage (ctx_player_id ex_snitch_snapshot) ''effect_is_lost'',
              Await advance_turn_or_continue_sequence]) \<and>
        snd (cb_killer_decline g1 102 102 9)
          = [CancelJob ''killer_react_timeout'',
             GroupMessage ''declined_to_use_killer'' [IntId 102, IntId 101],
             PrivateMessage (IntId 101) ''effect_is_lost'',
             Await advance_turn_or_continue_sequence] \<and>
        active_ability_context (fst (cb_killer_decline g1 102 102 9)) = None \<and>
        deck (fst (cb_killer_decline g1 102 102 9)) = deck ex_snitch \<and>
        map (length \<circ> hand) (all_participants (fst (cb_killer_decline g1 102 102 9))) = [4, 4, 4]) \<and>
   map (length \<circ> hand)
       (all_participants (fst (execute_the_snitch_ability ex_snitch (IntId 101) [IntId 102])))
     = [4, 5, 4]"
proof -
  obtain started g1 e1 where c:
    "check_for_killer_reaction ex_snitch (IntId 101) (IntId 102) ''The Snitch'' 7 8 9 = (started, g1, e1)"
    by (cases "check_for_killer_reaction ex_snitch (IntId 101) (IntId 102) ''The Snitch'' 7 8 9") auto
  have s: "started = fst (check_for_killer_reaction ex_snitch (IntId 101) (IntId 102) ''The Snitch'' 7 8 9)"
    and g: "g1 = fst (snd (check_for_killer_reaction ex_snitch (IntId 101) (IntId 102) ''The Snitch'' 7 8 9))"
    using c by simp_all
  have 1: "started" unfolding s by code_simp
  have 2: "map_option (step \<circ> ctx) (active_ability_context g1) = Some ''killer_prompt_for_use''"
    unfolding g by code_simp
  have 3: "map_option original_ability_context_snapshot (active_ability_context g1)
          = Some (Some ex_snitch_snapshot)" unfolding g by code_simp
  have 4: "card_name ex_snitch_snapshot = ''The Snitch'' \<and>
        step ex_snitch_snapshot = ''snitch_confirmed_targets'' \<and>
        truthy_id (ctx_player_id ex_snitch_snapshot)" by code_simp
  have 5: "get_player_by_id (g1\<lparr>active_ability_context := None\<rparr>) (ctx_player_id ex_snitch_snapshot) \<noteq> None"
    unfolding g by code_simp
  have 6: "snd (cb_killer_decline g1 102 102 9)
          = [CancelJob ''killer_react_timeout'',
             GroupMessage ''declined_to_use_killer'' [IntId 102, IntId 101],
             PrivateMessage (IntId 101) ''effect_is_lost'',
             Await advance_turn_or_continue_sequence]" unfolding g by code_simp
  have 7: "active_ability_context (fst (cb_killer_decline g1 102 102 9)) = None" unfolding g by code_simp
  have 8: "deck (fst (cb_killer_decline g1 102 102 9)) = deck ex_snitch" unfolding g by code_simp
  have 9: "map (length \<circ> hand) (all_participants (fst (cb_killer_decline g1 102 102 9))) = [4, 4, 4]"
    unfolding g by code_simp
  have 10: "map (length \<circ> hand)
       (all_participants (fst (execute_the_snitch_ability ex_snitch (IntId 101) [IntId 102])))
     = [4, 5, 4]" by code_simp
  from resume_loses_confirmed_snitch
         [of ex_snitch_snapshot "g1\<lparr>active_ability_context := None\<rparr>" "''declined''"] 4 5
  have 11: "resume_original_ability_after_killer_interaction (g1\<lparr>active_ability_context := None\<rparr>)
            (Some ex_snitch_snapshot) ''declined''
          = (g1\<lparr>active_ability_context := None,
                 current_player_id := Some (ctx_player_id ex_snitch_snapshot)\<rparr>,
             [PrivateMessage (ctx_player_id ex_snitch_snapshot) ''effect_is_lost'',
              Await advance_turn_or_continue_sequence])" by simp
  show ?thesis unfolding c using 1 2 3 4 5 6 7 8 9 10 11 by simp
qed

subsection \<open>Card conservation\<close>

lemma hand_cards_simps [simp]:
  "hand_cards [] = {#}"
  "hand_cards (p # ps) = mset (hand p) + hand_cards ps"
  "hand_cards (ps @ qs) = hand_cards ps + hand_cards qs"
  by (simp_all add: hand_cards_def)

lemma hand_cards_nth:
  "i < length ps \<Longrightarrow>
   hand_cards ps = hand_cards (take i ps) + mset (hand (ps ! i)) + hand_cards (drop (Suc i) ps)"
  by (subst id_take_nth_drop[of i ps]) (simp_all del: append_take_drop_id)

lemma hand_cards_update:
  "i < length ps \<Longrightarrow>
   hand_cards (ps[i := q]) = hand_cards (take i ps) + mset (hand q) + hand_cards (drop (Suc i) ps)"
  by (simp add: upd_conv_take_nth_drop)

lemma mset_nth_split:
  "i < length xs \<Longrightarrow> mset xs = mset (take i xs) + {#xs ! i#} + mset (drop (Suc i) xs)"
  by (subst id_take_nth_drop[of i xs]) (simp_all del: append_take_drop_id)

lemma mset_update_split:
  "i < length xs \<Longrightarrow> mset (xs[i := y]) = mset (take i xs) + {#y#} + mset (drop (Suc i) xs)"
  by (simp add: upd_conv_take_nth_drop)

lemma mset_remove_nth: "mset (remove_nth i xs) = mset (take i xs) + mset (drop (Suc i) xs)"
  by (simp add: remove_nth_def)

lemma cards_in_play_field_updates [simp]:
  "cards_in_play (g\<lparr>phase := ph\<rparr>) = cards_in_play g"
  "cards_in_play (g\<lparr>current_player_id := cp\<rparr>) = cards_in_play g"
  "cards_in_play (g\<lparr>active_ability_context := ac\<rparr>) = cards_in_play g"
  "cards_in_play (g\<lparr>bottle_match_context := bc\<rparr>) = cards_in_play g"
  "cards_in_play (g\<lparr>bottle_match_context_just_ended := je\<rparr>) = cards_in_play g"
  "cards_in_play (g\<lparr>player_turn_context := tc\<rparr>) = cards_in_play g"
  "cards_in_play (g\<lparr>blocked_cards := bl\<rparr>) = cards_in_play g"
  "cards_in_play (g\<lparr>omerta_caller_id := oc\<rparr>) = cards_in_play g"
  "cards_in_play (g\<lparr>final_scores_list := fl\<rparr>) = cards_in_play g"
  by (simp_all add: cards_in_play_def)

lemma card_count_size: "card_count g = size (cards_in_play g)"
proof -
  have "size (hand_cards ps) = sum_list (map (length \<circ> hand) ps)" for ps
    by (induction ps) simp_all
  then show ?thesis by (simp add: card_count_def cards_in_play_def)
qed

text \<open>A change of one hand, in terms of the cards taken out and put in.\<close>

lemma cards_in_play_update_player:
  assumes "i < length (all_participants g)"
  shows "cards_in_play (update_player g i f) + mset (hand (all_participants g ! i))
           = cards_in_play g + mset (hand (f (all_participants g ! i)))"
  using assms
  by (simp add: cards_in_play_def hand_cards_update hand_cards_nth[of i "all_participants g"])


text \<open>The operations one by one.\<close>

lemma bottle_match_conserves:
  "cards_in_play (fst (handle_bottle_match_attempt g p i ai)) = cards_in_play g"
proof (cases "player_index g p")
  case None
  then show ?thesis by (simp add: handle_bottle_match_attempt_def)
next
  case (Some pi)
  then have b: "pi < length (all_participants g)" by (rule player_index_bound)
  show ?thesis
  proof (cases "bottle_match_context g")
    case None
    then show ?thesis by (simp add: handle_bottle_match_attempt_def Some)
  next
    case bc: (Some bc)
    show ?thesis
    proof (cases "phase g \<noteq> BOTTLE_MATCHING_WINDOW \<or> truthy_opt_id (fastest_matcher_id bc) \<or>
                  p \<in> failed_matchers bc \<or> \<not> valid_index i (hand (all_participants g ! pi))")
      case True
      then show ?thesis using Some bc by (auto simp: handle_bottle_match_attempt_def Let_def)
    next
      case False
      then have v: "nat i < length (hand (all_participants g ! pi))" by (simp add: valid_index_nat)
      show ?thesis
      proof (cases "ctype (hand (all_participants g ! pi) ! nat i) = bottle \<and>
                    cvalue (hand (all_participants g ! pi) ! nat i) = discarded_card_value bc")
        case True
        have "fst (handle_bottle_match_attempt g p i ai) =
                (update_player g pi (\<lambda>q. q\<lparr>hand := remove_nth (nat i) (hand q)\<rparr>))
                  \<lparr> discard_pile := discard_pile g @ [hand (all_participants g ! pi) ! nat i],
                    bottle_match_context := None, bottle_match_context_just_ended := True,
                    current_player_id := triggering_player_id bc \<rparr>"
          using Some bc False True by (simp add: handle_bottle_match_attempt_def Let_def)
        then show ?thesis
          using b v
          by (simp add: cards_in_play_def hand_cards_update hand_cards_nth[of pi "all_participants g"]
                mset_remove_nth mset_nth_split[of "nat i" "hand (all_participants g ! pi)"])
      next
        case no: False
        then have no': "(ctype (hand (all_participants g ! pi) ! nat i) = bottle \<and>
                    cvalue (hand (all_participants g ! pi) ! nat i) = discarded_card_value bc) = False"
          by simp
        have "fst (handle_bottle_match_attempt g p i ai) =
                (if deck g \<noteq> []
                 then (update_player (g\<lparr>bottle_match_context :=
                                        Some (bc\<lparr>failed_matchers := insert p (failed_matchers bc)\<rparr>)\<rparr>)
                         pi (\<lambda>q. q\<lparr>hand := hand q @ [last (deck g)]\<rparr>))\<lparr>deck := butlast (deck g)\<rparr>
                 else g\<lparr>bottle_match_context :=
                          Some (bc\<lparr>failed_matchers := insert p (failed_matchers bc)\<rparr>)\<rparr>)"
          using Some bc False by (simp add: handle_bottle_match_attempt_def Let_def no')
        then show ?thesis
          using b
          by (simp add: cards_in_play_def hand_cards_update hand_cards_nth[of pi "all_participants g"]
                mset_butlast_last[of "deck g"])
      qed
    qed
  qed
qed


lemma give_top_card_conserves:
  assumes "ti < length (all_participants g)" "deck g \<noteq> []"
  shows "cards_in_play ((update_player g ti (\<lambda>p. p\<lparr>hand := hand p @ [last (deck g)]\<rparr>))
                         \<lparr>deck := butlast (deck g)\<rparr>) = cards_in_play g"
  using assms
  by (simp add: cards_in_play_def hand_cards_update hand_cards_nth[of ti "all_participants g"]
        mset_butlast_last[of "deck g"])

lemma snitch_give_conserves:
  "cards_in_play (fst (snitch_give targets g)) = cards_in_play g"
proof (induction targets arbitrary: g)
  case Nil
  show ?case by simp
next
  case (Cons t targets)
  show ?case
  proof (cases "player_index g t")
    case None
    then show ?thesis using Cons.IH[of g] by simp
  next
    case (Some ti)
    then have b: "ti < length (all_participants g)" by (rule player_index_bound)
    show ?thesis
    proof (cases "deck g = []")
      case True
      then show ?thesis using Some by (simp add: Let_def)
    next
      case False
      let ?g1 = "(update_player g ti (\<lambda>p. p\<lparr>hand := hand p @ [last (deck g)]\<rparr>))
                   \<lparr>deck := butlast (deck g)\<rparr>"
      have "fst (snitch_give (t # targets) g) = fst (snitch_give targets ?g1)"
        using Some False by (simp add: Let_def split_beta)
      then show ?thesis using Cons.IH[of ?g1] give_top_card_conserves[OF b False] by simp
    qed
  qed
qed

lemma snitch_conserves:
  "cards_in_play (fst (execute_the_snitch_ability g p targets)) = cards_in_play g"
  by (simp add: execute_the_snitch_ability_def split_beta snitch_give_conserves
        split: option.splits)

lemma driver_discard_conserves:
  "driver_discard idxs h d put_back v = (h', d', put_back', v') \<Longrightarrow>
   mset h' + mset d' + mset put_back' = mset h + mset d + mset put_back"
proof (induction idxs arbitrary: h d put_back v)
  case Nil
  then show ?case by simp
next
  case (Cons idx idxs)
  show ?case
  proof (cases "valid_index idx h")
    case False
    then show ?thesis using Cons.IH[of h d put_back v] Cons.prems by simp
  next
    case True
    then have n: "nat idx < length h" by (rule valid_index_nat)
    show ?thesis
    proof (cases "ctype (h ! nat idx) = bottle")
      case b: True
      from Cons.prems True b
      have "driver_discard idxs (remove_nth (nat idx) h) (d @ [h ! nat idx]) put_back (v - {idx})
              = (h', d', put_back', v')" by (simp add: Let_def)
      from Cons.IH[OF this] n show ?thesis
        by (simp add: mset_remove_nth mset_nth_split[of "nat idx" h])
    next
      case b: False
      from Cons.prems True b
      have "driver_discard idxs (remove_nth (nat idx) h) d (put_back @ [h ! nat idx]) (v - {idx})
              = (h', d', put_back', v')" by (simp add: Let_def)
      from Cons.IH[OF this] n show ?thesis
        by (simp add: mset_remove_nth mset_nth_split[of "nat idx" h])
    qed
  qed
qed

lemma draw_penalties_conserves:
  "draw_penalties n h d = (h', d') \<Longrightarrow> mset h' + mset d' = mset h + mset d"
proof (induction n arbitrary: h d)
  case 0
  then show ?case by simp
next
  case (Suc n)
  show ?case
  proof (cases "d = []")
    case True
    then show ?thesis using Suc.prems by simp
  next
    case False
    then have "draw_penalties n (h @ [last d]) (butlast d) = (h', d')" using Suc.prems by simp
    from Suc.IH[OF this] False show ?thesis by (simp add: mset_butlast_last[of d])
  qed
qed

lemma driver_conserves:
  "cards_in_play (fst (execute_the_driver_ability rnd g p idxs)) = cards_in_play g"
proof (cases "player_index g p")
  case None
  then show ?thesis by (simp add: execute_the_driver_ability_def)
next
  case (Some di)
  then have b: "di < length (all_participants g)" by (rule player_index_bound)
  let ?dp = "all_participants g ! di"
  obtain h1 d1 pb v1 where dd:
    "driver_discard (rev (sort idxs)) (hand ?dp) (discard_pile g) [] (viewed_card_indices ?dp)
       = (h1, d1, pb, v1)" by (metis prod_cases4)
  define h2 where "h2 = (if pb \<noteq> [] then shuffle rnd (h1 @ pb) else h1)"
  obtain h3 deck3 where dr: "draw_penalties (length pb) h2 (deck g) = (h3, deck3)"
    by (cases "draw_penalties (length pb) h2 (deck g)") auto
  have m1: "mset h1 + mset d1 + mset pb = mset (hand ?dp) + mset (discard_pile g)"
    using driver_discard_conserves[OF dd] by simp
  have m2: "mset h2 = mset h1 + mset pb" by (simp add: h2_def shuffle_mset)
  have m3: "mset h3 + mset deck3 = mset h2 + mset (deck g)"
    using draw_penalties_conserves[OF dr] .
  have res: "\<exists>v2. fst (execute_the_driver_ability rnd g p idxs) =
          (update_player g di (\<lambda>q. q\<lparr>hand := h3, viewed_card_indices := v2\<rparr>))
             \<lparr>discard_pile := d1, deck := deck3, active_ability_context := None\<rparr>"
    using Some dd dr by (auto simp: execute_the_driver_ability_def Let_def h2_def)
  then obtain v2 where r: "fst (execute_the_driver_ability rnd g p idxs) =
          (update_player g di (\<lambda>q. q\<lparr>hand := h3, viewed_card_indices := v2\<rparr>))
             \<lparr>discard_pile := d1, deck := deck3, active_ability_context := None\<rparr>" ..
  have "cards_in_play (fst (execute_the_driver_ability rnd g p idxs)) =
          mset deck3 + (hand_cards (take di (all_participants g)) + mset h3 +
                        hand_cards (drop (Suc di) (all_participants g))) + mset d1 + mset (safe g)"
    using b by (simp add: r cards_in_play_def hand_cards_update)
  also have "\<dots> = (mset h3 + mset deck3) + mset d1 + hand_cards (take di (all_participants g)) +
                        hand_cards (drop (Suc di) (all_participants g)) + mset (safe g)"
    by (simp add: ac_simps)
  also have "\<dots> = (mset h1 + mset pb + mset (deck g)) + mset d1 + hand_cards (take di (all_participants g)) +
                        hand_cards (drop (Suc di) (all_participants g)) + mset (safe g)"
    by (simp only: m3 m2)
  also have "\<dots> = (mset h1 + mset d1 + mset pb) + mset (deck g) + hand_cards (take di (all_participants g)) +
                        hand_cards (drop (Suc di) (all_participants g)) + mset (safe g)"
    by (simp add: ac_simps)
  also have "\<dots> = (mset (hand ?dp) + mset (discard_pile g)) + mset (deck g) + hand_cards (take di (all_participants g)) +
                        hand_cards (drop (Suc di) (all_participants g)) + mset (safe g)"
    by (simp only: m1)
  also have "\<dots> = cards_in_play g"
    using b by (simp add: cards_in_play_def hand_cards_nth[of di "all_participants g"] ac_simps)
  finally show ?thesis .
qed

lemma safecracker_conserves:
  "cards_in_play (fst (execute_safecracker_exchange g p si hi)) = cards_in_play g"
proof (cases "player_index g p")
  case None
  then show ?thesis by (simp add: execute_safecracker_exchange_def)
next
  case (Some pi)
  then have b: "pi < length (all_participants g)" by (rule player_index_bound)
  show ?thesis
  proof (cases "hand (all_participants g ! pi) \<noteq> [] \<and> safe g \<noteq> [] \<and>
                valid_index hi (hand (all_participants g ! pi)) \<and> valid_index si (safe g)")
    case False
    then show ?thesis using Some by (auto simp: execute_safecracker_exchange_def Let_def)
  next
    case True
    then have v: "nat hi < length (hand (all_participants g ! pi))" "nat si < length (safe g)"
      by (simp_all add: valid_index_nat)
    from True Some b v show ?thesis
      by (simp add: execute_safecracker_exchange_def Let_def cards_in_play_def hand_cards_update
            hand_cards_nth[of pi "all_participants g"] mset_update_split
            mset_nth_split[of "nat hi" "hand (all_participants g ! pi)"]
            mset_nth_split[of "nat si" "safe g"])
  qed
qed

lemma reshuffle_conserves:
  "discard_pile g \<noteq> [] \<Longrightarrow> deck g = [] \<Longrightarrow> cards_in_play (reshuffle_discard_pile rnd g) = cards_in_play g"
  by (simp add: reshuffle_discard_pile_def cards_in_play_def shuffle_mset
        mset_butlast_last[of "discard_pile g"])


lemma cards_in_play_set_drawn_card [simp]:
  "cards_in_play (set_drawn_card g p c s) = cards_in_play g"
  by (simp add: cards_in_play_def)

lemma pending_draw_set_drawn_card [simp]:
  "pending_draw (set_drawn_card g p c s) p = Some c"
  by (simp add: pending_draw_def set_drawn_card_def Let_def)

lemma pending_draw_field_updates [simp]:
  "pending_draw (g\<lparr>deck := d\<rparr>) p = pending_draw g p"
  "pending_draw (g\<lparr>discard_pile := dp\<rparr>) p = pending_draw g p"
  "pending_draw (reshuffle_discard_pile rnd g) p = pending_draw g p"
  by (simp_all add: pending_draw_def reshuffle_discard_pile_def)

lemma guard_field_updates [simp]:
  "turn_callback_guard (set_drawn_card g p c s) u e = turn_callback_guard g u e"
  "turn_callback_guard (g\<lparr>deck := d\<rparr>) u e = turn_callback_guard g u e"
  "turn_callback_guard (g\<lparr>discard_pile := dp\<rparr>) u e = turn_callback_guard g u e"
  "turn_callback_guard (reshuffle_discard_pile rnd g) u e = turn_callback_guard g u e"
  by (simp_all add: turn_callback_guard_def reshuffle_discard_pile_def)

lemma player_index_field_updates [simp]:
  "player_index (set_drawn_card g p c s) q = player_index g q"
  "player_index (g\<lparr>deck := d\<rparr>) q = player_index g q"
  "player_index (g\<lparr>discard_pile := dp\<rparr>) q = player_index g q"
  by (simp_all add: player_index_def)

text \<open>
  A draw takes a card off a pile and holds it for the player; the hands, the phase and the
  current player stay.
\<close>

lemma draw_deck_holds:
  assumes "pending_draw g p = None"
  shows "cards_in_play (fst (handle_player_action_draw_deck rnd g p))
           + held (fst (handle_player_action_draw_deck rnd g p)) p = cards_in_play g"
    and "all_participants (fst (handle_player_action_draw_deck rnd g p)) = all_participants g"
    and "turn_callback_guard (fst (handle_player_action_draw_deck rnd g p)) u e
           = turn_callback_guard g u e"
    and "player_index g p = None \<Longrightarrow>
           pending_draw (fst (handle_player_action_draw_deck rnd g p)) p = None"
proof -
  let ?r = "if deck g = [] \<and> discard_pile g \<noteq> [] then reshuffle_discard_pile rnd g else g"
  have cr: "cards_in_play ?r = cards_in_play g" by (simp add: reshuffle_conserves)
  have pr: "pending_draw ?r p = None" using assms by simp
  have ar: "all_participants ?r = all_participants g" by simp
  have gr: "turn_callback_guard ?r u e = turn_callback_guard g u e" by simp
  have res: "fst (handle_player_action_draw_deck rnd g p) =
               (case player_index g p of
                  None \<Rightarrow> g
                | Some pi \<Rightarrow>
                    if deck ?r = [] then ?r
                    else set_drawn_card (?r\<lparr>deck := butlast (deck ?r)\<rparr>) p (last (deck ?r)) ''deck'')"
    by (simp add: handle_player_action_draw_deck_def Let_def split: option.splits)
  show "cards_in_play (fst (handle_player_action_draw_deck rnd g p))
           + held (fst (handle_player_action_draw_deck rnd g p)) p = cards_in_play g"
  proof (cases "player_index g p")
    case None
    then show ?thesis using assms by (simp add: res held_def)
  next
    case (Some pi)
    show ?thesis
    proof (cases "deck ?r = []")
      case True
      then show ?thesis using Some pr cr by (simp add: res held_def)
    next
      case False
      have "cards_in_play (?r\<lparr>deck := butlast (deck ?r)\<rparr>) + {#last (deck ?r)#} = cards_in_play ?r"
        using False by (simp add: cards_in_play_def mset_butlast_last[of "deck ?r"])
      then show ?thesis using Some False cr by (simp add: res held_def)
    qed
  qed
  show "all_participants (fst (handle_player_action_draw_deck rnd g p)) = all_participants g"
    using ar by (simp add: res split: option.splits)
  show "turn_callback_guard (fst (handle_player_action_draw_deck rnd g p)) u e
           = turn_callback_guard g u e"
    using gr by (simp add: res split: option.splits)
  show "pending_draw (fst (handle_player_action_draw_deck rnd g p)) p = None"
    if "player_index g p = None"
    using that assms by (simp add: res)
qed

lemma draw_discard_holds:
  assumes "pending_draw g p = None"
  shows "cards_in_play (fst (handle_player_action_draw_discard g p))
           + held (fst (handle_player_action_draw_discard g p)) p = cards_in_play g"
    and "all_participants (fst (handle_player_action_draw_discard g p)) = all_participants g"
    and "turn_callback_guard (fst (handle_player_action_draw_discard g p)) u e
           = turn_callback_guard g u e"
    and "player_index g p = None \<Longrightarrow>
           pending_draw (fst (handle_player_action_draw_discard g p)) p = None"
proof -
  let ?can = "ctype (last (discard_pile g)) = bottle \<or>
              (ctype (last (discard_pile g)) = character \<and> cname (last (discard_pile g)) = ''The Alibi'')"
  have res: "fst (handle_player_action_draw_discard g p) =
               (case player_index g p of
                  None \<Rightarrow> g
                | Some pi \<Rightarrow>
                    if discard_pile g = [] \<or> \<not> ?can then g
                    else set_drawn_card (g\<lparr>discard_pile := butlast (discard_pile g)\<rparr>) p
                           (last (discard_pile g)) ''discard'')"
    by (auto simp: handle_player_action_draw_discard_def Let_def split: option.splits)
  show "cards_in_play (fst (handle_player_action_draw_discard g p))
           + held (fst (handle_player_action_draw_discard g p)) p = cards_in_play g"
  proof (cases "player_index g p")
    case None
    then show ?thesis using assms by (simp add: res held_def)
  next
    case (Some pi)
    show ?thesis
    proof (cases "discard_pile g = [] \<or> \<not> ?can")
      case True
      then show ?thesis using Some assms by (simp add: res held_def)
    next
      case False
      then have ne: "discard_pile g \<noteq> []" by simp
      have "cards_in_play (g\<lparr>discard_pile := butlast (discard_pile g)\<rparr>) + {#last (discard_pile g)#}
              = cards_in_play g"
        using ne by (simp add: cards_in_play_def mset_butlast_last[of "discard_pile g"])
      then show ?thesis using Some False by (simp add: res held_def)
    qed
  qed
  show "all_participants (fst (handle_player_action_draw_discard g p)) = all_participants g"
    by (simp add: res split: option.splits)
  show "turn_callback_guard (fst (handle_player_action_draw_discard g p)) u e
           = turn_callback_guard g u e"
    by (simp add: res split: option.splits)
  show "pending_draw (fst (handle_player_action_draw_discard g p)) p = None"
    if "player_index g p = None"
    using that assms by (simp add: res)
qed

lemma replacement_takes_card:
  assumes "player_index g p = Some pi" "valid_index idx (hand (all_participants g ! pi))"
  shows "cards_in_play (fst (process_card_replacement g p idx c src)) = cards_in_play g + {#c#}"
proof -
  have b: "pi < length (all_participants g)" using assms(1) by (rule player_index_bound)
  have n: "nat idx < length (hand (all_participants g ! pi))" using assms(2) by (rule valid_index_nat)
  show ?thesis
    using assms b n
    by (simp add: process_card_replacement_def Let_def cards_in_play_def hand_cards_update
          hand_cards_nth[of pi "all_participants g"] mset_update_split
          mset_nth_split[of "nat idx" "hand (all_participants g ! pi)"])
qed

text \<open>The second half of a replacement puts the held card into play.\<close>

lemma select_releases:
  assumes "case player_index g (IntId user) of
             None \<Rightarrow> pending_draw g (IntId user) = None
           | Some pi \<Rightarrow> valid_index idx (hand (all_participants g ! pi))"
    and "turn_callback_guard g user user \<or> pending_draw g (IntId user) = None"
  shows "cards_in_play (fst (cb_replace_hand_card_select g user user idx))
           = cards_in_play g + held g (IntId user)"
proof (cases "turn_callback_guard g user user")
  case False
  then show ?thesis using assms(2) by (simp add: cb_replace_hand_card_select_def held_def)
next
  case True
  show ?thesis
  proof (cases "pending_draw g (IntId user)")
    case None
    then have "drawn_card (case player_turn_context g (IntId user) of Some t \<Rightarrow> t | None \<Rightarrow> empty_turn_ctx) = None"
      by (simp add: pending_draw_def empty_turn_ctx_def split: option.splits)
    then show ?thesis using True None
      by (simp add: cb_replace_hand_card_select_def Let_def held_def)
  next
    case (Some c)
    then have dc: "drawn_card (case player_turn_context g (IntId user) of Some t \<Rightarrow> t | None \<Rightarrow> empty_turn_ctx) = Some c"
      by (simp add: pending_draw_def empty_turn_ctx_def split: option.splits)
    from Some assms(1) obtain pi where pi: "player_index g (IntId user) = Some pi"
      and v: "valid_index idx (hand (all_participants g ! pi))"
      by (cases "player_index g (IntId user)") auto
    show ?thesis using True Some dc replacement_takes_card[OF pi v]
      by (simp add: cb_replace_hand_card_select_def Let_def held_def split_beta)
  qed
qed

lemma cancel_releases:
  assumes "turn_callback_guard g user user \<or> pending_draw g (IntId user) = None"
  shows "cards_in_play (fst (cb_replace_hand_card_cancel_overall g user user))
           = cards_in_play g + held g (IntId user)"
  using assms
  by (auto simp: cb_replace_hand_card_cancel_overall_def Let_def held_def pending_draw_def
        cards_in_play_def split: option.splits)


lemma replace_from_deck_conserves:
  assumes "legal_replacement g user idx"
  shows "cards_in_play (fst (replace_from_deck rnd g user idx)) = cards_in_play g"
proof -
  from assms have pend: "pending_draw g (IntId user) = None"
    and val: "case player_index g (IntId user) of None \<Rightarrow> True
              | Some pi \<Rightarrow> valid_index idx (hand (all_participants g ! pi))"
    by (simp_all add: legal_replacement_def)
  let ?g1 = "fst (cb_turn_draw_deck rnd g user user)"
  have r: "fst (replace_from_deck rnd g user idx) = fst (cb_replace_hand_card_select ?g1 user user idx)"
    by (simp add: replace_from_deck_def split_beta)
  show ?thesis
  proof (cases "turn_callback_guard g user user")
    case False
    then have "?g1 = g" by (simp add: cb_turn_draw_deck_def)
    then show ?thesis using False by (simp add: r cb_replace_hand_card_select_def)
  next
    case True
    then have g1: "?g1 = fst (handle_player_action_draw_deck rnd g (IntId user))"
      by (simp add: cb_turn_draw_deck_def)
    note d = draw_deck_holds[OF pend, of rnd]
    have pi: "player_index ?g1 (IntId user) = player_index g (IntId user)"
      by (simp add: g1 player_index_def d(2))
    have ap: "all_participants ?g1 = all_participants g" by (simp add: g1 d(2))
    have pn: "pending_draw ?g1 (IntId user) = None" if "player_index g (IntId user) = None"
      using d(4)[OF that] by (simp add: g1)
    have a1: "case player_index ?g1 (IntId user) of
                None \<Rightarrow> pending_draw ?g1 (IntId user) = None
              | Some pi \<Rightarrow> valid_index idx (hand (all_participants ?g1 ! pi))"
      using val pn by (simp add: pi ap split: option.splits)
    have a2: "turn_callback_guard ?g1 user user \<or> pending_draw ?g1 (IntId user) = None"
      using True by (simp add: g1 d(3))
    show ?thesis
      using select_releases[OF a1 a2] d(1) by (simp add: r g1)
  qed
qed

lemma replace_from_discard_conserves:
  assumes "legal_replacement g user idx"
  shows "cards_in_play (fst (replace_from_discard g user idx)) = cards_in_play g"
proof -
  from assms have pend: "pending_draw g (IntId user) = None"
    and val: "case player_index g (IntId user) of None \<Rightarrow> True
              | Some pi \<Rightarrow> valid_index idx (hand (all_participants g ! pi))"
    by (simp_all add: legal_replacement_def)
  let ?g1 = "fst (cb_turn_draw_discard g user user)"
  have r: "fst (replace_from_discard g user idx) = fst (cb_replace_hand_card_select ?g1 user user idx)"
    by (simp add: replace_from_discard_def split_beta)
  show ?thesis
  proof (cases "turn_callback_guard g user user")
    case False
    then have "?g1 = g" by (simp add: cb_turn_draw_discard_def)
    then show ?thesis using False by (simp add: r cb_replace_hand_card_select_def)
  next
    case True
    then have g1: "?g1 = fst (handle_player_action_draw_discard g (IntId user))"
      by (simp add: cb_turn_draw_discard_def)
    note d = draw_discard_holds[OF pend]
    have pi: "player_index ?g1 (IntId user) = player_index g (IntId user)"
      by (simp add: g1 player_index_def d(2))
    have ap: "all_participants ?g1 = all_participants g" by (simp add: g1 d(2))
    have pn: "pending_draw ?g1 (IntId user) = None" if "player_index g (IntId user) = None"
      using d(4)[OF that] by (simp add: g1)
    have a1: "case player_index ?g1 (IntId user) of
                None \<Rightarrow> pending_draw ?g1 (IntId user) = None
              | Some pi \<Rightarrow> valid_index idx (hand (all_participants ?g1 ! pi))"
      using val pn by (simp add: pi ap split: option.splits)
    have a2: "turn_callback_guard ?g1 user user \<or> pending_draw ?g1 (IntId user) = None"
      using True by (simp add: g1 d(3))
    show ?thesis
      using select_releases[OF a1 a2] d(1) by (simp add: r g1)
  qed
qed

lemma draw_deck_and_cancel_conserves:
  assumes "pending_draw g (IntId user) = None"
  shows "cards_in_play (fst (draw_deck_and_cancel rnd g user)) = cards_in_play g"
proof -
  let ?g1 = "fst (cb_turn_draw_deck rnd g user user)"
  have r: "fst (draw_deck_and_cancel rnd g user) = fst (cb_replace_hand_card_cancel_overall ?g1 user user)"
    by (simp add: draw_deck_and_cancel_def split_beta)
  show ?thesis
  proof (cases "turn_callback_guard g user user")
    case False
    then have "?g1 = g" by (simp add: cb_turn_draw_deck_def)
    then show ?thesis using False by (simp add: r cb_replace_hand_card_cancel_overall_def)
  next
    case True
    then have g1: "?g1 = fst (handle_player_action_draw_deck rnd g (IntId user))"
      by (simp add: cb_turn_draw_deck_def)
    note d = draw_deck_holds[OF assms, of rnd]
    have a2: "turn_callback_guard ?g1 user user \<or> pending_draw ?g1 (IntId user) = None"
      using True by (simp add: g1 d(3))
    show ?thesis using cancel_releases[OF a2] d(1) by (simp add: r g1)
  qed
qed

lemma draw_discard_and_cancel_conserves:
  assumes "pending_draw g (IntId user) = None"
  shows "cards_in_play (fst (draw_discard_and_cancel g user)) = cards_in_play g"
proof -
  let ?g1 = "fst (cb_turn_draw_discard g user user)"
  have r: "fst (draw_discard_and_cancel g user) = fst (cb_replace_hand_card_cancel_overall ?g1 user user)"
    by (simp add: draw_discard_and_cancel_def split_beta)
  show ?thesis
  proof (cases "turn_callback_guard g user user")
    case False
    then have "?g1 = g" by (simp add: cb_turn_draw_discard_def)
    then show ?thesis using False by (simp add: r cb_replace_hand_card_cancel_overall_def)
  next
    case True
    then have g1: "?g1 = fst (handle_player_action_draw_discard g (IntId user))"
      by (simp add: cb_turn_draw_discard_def)
    note d = draw_discard_holds[OF assms]
    have a2: "turn_callback_guard ?g1 user user \<or> pending_draw ?g1 (IntId user) = None"
      using True by (simp add: g1 d(3))
    show ?thesis using cancel_releases[OF a2] d(1) by (simp add: r g1)
  qed
qed

text \<open>The settlement scores the hands and leaves the cards where they are.\<close>

lemma hand_cards_cong: "map hand ps = map hand qs \<Longrightarrow> hand_cards ps = hand_cards qs"
  by (simp add: hand_cards_def)

lemma map_hand_score_hands: "map hand (score_hands c ps) = map hand ps"
  by (simp add: score_hands_def)

lemma map_hand_score_update:
  "map hand (ps[i := (ps ! i)\<lparr>score_this_round := x\<rparr>]) = map hand ps"
  by (cases "i < length ps") (simp_all add: map_update list_update_same_conv list_update_beyond)

lemma map_hand_determine_winner:
  "map hand (snd (determine_winner ci elig ps)) = map hand ps"
  by (simp add: determine_winner_def Let_def map_hand_score_update split: option.splits)

lemma omerta_cancel_contexts_cards:
  "cards_in_play (fst (omerta_cancel_contexts g)) = cards_in_play g"
  by (simp add: omerta_cancel_contexts_def split_beta split: option.splits)

lemma cards_in_play_set_participants:
  "cards_in_play (set_participants g ps) = mset (deck g) + hand_cards ps + mset (discard_pile g) + mset (safe g)"
  by (simp add: cards_in_play_def all_participants_set_participants) (simp add: set_participants_def)

lemma omerta_call_conserves:
  "cards_in_play (fst (handle_omerta_call g caller f1 f2)) = cards_in_play g"
proof (cases "phase g = OMERTA_CALLED \<or> phase g = COMPLETED")
  case True
  then show ?thesis by (auto simp: handle_omerta_call_def)
next
  case False
  let ?g1 = "fst (omerta_cancel_contexts g)"
  have c: "cards_in_play ?g1 = mset (deck ?g1) + hand_cards (all_participants ?g1)
             + mset (discard_pile ?g1) + mset (safe ?g1)"
    by (simp add: cards_in_play_def)
  have h: "hand_cards (snd (determine_winner ci elig (score_hands caller (all_participants ?g1))))
             = hand_cards (all_participants ?g1)" for ci elig
    by (rule hand_cards_cong) (simp add: map_hand_determine_winner map_hand_score_hands)
  show ?thesis
    using False
    by (simp add: handle_omerta_call_def Let_def split_beta cards_in_play_set_participants h
          c[symmetric] omerta_cancel_contexts_cards)
qed

lemma ai_turn_nonempty_conserves:
  assumes "player_index g ai_player_id = Some pi" "is_ai (all_participants g ! pi)"
    "hand (all_participants g ! pi) \<noteq> []" "deck g \<noteq> []"
  shows "cards_in_play (fst (handle_ai_player_turn rnd r g ai_player_id)) = cards_in_play g"
proof -
  have b: "pi < length (all_participants g)" using assms(1) by (rule player_index_bound)
  let ?k = "r mod length (hand (all_participants g ! pi))"
  have k: "?k < length (hand (all_participants g ! pi))" using assms(3) by simp
  show ?thesis
    unfolding ai_turn_nonempty[OF assms]
    using b k assms(4)
    by (simp add: cards_in_play_def hand_cards_update
          hand_cards_nth[of pi "all_participants g"] mset_update_split
          mset_nth_split[of ?k "hand (all_participants g ! pi)"]
          mset_butlast_last[of "deck g"])
qed

lemma ai_turn_conserves:
  "cards_in_play (fst (handle_ai_player_turn rnd r g ai_player_id)) = cards_in_play g"
proof (cases "player_index g ai_player_id")
  case None
  then show ?thesis by (simp add: handle_ai_player_turn_def)
next
  case (Some pi)
  show ?thesis
  proof (cases "\<not> is_ai (all_participants g ! pi) \<or> hand (all_participants g ! pi) = []")
    case True
    then show ?thesis using Some
      by (auto simp: handle_ai_player_turn_def Let_def split_beta omerta_call_conserves)
  next
    case False
    then have ne: "hand (all_participants g ! pi) \<noteq> []" and ai: "is_ai (all_participants g ! pi)"
      by simp_all
    show ?thesis
    proof (cases "deck g = []")
      case dk: False
      then show ?thesis by (rule ai_turn_nonempty_conserves[OF Some ai ne])
    next
      case dk: True
      show ?thesis
      proof (cases "discard_pile g = []")
        case True
        have "fst (handle_ai_player_turn rnd r g ai_player_id)
                = fst (handle_omerta_call g (Some ai_player_id) False True)"
          using Some ai ne dk True by (simp add: handle_ai_player_turn_def Let_def split_beta)
        then show ?thesis by (simp add: omerta_call_conserves)
      next
        case dp: False
        let ?g1 = "reshuffle_discard_pile rnd g"
        have c1: "cards_in_play ?g1 = cards_in_play g" using dp dk by (rule reshuffle_conserves)
        note eq = ai_turn_after_reshuffle[OF dk dp Some ai ne, of rnd r]
        show ?thesis
        proof (cases "deck ?g1 = []")
          case True
          then show ?thesis using c1 by (simp add: eq omerta_call_conserves)
        next
          case False
          have p1: "player_index ?g1 ai_player_id = Some pi" using Some by simp
          have "cards_in_play (fst (handle_ai_player_turn rnd r ?g1 ai_player_id)) = cards_in_play ?g1"
            using ai ne by (intro ai_turn_nonempty_conserves[OF p1 _ _ False]) simp_all
          then show ?thesis using False c1 by (simp add: eq)
        qed
      qed
    qed
  qed
qed

text \<open>Runs of operations.\<close>

lemma apply_op_conserves:
  "legal_op g op \<Longrightarrow> cards_in_play (apply_op g op) = cards_in_play g"
  by (cases op)
     (simp_all add: replace_from_deck_conserves replace_from_discard_conserves
        draw_deck_and_cancel_conserves draw_discard_and_cancel_conserves ai_turn_conserves
        bottle_match_conserves snitch_conserves driver_conserves safecracker_conserves
        reshuffle_conserves)

lemma run_ops_conserves:
  "run_ops g ops = Some g' \<Longrightarrow> cards_in_play g' = cards_in_play g"
proof (induction ops arbitrary: g)
  case Nil
  then show ?case by simp
next
  case (Cons op ops)
  from Cons.prems have l: "legal_op g op" and r: "run_ops (apply_op g op) ops = Some g'"
    by (simp_all split: if_splits)
  from Cons.IH[OF r] apply_op_conserves[OF l] show ?case by simp
qed

text \<open>
  Claim C5.  Every legal operation of a round leaves the multiset of the cards in the deck,
  the hands, the discard pile and the safe as it was: the replacement of a hand card by a
  card drawn from the deck or from the discard pile (also when the draw reshuffles, and
  when the player cancels and the drawn card is discarded), the turn of an AI player, a
  bottle-match attempt that succeeds or fails, the gifts of The Snitch, the discards of
  The Driver with the return of the cards that are no bottles and the penalty cards, the
  exchange of The Safecracker, and the reshuffle.  So after every run of legal operations
  each card occurs in the four containers as often as before, and their number is the
  same.
\<close>

theorem card_conservation:
  "(legal_op g op \<longrightarrow> cards_in_play (apply_op g op) = cards_in_play g) \<and>
   (run_ops g ops = Some g' \<longrightarrow>
      cards_in_play g' = cards_in_play g \<and> card_count g' = card_count g)"
  using apply_op_conserves[of g op] run_ops_conserves[of g ops g']
  by (simp add: card_count_size)

theorem card_conservation_witness:
  "legal_op ex_play (ReplaceFromDeck (\<lambda>i. 0) 102 1) \<and>
   cards_in_play (apply_op ex_play (ReplaceFromDeck (\<lambda>i. 0) 102 1)) = cards_in_play ex_play \<and>
   pile_sizes ex_play = (2, [4, 4, 4], 1, 4) \<and>
   pile_sizes (apply_op ex_play (ReplaceFromDeck (\<lambda>i. 0) 102 1)) = (1, [4, 4, 4], 2, 4) \<and>
   map_option pile_sizes (run_ops ex_play ex_ops) = Some (1, [3, 5, 4], 2, 4) \<and>
   run_ops ex_play ex_ops = Some (the (run_ops ex_play ex_ops)) \<and>
   cards_in_play (the (run_ops ex_play ex_ops)) = cards_in_play ex_play \<and>
   card_count (the (run_ops ex_play ex_ops)) = card_count ex_play \<and>
   card_count ex_play = 19 \<and>
   pile_sizes ex_window = (2, [4, 4, 4], 1, 4) \<and>
   map_option pile_sizes (run_ops ex_window ex_window_ops) = Some (1, [4, 3, 5], 2, 4) \<and>
   run_ops ex_window ex_window_ops = Some (the (run_ops ex_window ex_window_ops)) \<and>
   cards_in_play (the (run_ops ex_window ex_window_ops)) = cards_in_play ex_window \<and>
   card_count (the (run_ops ex_window ex_window_ops)) = card_count ex_window \<and>
   run_ops ex_play [ReplaceFromDeck (\<lambda>i. 0) 102 7] = None"
proof -
  have l: "legal_op ex_play (ReplaceFromDeck (\<lambda>i. 0) 102 1)" by code_simp
  have s0: "pile_sizes ex_play = (2, [4, 4, 4], 1, 4)" by code_simp
  have s1: "pile_sizes (apply_op ex_play (ReplaceFromDeck (\<lambda>i. 0) 102 1)) = (1, [4, 4, 4], 2, 4)"
    by code_simp
  have s2: "map_option pile_sizes (run_ops ex_play ex_ops) = Some (1, [3, 5, 4], 2, 4)" by code_simp
  have n: "card_count ex_play = 19" by code_simp
  have w0: "pile_sizes ex_window = (2, [4, 4, 4], 1, 4)" by code_simp
  have w2: "map_option pile_sizes (run_ops ex_window ex_window_ops) = Some (1, [4, 3, 5], 2, 4)"
    by code_simp
  have il: "run_ops ex_play [ReplaceFromDeck (\<lambda>i. 0) 102 7] = None" by code_simp
  have r1: "run_ops ex_play ex_ops = Some (the (run_ops ex_play ex_ops))"
    using s2 by (cases "run_ops ex_play ex_ops") simp_all
  have r2: "run_ops ex_window ex_window_ops = Some (the (run_ops ex_window ex_window_ops))"
    using w2 by (cases "run_ops ex_window ex_window_ops") simp_all
  note A = card_conservation[where g=ex_play and op="ReplaceFromDeck (\<lambda>i. 0) 102 1"
      and ops=ex_ops and g'="the (run_ops ex_play ex_ops)"]
  note B = card_conservation[where g=ex_window and op="Reshuffle (\<lambda>i. 0)"
      and ops=ex_window_ops and g'="the (run_ops ex_window ex_window_ops)"]
  have a1: "cards_in_play (apply_op ex_play (ReplaceFromDeck (\<lambda>i. 0) 102 1)) = cards_in_play ex_play"
    using A l by blast
  have a2: "cards_in_play (the (run_ops ex_play ex_ops)) = cards_in_play ex_play \<and>
            card_count (the (run_ops ex_play ex_ops)) = card_count ex_play"
    using A r1 by blast
  have b2: "cards_in_play (the (run_ops ex_window ex_window_ops)) = cards_in_play ex_window \<and>
            card_count (the (run_ops ex_window ex_window_ops)) = card_count ex_window"
    using B r2 by blast
  show ?thesis
    apply (insert l s0 s1 s2 n w0 w2 il r1 r2 a1 a2 b2)
    apply (elim conjE)
    apply (intro conjI)
    apply assumption+
    done
qed

end
